(* ===== verification/Prelude.thy ===== *)
theory Prelude
  imports Main "HOL-Library.Sublist"
begin

text \<open>
  Shared vocabulary of the development: the types that name the program's data, the
  Python string operations the code calls (\<open>in\<close>, \<open>startswith\<close>, \<open>upper\<close>,
  \<open>lower\<close>, \<open>count\<close>, \<open>join\<close>, \<open>rstrip\<close>, \<open>os.path.basename\<close>, \<open>str\<close> of an
  \<open>int\<close>) as executable functions, and the generic lemmas on them that the component
  theories use.

  A Python \<open>str\<close> is modelled as a \<open>string\<close>, one \<open>char\<close> per code point; the
  model covers text whose code points are below 256 (Latin-1). Case mapping is exact on
  ASCII letters and the identity elsewhere, which is what \<open>str.upper\<close> and
  \<open>str.lower\<close> do on ASCII text.
\<close>

type_synonym pystr = string
type_synonym ipaddr = string
text \<open>Timestamps are \<open>datetime\<close> values at microsecond resolution, as integers.\<close>
type_synonym timestamp = int

text \<open>The exceptions the modelled code raises or catches.\<close>

datatype py_error =
    AttributeError  \<comment> \<open>a \<open>str\<close> method called on a value that is not a \<open>str\<close>\<close>
  | DatabaseError   \<comment> \<open>the SQLite store refused a query or a commit\<close>
  | PredictError    \<comment> \<open>\<open>model.predict\<close> raised\<close>
  | BadRequest      \<comment> \<open>Flask's non-silent \<open>get_json\<close> on a body that is not JSON\<close>
  | OSError         \<comment> \<open>\<open>open\<close> of a file raised\<close>
  | ValueError      \<comment> \<open>\<open>int()\<close> of a text that is not an integer\<close>

named_theorems py_simps "evaluation rules of the modelled Python string operations"

subsection \<open>Substring tests\<close>

text \<open>\<open>s.startswith(p)\<close>, by recursion on both strings.\<close>

fun py_startswith :: "pystr \<Rightarrow> pystr \<Rightarrow> bool" where
  "py_startswith s [] = True"
| "py_startswith [] (p # ps) = False"
| "py_startswith (c # cs) (p # ps) = (c = p \<and> py_startswith cs ps)"

text \<open>\<open>needle in hay\<close> on strings: the needle starts at some position of the hay
  (the empty needle is in every string, also in the empty one).\<close>

fun py_in :: "pystr \<Rightarrow> pystr \<Rightarrow> bool" where
  "py_in n [] = (n = [])"
| "py_in n (c # cs) = (py_startswith (c # cs) n \<or> py_in n cs)"

subsection \<open>Case mapping\<close>

definition py_upper_char :: "char \<Rightarrow> char" where
  "py_upper_char c =
     (let n = (of_char c :: nat) in if 97 \<le> n \<and> n \<le> 122 then char_of (n - 32) else c)"

definition py_lower_char :: "char \<Rightarrow> char" where
  "py_lower_char c =
     (let n = (of_char c :: nat) in if 65 \<le> n \<and> n \<le> 90 then char_of (n + 32) else c)"

definition py_upper :: "pystr \<Rightarrow> pystr" where
  "py_upper s = map py_upper_char s"

definition py_lower :: "pystr \<Rightarrow> pystr" where
  "py_lower s = map py_lower_char s"

subsection \<open>Joining, stripping, paths, numbers\<close>

text \<open>\<open>sep.join(xs)\<close>.\<close>

fun py_join :: "pystr \<Rightarrow> pystr list \<Rightarrow> pystr" where
  "py_join sep [] = []"
| "py_join sep [x] = x"
| "py_join sep (x # y # xs) = x @ sep @ py_join sep (y # xs)"

text \<open>\<open>s.rstrip(c)\<close> for a single character \<open>c\<close>.\<close>

definition py_rstrip :: "char \<Rightarrow> pystr \<Rightarrow> pystr" where
  "py_rstrip c s = rev (dropWhile (\<lambda>x. x = c) (rev s))"

text \<open>\<open>posixpath.basename(p)\<close>: \<open>p[p.rfind('/') + 1:]\<close>.\<close>

definition py_basename :: "pystr \<Rightarrow> pystr" where
  "py_basename p = rev (takeWhile (\<lambda>x. x \<noteq> CHR ''/'') (rev p))"

text \<open>\<open>posixpath.join(a, b)\<close> for a relative \<open>b\<close> and a directory \<open>a\<close> not ending
  in a slash; an absolute \<open>b\<close> replaces \<open>a\<close>.\<close>

definition py_path_join :: "pystr \<Rightarrow> pystr \<Rightarrow> pystr" where
  "py_path_join a b =
     (if py_startswith b ''/'' then b
      else if a = [] \<or> last a = CHR ''/'' then a @ b else a @ ''/'' @ b)"

text \<open>The decimal digits of a natural number, most significant first (\<open>str(n)\<close>).\<close>

definition digit_char :: "nat \<Rightarrow> char" where
  "digit_char d = ''0123456789'' ! d"

fun nat_digits :: "nat \<Rightarrow> pystr" where
  "nat_digits n =
     (if n < 10 then [digit_char n] else nat_digits (n div 10) @ [digit_char (n mod 10)])"

definition py_str_int :: "int \<Rightarrow> pystr" where
  "py_str_int i = (if i < 0 then CHR ''-'' # nat_digits (nat (- i)) else nat_digits (nat i))"

text \<open>\<open>s.title()\<close>: a letter is upper-cased after a character that is not a letter
  and lower-cased after a letter (on ASCII letters, the cased characters of the model).\<close>

definition is_ascii_letter :: "char \<Rightarrow> bool" where
  "is_ascii_letter c \<longleftrightarrow> (let n = (of_char c :: nat) in (65 \<le> n \<and> n \<le> 90) \<or> (97 \<le> n \<and> n \<le> 122))"

fun py_title_from :: "bool \<Rightarrow> pystr \<Rightarrow> pystr" where
  "py_title_from prev [] = []"
| "py_title_from prev (c # cs) =
     (if is_ascii_letter c then (if prev then py_lower_char c else py_upper_char c) # py_title_from True cs
      else c # py_title_from False cs)"

definition py_title :: "pystr \<Rightarrow> pystr" where
  "py_title s = py_title_from False s"

text \<open>\<open>str.isspace()\<close> on a Latin-1 character (\<open>Py_UNICODE_ISSPACE\<close>): tab to carriage
  return, the separators 0x1C--0x1F, space, 0x85 and the no-break space 0xA0.\<close>

definition py_isspace :: "char \<Rightarrow> bool" where
  "py_isspace c \<longleftrightarrow>
     (let n = (of_char c :: nat) in (9 \<le> n \<and> n \<le> 13) \<or> (28 \<le> n \<and> n \<le> 32) \<or> n = 133 \<or> n = 160)"

text \<open>\<open>s.strip()\<close>.\<close>

definition py_strip :: "pystr \<Rightarrow> pystr" where
  "py_strip s = rev (dropWhile py_isspace (rev (dropWhile py_isspace s)))"

definition is_ascii_digit :: "char \<Rightarrow> bool" where
  "is_ascii_digit c \<longleftrightarrow> (let n = (of_char c :: nat) in 48 \<le> n \<and> n \<le> 57)"

text \<open>The value of a string of decimal digits.\<close>

definition decimal_value :: "pystr \<Rightarrow> nat" where
  "decimal_value ds = foldl (\<lambda>n c. 10 * n + (of_char c - 48)) 0 ds"

text \<open>The digit part of a base-10 integer literal as \<open>int()\<close> accepts it: digits, with
  single underscores between digits.\<close>

fun int_digits_ok :: "pystr \<Rightarrow> bool" where
  "int_digits_ok [] = False"
| "int_digits_ok [c] = is_ascii_digit c"
| "int_digits_ok (c # d # cs) =
     (is_ascii_digit c \<and>
      (if d = CHR ''_'' then (case cs of e # _ \<Rightarrow> is_ascii_digit e \<and> int_digits_ok cs | [] \<Rightarrow> False)
       else int_digits_ok (d # cs)))"

text \<open>\<open>int(s)\<close> on a string: surrounding white space is stripped, an optional sign is
  followed by the digits; anything else raises \<open>ValueError\<close> (\<open>None\<close>).\<close>

definition py_int_parse :: "pystr \<Rightarrow> int option" where
  "py_int_parse s =
     (let t = py_strip s;
          (neg, u) = (case t of
                        c # r \<Rightarrow> (if c = CHR ''-'' then (True, r) else if c = CHR ''+'' then (False, r)
                                 else (False, t))
                      | [] \<Rightarrow> (False, []))
      in if int_digits_ok u then
           Some ((if neg then -1 else 1) * int (decimal_value (filter (\<lambda>c. c \<noteq> CHR ''_'') u)))
         else None)"

declare nat_digits.simps [simp del]

subsection \<open>Lemmas on the string operations\<close>

lemma py_startswith_prefix: "py_startswith s p \<longleftrightarrow> prefix p s"
  by (induction s p rule: py_startswith.induct) auto

lemma py_in_sublist: "py_in n s \<longleftrightarrow> sublist n s"
  by (induction s) (auto simp: py_startswith_prefix sublist_Cons_right)

lemma py_in_append_left [intro]: "py_in n t \<Longrightarrow> py_in n (s @ t)"
  by (simp add: py_in_sublist sublist_append_leftI sublist_order.order.trans)

lemma py_in_append_right [intro]: "py_in n s \<Longrightarrow> py_in n (s @ t)"
  by (simp add: py_in_sublist sublist_append_rightI sublist_order.order.trans)

lemma py_in_appendI [intro]: "py_in n (p @ n @ q)"
  by (simp add: py_in_sublist)

lemma py_in_length: "py_in n s \<Longrightarrow> length n \<le> length s"
  by (simp add: py_in_sublist sublist_length_le)

lemma py_in_refl [simp]: "py_in s s"
  by (simp add: py_in_sublist)

lemma length_py_upper [simp]: "length (py_upper s) = length s"
  by (simp add: py_upper_def)

lemma length_py_lower [simp]: "length (py_lower s) = length s"
  by (simp add: py_lower_def)

lemma py_upper_append [simp]: "py_upper (s @ t) = py_upper s @ py_upper t"
  by (simp add: py_upper_def)

lemma py_lower_append [simp]: "py_lower (s @ t) = py_lower s @ py_lower t"
  by (simp add: py_lower_def)

lemma py_upper_Nil [simp]: "py_upper [] = []"
  by (simp add: py_upper_def)

lemma of_char_nat_less_256 [simp]: "(of_char c :: nat) < 256"
  by (metis of_char_mod_256 mod_less_divisor zero_less_numeral)

lemma py_upper_char_idem [simp]: "py_upper_char (py_upper_char c) = py_upper_char c"
proof -
  have "(of_char c - 32 :: nat) < 256" using of_char_nat_less_256 [of c] by arith
  then have "(of_char c - 32 :: nat) mod 256 = of_char c - 32" by simp
  then show ?thesis by (simp add: py_upper_char_def Let_def) arith
qed

lemma py_lower_char_idem [simp]: "py_lower_char (py_lower_char c) = py_lower_char c"
proof -
  have "(of_char c :: nat) \<le> 90 \<Longrightarrow> (of_char c + 32 :: nat) mod 256 = of_char c + 32" by simp
  then show ?thesis by (simp add: py_lower_char_def Let_def)
qed

text \<open>Evaluation of the case mapping on literals: \<open>char_of\<close> on a numeral.\<close>

lemmas py_char_eval [py_simps] = char_of_def bit_0

lemma py_upper_idem [simp]: "py_upper (py_upper s) = py_upper s"
  by (simp add: py_upper_def)

lemma py_lower_idem [simp]: "py_lower (py_lower s) = py_lower s"
  by (simp add: py_lower_def)

lemma py_in_map: "py_in n s \<Longrightarrow> py_in (map f n) (map f s)"
proof -
  assume "py_in n s"
  then obtain p q where "s = p @ n @ q" by (auto simp: py_in_sublist sublist_def)
  then have "map f s = map f p @ map f n @ map f q" by simp
  then show ?thesis by (simp only: py_in_appendI)
qed

lemma py_in_py_upper: "py_in n s \<Longrightarrow> py_in (py_upper n) (py_upper s)"
  by (simp add: py_upper_def py_in_map)

lemma py_in_py_lower: "py_in n s \<Longrightarrow> py_in (py_lower n) (py_lower s)"
  by (simp add: py_lower_def py_in_map)

lemma py_basename_no_slash: "CHR ''/'' \<notin> set (py_basename p)"
  by (auto simp: py_basename_def dest: set_takeWhileD)

lemma py_basename_suffix: "suffix (py_basename p) p"
proof -
  have "prefix (takeWhile (\<lambda>x. x \<noteq> CHR ''/'') (rev p)) (rev p)"
    by (simp add: takeWhile_is_prefix)
  then show ?thesis
    by (simp add: py_basename_def suffix_to_prefix)
qed

lemma py_basename_idem [simp]: "py_basename (py_basename p) = py_basename p"
  by (simp add: py_basename_def)

lemma py_rstrip_no_trailing: "py_rstrip c s = [] \<or> last (py_rstrip c s) \<noteq> c"
proof (cases "dropWhile (\<lambda>x. x = c) (rev s)")
  case Nil
  then show ?thesis by (simp add: py_rstrip_def)
next
  case (Cons y ys)
  then have "y \<noteq> c" by (metis (mono_tags) dropWhile_eq_Cons_conv)
  with Cons show ?thesis by (simp add: py_rstrip_def)
qed

lemma py_rstrip_idem [simp]: "py_rstrip c (py_rstrip c s) = py_rstrip c s"
  by (simp add: py_rstrip_def)

lemma py_join_length_singleton [simp]: "py_join sep [x] = x"
  by simp

lemma count_list_py_join:
  "count_list (py_join sep xs) c =
     sum_list (map (\<lambda>x. count_list x c) xs) + (length xs - 1) * count_list sep c"
  by (induction sep xs rule: py_join.induct) (simp_all add: algebra_simps)

lemma nat_digits_nonempty [simp]: "nat_digits n \<noteq> []"
  by (subst nat_digits.simps) simp

lemma digit_char_digit: "d < 10 \<Longrightarrow> digit_char d \<in> set ''0123456789''"
  unfolding digit_char_def by (rule nth_mem) simp

lemma nat_digits_digits: "set (nat_digits n) \<subseteq> set ''0123456789''"
proof (induction n rule: nat_digits.induct)
  case (1 n)
  show ?case
  proof (cases "n < 10")
    case True
    have "digit_char n \<in> set ''0123456789''" using True by (rule digit_char_digit)
    with True show ?thesis by (subst nat_digits.simps) simp
  next
    case False
    have "digit_char (n mod 10) \<in> set ''0123456789''" by (rule digit_char_digit) simp
    with False "1.IH" show ?thesis by (subst nat_digits.simps) simp
  qed
qed


lemma digit_char_value: "d < 10 \<Longrightarrow> (of_char (digit_char d) :: nat) = 48 + d"
proof -
  assume "d < 10"
  then have "d \<in> set [0..<10]" by simp
  then show ?thesis by (simp add: upt_rec digit_char_def) (elim disjE; simp)
qed

lemma digit_char_is_digit: "d < 10 \<Longrightarrow> is_ascii_digit (digit_char d)"
  by (simp add: is_ascii_digit_def digit_char_value)

lemma nat_digits_cases:
  "nat_digits n = (if n < 10 then [digit_char n] else nat_digits (n div 10) @ [digit_char (n mod 10)])"
  by (rule nat_digits.simps)

lemma decimal_value_nat_digits [simp]: "decimal_value (nat_digits n) = n"
proof (induction n rule: nat_digits.induct)
  case (1 n)
  then show ?case
    by (subst nat_digits_cases) (simp add: decimal_value_def digit_char_value)
qed

lemma nat_digits_all_digits: "list_all is_ascii_digit (nat_digits n)"
proof (induction n rule: nat_digits.induct)
  case (1 n)
  then show ?case by (subst nat_digits_cases) (simp add: digit_char_is_digit)
qed

lemma int_digits_ok_digits: "ds \<noteq> [] \<Longrightarrow> list_all is_ascii_digit ds \<Longrightarrow> int_digits_ok ds"
  by (induction ds rule: int_digits_ok.induct) (auto simp: is_ascii_digit_def)

lemma digit_not_space: "is_ascii_digit c \<Longrightarrow> \<not> py_isspace c"
  by (simp add: is_ascii_digit_def py_isspace_def Let_def)

lemma digit_not_sign: "is_ascii_digit c \<Longrightarrow> c \<noteq> CHR ''-'' \<and> c \<noteq> CHR ''+'' \<and> c \<noteq> CHR ''_''"
  by (auto simp: is_ascii_digit_def)

lemma py_strip_id:
  assumes "s = [] \<or> (\<not> py_isspace (hd s) \<and> \<not> py_isspace (last s))"
  shows "py_strip s = s"
proof (cases s rule: rev_cases)
  case Nil
  then show ?thesis by (simp add: py_strip_def)
next
  case (snoc ys y)
  with assms show ?thesis by (cases ys) (simp_all add: py_strip_def)
qed


lemma filter_no_underscore: "list_all is_ascii_digit ds \<Longrightarrow> filter (\<lambda>c. c \<noteq> CHR ''_'') ds = ds"
  by (induction ds) (auto simp: digit_not_sign)

lemma py_int_parse_str_int: "py_int_parse (py_str_int i) = Some i"
proof -
  let ?ds = "nat_digits (nat \<bar>i\<bar>)"
  have all: "list_all is_ascii_digit ?ds" by (rule nat_digits_all_digits)
  then have hd: "is_ascii_digit (hd ?ds)" and lst: "is_ascii_digit (last ?ds)"
    by (simp_all add: list_all_iff)
  have ok: "int_digits_ok ?ds" using all by (simp add: int_digits_ok_digits)
  have flt: "filter (\<lambda>c. c \<noteq> CHR ''_'') ?ds = ?ds" using all by (rule filter_no_underscore)
  show ?thesis
  proof (cases "i < 0")
    case True
    have "py_strip (CHR ''-'' # ?ds) = CHR ''-'' # ?ds"
      using lst digit_not_space by (intro py_strip_id) (simp add: py_isspace_def)
    with True ok flt show ?thesis by (simp add: py_int_parse_def py_str_int_def)
  next
    case False
    have "py_strip ?ds = ?ds" using hd lst by (intro py_strip_id) (simp add: digit_not_space)
    moreover have "hd ?ds \<noteq> CHR ''-'' \<and> hd ?ds \<noteq> CHR ''+''" using hd digit_not_sign by blast
    moreover obtain c cs where cs: "?ds = c # cs" by (cases ?ds) auto
    moreover have "decimal_value (c # cs) = nat \<bar>i\<bar>" by (metis cs decimal_value_nat_digits)
    ultimately show ?thesis using False ok flt
      by (simp add: py_int_parse_def py_str_int_def)
  qed
qed

end
