(* ===== verification/Json.thy ===== *)
theory Json
  imports Prelude
begin

text \<open>
  JSON values as the request handlers see them (the result of Flask's
  \<open>request.get_json\<close>, a Python \<open>None\<close>, \<open>bool\<close>, \<open>int\<close>, \<open>str\<close>, \<open>list\<close> or
  \<open>dict\<close>), Python's truthiness on them, and CPython's \<open>json.dumps\<close> with its default
  separators \<open>', '\<close> and \<open>': '\<close> in both of its string modes: \<open>ensure_ascii=False\<close>
  (\<open>src/Backend/app.py\<close>, line 103) and the default \<open>ensure_ascii=True\<close>
  (\<open>src/app.py\<close>, line 81). JSON floats are not modelled. A decoder of the string
  escapes gives the round trip of the serialiser's string encoding.
\<close>

datatype json =
    JNull
  | JBool bool
  | JInt int
  | JStr pystr
  | JList "json list"
  | JObj "(pystr \<times> json) list"

text \<open>What \<open>request.get_json\<close> parsed: a value, or a body that is not JSON.\<close>

datatype json_parse = JParsed json | JParseError

subsection \<open>Python truthiness and \<open>len\<close>\<close>

fun py_truthy :: "json \<Rightarrow> bool" where
  "py_truthy JNull = False"
| "py_truthy (JBool b) = b"
| "py_truthy (JInt i) = (i \<noteq> 0)"
| "py_truthy (JStr s) = (s \<noteq> [])"
| "py_truthy (JList xs) = (xs \<noteq> [])"
| "py_truthy (JObj kvs) = (kvs \<noteq> [])"

text \<open>A parsed JSON object is a Python \<open>dict\<close>: its keys are distinct (a repeated key
  keeps its first position and its last value). This is the well-formedness of a value.\<close>

fun json_wf :: "json \<Rightarrow> bool" where
  "json_wf (JList xs) = (\<forall>x \<in> set xs. json_wf x)"
| "json_wf (JObj kvs) = (distinct (map fst kvs) \<and> (\<forall>kv \<in> set kvs. json_wf (snd kv)))"
| "json_wf _ = True"

text \<open>\<open>dict.get(k)\<close>: \<open>None\<close> (here \<open>JNull\<close>) for a missing key.\<close>

definition dict_get :: "(pystr \<times> json) list \<Rightarrow> pystr \<Rightarrow> json" where
  "dict_get kvs k = (case map_of kvs k of Some v \<Rightarrow> v | None \<Rightarrow> JNull)"

subsection \<open>String encoding\<close>

text \<open>The two characters a string literal of the theory cannot hold.\<close>

abbreviation bslash :: char where "bslash \<equiv> CHR 0x5C"
abbreviation dquote :: char where "dquote \<equiv> CHR 0x22"

definition hex_digit :: "nat \<Rightarrow> char" where
  "hex_digit d = ''0123456789abcdef'' ! d"

text \<open>\<open>'\\u{0:04x}'.format(n)\<close> for a code point below 256.\<close>

definition json_u_escape :: "char \<Rightarrow> pystr" where
  "json_u_escape c =
     (let n = (of_char c :: nat) in [bslash, CHR ''u'', CHR ''0'', CHR ''0''] @ [hex_digit (n div 16), hex_digit (n mod 16)])"

text \<open>\<open>ESCAPE_DCT\<close> of \<open>json.encoder\<close>: the two-character escapes.\<close>

definition json_short_escape :: "char \<Rightarrow> pystr option" where
  "json_short_escape c =
     (if c = bslash then Some [bslash, bslash]
      else if c = dquote then Some [bslash, dquote]
      else if c = CHR 0x08 then Some [bslash, CHR ''b'']
      else if c = CHR 0x0C then Some [bslash, CHR ''f'']
      else if c = CHR 0x0A then Some [bslash, CHR ''n'']
      else if c = CHR 0x0D then Some [bslash, CHR ''r'']
      else if c = CHR 0x09 then Some [bslash, CHR ''t'']
      else None)"

text \<open>One character of \<open>py_encode_basestring\<close> (\<open>ensure_ascii=False\<close>: escape
  the backslash, the quote and the control characters below 0x20) or of
  \<open>py_encode_basestring_ascii\<close> (\<open>ensure_ascii=True\<close>: escape everything outside
  \<open>' '..'~'\<close>).\<close>

definition json_escape_char :: "bool \<Rightarrow> char \<Rightarrow> pystr" where
  "json_escape_char ensure_ascii c =
     (case json_short_escape c of
        Some e \<Rightarrow> e
      | None \<Rightarrow>
          (let n = (of_char c :: nat) in
           if n < 32 \<or> (ensure_ascii \<and> 126 < n) then json_u_escape c else [c]))"

definition json_escape :: "bool \<Rightarrow> pystr \<Rightarrow> pystr" where
  "json_escape ensure_ascii s = concat (map (json_escape_char ensure_ascii) s)"

definition json_quote :: "bool \<Rightarrow> pystr \<Rightarrow> pystr" where
  "json_quote ensure_ascii s = dquote # json_escape ensure_ascii s @ [dquote]"

subsection \<open>\<open>json.dumps\<close>\<close>

fun json_dumps :: "bool \<Rightarrow> json \<Rightarrow> pystr" where
  "json_dumps ea JNull = ''null''"
| "json_dumps ea (JBool b) = (if b then ''true'' else ''false'')"
| "json_dumps ea (JInt i) = py_str_int i"
| "json_dumps ea (JStr s) = json_quote ea s"
| "json_dumps ea (JList xs) = ''['' @ py_join '', '' (map (json_dumps ea) xs) @ '']''"
| "json_dumps ea (JObj kvs) =
     ''{'' @ py_join '', '' (map (\<lambda>(k, v). json_quote ea k @ '': '' @ json_dumps ea v) kvs) @ ''}''"

subsection \<open>Decoding string escapes\<close>

definition hex_value :: "char \<Rightarrow> nat option" where
  "hex_value c =
     (let n = (of_char c :: nat) in
      if 48 \<le> n \<and> n \<le> 57 then Some (n - 48)
      else if 97 \<le> n \<and> n \<le> 102 then Some (n - 87)
      else if 65 \<le> n \<and> n \<le> 70 then Some (n - 55)
      else None)"

text \<open>The body of a JSON string literal back to the string, for code points below 256
  (\<open>\\u00XX\<close>); \<open>None\<close> on a malformed escape or an unescaped quote.\<close>

fun json_unescape :: "pystr \<Rightarrow> pystr option" where
  "json_unescape [] = Some []"
| "json_unescape (c # cs) =
     (if c = dquote then None
      else if c \<noteq> bslash then map_option ((#) c) (json_unescape cs)
      else (case cs of
              [] \<Rightarrow> None
            | e # rest \<Rightarrow>
                if e = bslash then map_option ((#) bslash) (json_unescape rest)
                else if e = dquote then map_option ((#) dquote) (json_unescape rest)
                else if e = CHR ''b'' then map_option ((#) (CHR 0x08)) (json_unescape rest)
                else if e = CHR ''f'' then map_option ((#) (CHR 0x0C)) (json_unescape rest)
                else if e = CHR ''n'' then map_option ((#) (CHR 0x0A)) (json_unescape rest)
                else if e = CHR ''r'' then map_option ((#) (CHR 0x0D)) (json_unescape rest)
                else if e = CHR ''t'' then map_option ((#) (CHR 0x09)) (json_unescape rest)
                else if e = CHR ''u'' then
                  (case rest of
                     z1 # z2 # h1 # h2 # rest' \<Rightarrow>
                       (if z1 = CHR ''0'' \<and> z2 = CHR ''0'' then
                          (case (hex_value h1, hex_value h2) of
                             (Some a, Some b) \<Rightarrow>
                               map_option ((#) (char_of (16 * a + b))) (json_unescape rest')
                           | _ \<Rightarrow> None)
                        else None)
                   | _ \<Rightarrow> None)
                else None))"


subsection \<open>Python's \<open>str\<close> and \<open>repr\<close> of a value\<close>

text \<open>\<open>'\\x%02x'\<close>.\<close>

definition py_hex_escape :: "char \<Rightarrow> pystr" where
  "py_hex_escape c =
     (let n = (of_char c :: nat) in [bslash, CHR ''x'', hex_digit (n div 16), hex_digit (n mod 16)])"

text \<open>\<open>str.isprintable()\<close> on a Latin-1 character: printable ASCII, and the characters
  from 0xA1 on except the soft hyphen 0xAD.\<close>

definition py_printable :: "char \<Rightarrow> bool" where
  "py_printable c =
     (let n = (of_char c :: nat) in (32 \<le> n \<and> n < 127) \<or> (161 \<le> n \<and> n \<noteq> 173))"

text \<open>\<open>repr\<close> of a \<open>str\<close> (CPython's \<open>unicode_repr\<close>): single quotes unless the
  text holds a single quote and no double quote; the chosen quote and the backslash are
  escaped, tab, newline and return by name, other unprintable characters as
  \<open>\\xhh\<close>.\<close>

definition py_repr_quote :: "pystr \<Rightarrow> char" where
  "py_repr_quote s = (if CHR 0x27 \<in> set s \<and> dquote \<notin> set s then dquote else CHR 0x27)"

definition py_repr_char :: "char \<Rightarrow> char \<Rightarrow> pystr" where
  "py_repr_char q c =
     (if c = q \<or> c = bslash then [bslash, c]
      else if c = CHR 0x09 then [bslash, CHR ''t'']
      else if c = CHR 0x0A then [bslash, CHR ''n'']
      else if c = CHR 0x0D then [bslash, CHR ''r'']
      else if py_printable c then [c]
      else py_hex_escape c)"

definition py_repr_str :: "pystr \<Rightarrow> pystr" where
  "py_repr_str s = (let q = py_repr_quote s in q # concat (map (py_repr_char q) s) @ [q])"

fun py_repr :: "json \<Rightarrow> pystr" where
  "py_repr JNull = ''None''"
| "py_repr (JBool b) = (if b then ''True'' else ''False'')"
| "py_repr (JInt i) = py_str_int i"
| "py_repr (JStr s) = py_repr_str s"
| "py_repr (JList xs) = ''['' @ py_join '', '' (map py_repr xs) @ '']''"
| "py_repr (JObj kvs) =
     ''{'' @ py_join '', '' (map (\<lambda>(k, v). py_repr_str k @ '': '' @ py_repr v) kvs) @ ''}''"

text \<open>\<open>str(v)\<close>: the text itself for a \<open>str\<close>, the \<open>repr\<close> otherwise.\<close>

definition py_str :: "json \<Rightarrow> pystr" where
  "py_str v = (case v of JStr s \<Rightarrow> s | _ \<Rightarrow> py_repr v)"

text \<open>Printable ASCII: the characters \<open>' '..'~'\<close>.\<close>

definition printable_ascii :: "char \<Rightarrow> bool" where
  "printable_ascii c \<longleftrightarrow> 32 \<le> (of_char c :: nat) \<and> (of_char c :: nat) \<le> 126"

subsection \<open>Lemmas\<close>

lemma hex_value_hex_digit: "d < 16 \<Longrightarrow> hex_value (hex_digit d) = Some d"
proof -
  assume "d < 16"
  then have "d \<in> set [0..<16]" by simp
  then show ?thesis by (simp add: upt_rec hex_value_def hex_digit_def) (elim disjE; simp)
qed

lemma json_unescape_u_escape:
  "json_unescape (json_u_escape c @ rest) = map_option ((#) c) (json_unescape rest)"
proof -
  let ?n = "of_char c :: nat"
  have "?n < 256" by simp
  then have h1: "?n div 16 < 16" by (simp add: less_mult_imp_div_less)
  have h2: "?n mod 16 < 16" by simp
  have "16 * (?n div 16) + ?n mod 16 = ?n" by simp
  then have "char_of (16 * (?n div 16) + ?n mod 16) = c" by simp
  then show ?thesis
    by (simp add: json_u_escape_def Let_def hex_value_hex_digit h1 h2)
qed

lemma json_unescape_escape_char:
  "json_unescape (json_escape_char ea c @ rest) = map_option ((#) c) (json_unescape rest)"
proof (cases "json_short_escape c")
  case None
  then have "c \<noteq> bslash" "c \<noteq> dquote" by (auto simp: json_short_escape_def split: if_splits)
  with None show ?thesis
    by (auto simp: json_escape_char_def Let_def json_unescape_u_escape)
next
  case (Some e)
  then show ?thesis
    by (auto simp: json_escape_char_def json_short_escape_def split: if_splits)
qed

lemma json_escape_Cons [simp]:
  "json_escape ea (c # s) = json_escape_char ea c @ json_escape ea s"
  by (simp add: json_escape_def)

lemma json_escape_Nil [simp]: "json_escape ea [] = []"
  by (simp add: json_escape_def)

lemma json_escape_append [simp]:
  "json_escape ea (s @ t) = json_escape ea s @ json_escape ea t"
  by (simp add: json_escape_def)

text \<open>The string encoding of \<open>json.dumps\<close> is decodable: decoding the escaped text
  of any string gives the string back, in both \<open>ensure_ascii\<close> modes.\<close>

lemma json_unescape_escape: "json_unescape (json_escape ea s) = Some s"
proof (induction s)
  case Nil
  then show ?case by simp
next
  case (Cons c s)
  then show ?case by (simp add: json_unescape_escape_char)
qed

lemma hex_digit_ascii: "d < 16 \<Longrightarrow> 48 \<le> (of_char (hex_digit d) :: nat) \<and> (of_char (hex_digit d) :: nat) \<le> 102"
proof -
  assume "d < 16"
  then have "d \<in> set [0..<16]" by simp
  then show ?thesis by (simp add: upt_rec hex_digit_def) (elim disjE; simp)
qed

lemma json_u_escape_printable: "\<forall>x \<in> set (json_u_escape c). printable_ascii x"
proof -
  let ?n = "of_char c :: nat"
  have "?n < 256" by simp
  then have "?n div 16 < 16" by (simp add: less_mult_imp_div_less)
  then have "printable_ascii (hex_digit (?n div 16))"
    using hex_digit_ascii [of "?n div 16"] by (simp add: printable_ascii_def)
  moreover have "printable_ascii (hex_digit (?n mod 16))"
    using hex_digit_ascii [of "?n mod 16"] by (simp add: printable_ascii_def)
  ultimately show ?thesis by (simp add: json_u_escape_def Let_def printable_ascii_def)
qed

lemma json_escape_char_printable:
  "ea \<Longrightarrow> \<forall>x \<in> set (json_escape_char ea c). printable_ascii x"
  using json_u_escape_printable [of c]
  by (auto simp: json_escape_char_def json_short_escape_def Let_def printable_ascii_def
           split: if_splits option.splits)

lemma json_escape_char_no_control:
  "\<forall>x \<in> set (json_escape_char ea c). 32 \<le> (of_char x :: nat)"
  using json_u_escape_printable [of c]
  by (auto simp: json_escape_char_def json_short_escape_def Let_def printable_ascii_def
           split: if_splits option.splits)

lemma json_escape_char_length: "1 \<le> length (json_escape_char ea c) \<and> length (json_escape_char ea c) \<le> 6"
  by (auto simp: json_escape_char_def json_short_escape_def json_u_escape_def Let_def
           split: option.splits)

lemma json_escape_length:
  "length s \<le> length (json_escape ea s) \<and> length (json_escape ea s) \<le> 6 * length s"
proof (induction s)
  case Nil
  then show ?case by simp
next
  case (Cons c s)
  with json_escape_char_length [of ea c] show ?case by simp
qed

text \<open>The escaped text of a string is printable ASCII when \<open>ensure_ascii\<close> is
  set (\<open>src/app.py\<close>), and holds no control character in either mode.\<close>

lemma json_escape_bounds:
  "(\<forall>c \<in> set (json_escape True s). printable_ascii c) \<and>
   (\<forall>c \<in> set (json_escape ea s). 32 \<le> (of_char c :: nat))"
  using json_escape_char_printable [of True] json_escape_char_no_control [of ea]
  by (auto simp: json_escape_def)

end
