(* ===== verification/Signatures.thy ===== *)
theory Signatures
  imports Json
begin

text \<open>
  The string features of the Feature Extractor: the SQL-injection signature test
  \<open>has_sql_signature\<close>, the suspicious-character count \<open>count_special_chars\<close>
  (\<open>src/Backend/app.py\<close>, lines 71--85) and the scanner test on the
  \<open>User-Agent\<close> header (line 127), with the earlier versions of \<open>src/app.py\<close>
  (lines 61--71) beside them. The argument of \<open>has_sql_signature\<close> is any Python
  value: the query handler passes it the \<open>q\<close> field of a JSON body.
\<close>

definition SQL_SIGS :: "pystr list" where
  "SQL_SIGS = [''--'', '' OR '', ''AND 1=1'', ''UNION SELECT'', ''SELECT *'', ''DROP TABLE'',
               '';--'', ''1=1'']"

text \<open>\<open>has_sql_signature\<close> of \<open>src/Backend/app.py\<close>: a falsy value is no signature;
  \<open>s.upper()\<close> on a value that is not a \<open>str\<close> raises \<open>AttributeError\<close>, which the
  \<open>except\<close> turns into \<open>False\<close>.\<close>

definition has_sql_signature :: "json \<Rightarrow> bool" where
  "has_sql_signature v =
     (if \<not> py_truthy v then False
      else (case v of
              JStr s \<Rightarrow> (let s_up = py_upper s in list_ex (\<lambda>sig. py_in sig s_up) SQL_SIGS)
            | _ \<Rightarrow> False))"

text \<open>The same test in \<open>src/app.py\<close>, with no \<open>try\<close>: the \<open>AttributeError\<close>
  escapes.\<close>

definition has_sql_signature_legacy :: "json \<Rightarrow> py_error + bool" where
  "has_sql_signature_legacy v =
     (if \<not> py_truthy v then Inr False
      else (case v of
              JStr s \<Rightarrow> Inr (let s_up = py_upper s in list_ex (\<lambda>sig. py_in sig s_up) SQL_SIGS)
            | _ \<Rightarrow> Inl AttributeError))"

definition SPECIAL_CHARS :: pystr where
  "SPECIAL_CHARS = [dquote, CHR 0x27] @ ''`;-=()[]{}<>''"

definition SPECIAL_CHARS_LEGACY :: pystr where
  "SPECIAL_CHARS_LEGACY = [dquote, CHR 0x27] @ ''`;-=()''"

definition count_special_chars :: "pystr \<Rightarrow> nat" where
  "count_special_chars s = (if s = [] then 0 else length (filter (\<lambda>c. c \<in> set SPECIAL_CHARS) s))"

definition count_special_chars_legacy :: "pystr \<Rightarrow> nat" where
  "count_special_chars_legacy s =
     (if s = [] then 0 else length (filter (\<lambda>c. c \<in> set SPECIAL_CHARS_LEGACY) s))"

definition UA_TOKENS :: "pystr list" where
  "UA_TOKENS = [''curl'', ''sqlmap'', ''nmap'', ''bot'', ''scanner'']"

text \<open>\<open>1 if any(k in ua.lower() for k in (...)) else 0\<close>.\<close>

definition ua_flag :: "pystr \<Rightarrow> nat" where
  "ua_flag ua = (if list_ex (\<lambda>k. py_in k (py_lower ua)) UA_TOKENS then 1 else 0)"

text \<open>A reference signature set without the two entries that other entries subsume:
  \<open>'AND 1=1'\<close> contains \<open>'1=1'\<close> and \<open>';--'\<close> contains \<open>'--'\<close>.\<close>

definition SQL_SIGS_MIN :: "pystr list" where
  "SQL_SIGS_MIN = [''--'', '' OR '', ''UNION SELECT'', ''SELECT *'', ''DROP TABLE'', ''1=1'']"

subsection \<open>Lemmas\<close>

lemma has_sql_signature_str:
  "has_sql_signature (JStr s) \<longleftrightarrow> (\<exists>sig \<in> set SQL_SIGS. py_in sig (py_upper s))"
proof (cases s)
  case Nil
  then show ?thesis by (simp add: has_sql_signature_def SQL_SIGS_def)
next
  case (Cons c cs)
  then show ?thesis by (simp add: has_sql_signature_def list_ex_iff)
qed

text \<open>C22: two of the eight signatures are redundant: the test on a string answers the
  same with the six-entry set that drops \<open>'AND 1=1'\<close> and \<open>';--'\<close>.\<close>

theorem has_sql_signature_str_min:
  "has_sql_signature (JStr s) \<longleftrightarrow> (\<exists>sig \<in> set SQL_SIGS_MIN. py_in sig (py_upper s))"
proof -
  have and11: "py_in ''AND 1=1'' t \<Longrightarrow> py_in ''1=1'' t" for t
  proof -
    assume "py_in ''AND 1=1'' t"
    moreover have "py_in ''1=1'' ''AND 1=1''"
      using py_in_appendI [of "''1=1''" "''AND ''" "[]"] by simp
    ultimately show ?thesis by (simp add: py_in_sublist sublist_order.order.trans)
  qed
  have semi: "py_in '';--'' t \<Longrightarrow> py_in ''--'' t" for t
  proof -
    assume "py_in '';--'' t"
    moreover have "py_in ''--'' '';--''"
      using py_in_appendI [of "''--''" "'';''" "[]"] by simp
    ultimately show ?thesis by (simp add: py_in_sublist sublist_order.order.trans)
  qed
  show ?thesis
    unfolding has_sql_signature_str SQL_SIGS_def SQL_SIGS_MIN_def
    using and11 semi by auto
qed

lemma has_sql_signature_nonstr:
  "(\<forall>s. v \<noteq> JStr s) \<Longrightarrow> \<not> has_sql_signature v"
  by (cases v) (auto simp: has_sql_signature_def)

lemma has_sql_signature_legacy_agrees:
  "has_sql_signature_legacy v = Inr b \<Longrightarrow> has_sql_signature v = b"
  by (cases v) (auto simp: has_sql_signature_def has_sql_signature_legacy_def split: if_splits)

lemma count_special_chars_filter:
  "count_special_chars s = length (filter (\<lambda>c. c \<in> set SPECIAL_CHARS) s)"
  by (simp add: count_special_chars_def)

lemma count_special_chars_legacy_filter:
  "count_special_chars_legacy s = length (filter (\<lambda>c. c \<in> set SPECIAL_CHARS_LEGACY) s)"
  by (simp add: count_special_chars_legacy_def)

lemma count_special_chars_append:
  "count_special_chars (s @ t) = count_special_chars s + count_special_chars t"
  by (simp add: count_special_chars_filter)

lemma count_special_chars_le_length: "count_special_chars s \<le> length s"
  by (simp add: count_special_chars_filter)

lemma special_legacy_subset: "set SPECIAL_CHARS_LEGACY \<subseteq> set SPECIAL_CHARS"
  by (simp add: SPECIAL_CHARS_LEGACY_def SPECIAL_CHARS_def)

lemma ua_flag_bound: "ua_flag ua \<le> 1"
  by (simp add: ua_flag_def)

lemma ua_flag_lower: "ua_flag (py_lower ua) = ua_flag ua"
  by (simp add: ua_flag_def)

lemma py_upper_lower_char: "py_upper_char (py_lower_char c) = py_upper_char c"
proof (cases "65 \<le> (of_char c :: nat) \<and> (of_char c :: nat) \<le> 90")
  case True
  then have "(of_char c + 32 :: nat) mod 256 = of_char c + 32" by simp
  with True show ?thesis by (simp add: py_upper_char_def py_lower_char_def Let_def)
next
  case False
  then have "py_lower_char c = c" by (auto simp: py_lower_char_def Let_def)
  then show ?thesis by simp
qed

lemma py_upper_lower: "py_upper (py_lower s) = py_upper s"
  by (simp add: py_upper_def py_lower_def py_upper_lower_char)

text \<open>The signature test is case-insensitive: lower-casing or upper-casing the text
  does not change its answer.\<close>

lemma has_sql_signature_case_insensitive:
  "has_sql_signature (JStr (py_lower s)) = has_sql_signature (JStr s) \<and>
   has_sql_signature (JStr (py_upper s)) = has_sql_signature (JStr s)"
  by (simp add: has_sql_signature_str py_upper_lower)

text \<open>C31: the signature test of \<open>src/app.py\<close> raises \<open>AttributeError\<close> on a truthy
  value that is not a string (a JSON number, list or object as \<open>q\<close>), where the
  backend's answers \<open>False\<close>.\<close>

theorem legacy_sql_signature_raises:
  assumes "py_truthy v" and "\<forall>s. v \<noteq> JStr s"
  shows "has_sql_signature_legacy v = Inl AttributeError \<and> \<not> has_sql_signature v"
  using assms by (cases v) (auto simp: has_sql_signature_legacy_def has_sql_signature_def)

text \<open>The suspicious characters of \<open>json.dumps\<close> text: escaping keeps them (a quote is
  escaped as a backslash and the quote) and adds none.\<close>

lemma special_chars_range: "c \<in> set SPECIAL_CHARS \<Longrightarrow> 32 \<le> (of_char c :: nat) \<and> (of_char c :: nat) \<le> 126"
  by (auto simp: SPECIAL_CHARS_def)

lemma hex_digit_not_special: "d < 16 \<Longrightarrow> hex_digit d \<notin> set SPECIAL_CHARS"
proof -
  assume "d < 16"
  then have "hex_digit d \<in> set ''0123456789abcdef''" unfolding hex_digit_def by (intro nth_mem) simp
  moreover have "set ''0123456789abcdef'' \<inter> set SPECIAL_CHARS = {}" by (simp add: SPECIAL_CHARS_def)
  ultimately show ?thesis by blast
qed

lemma special_lits: "dquote \<in> set SPECIAL_CHARS" "CHR '':'' \<notin> set SPECIAL_CHARS" "CHR '' '' \<notin> set SPECIAL_CHARS"
  "CHR ''{'' \<in> set SPECIAL_CHARS" "CHR ''}'' \<in> set SPECIAL_CHARS" "CHR '','' \<notin> set SPECIAL_CHARS"
  "bslash \<notin> set SPECIAL_CHARS" "CHR ''u'' \<notin> set SPECIAL_CHARS" "CHR ''0'' \<notin> set SPECIAL_CHARS"
  by (simp_all add: SPECIAL_CHARS_def)

lemma special_json_escape_char:
  "length (filter (\<lambda>x. x \<in> set SPECIAL_CHARS) (json_escape_char ea c)) = (if c \<in> set SPECIAL_CHARS then 1 else 0)"
proof (cases "json_short_escape c")
  case None
  have u: "length (filter (\<lambda>x. x \<in> set SPECIAL_CHARS) (json_u_escape c)) = 0"
  proof -
    have "(of_char c :: nat) < 256" by (rule nat_of_char_less_256)
    then have "(of_char c :: nat) div 16 < 16" by (simp add: less_mult_imp_div_less)
    then show ?thesis
      by (simp add: json_u_escape_def Let_def hex_digit_not_special special_lits)
  qed
  show ?thesis using None u special_chars_range [of c] by (auto simp: json_escape_char_def Let_def)
next
  case (Some e)
  then show ?thesis
    by (auto simp: json_short_escape_def SPECIAL_CHARS_def json_escape_char_def split: if_splits)
qed

lemma special_json_escape:
  "length (filter (\<lambda>x. x \<in> set SPECIAL_CHARS) (json_escape ea s)) = length (filter (\<lambda>x. x \<in> set SPECIAL_CHARS) s)"
  by (induction s) (simp_all add: special_json_escape_char)

lemma filter_py_join:
  "filter P sep = [] \<Longrightarrow> length (filter P (py_join sep xs)) = sum_list (map (\<lambda>x. length (filter P x)) xs)"
  by (induction sep xs rule: py_join.induct) simp_all

lemma special_dumps_str_obj:
  "length (filter (\<lambda>x. x \<in> set SPECIAL_CHARS) (json_dumps ea (JObj (map (\<lambda>(k, v). (k, JStr v)) kvs)))) =
     2 + 4 * length kvs +
     sum_list (map (\<lambda>(k, v). length (filter (\<lambda>x. x \<in> set SPECIAL_CHARS) (k @ v))) kvs)"
proof -
  have sep: "filter (\<lambda>x. x \<in> set SPECIAL_CHARS) '', '' = []" by (simp add: SPECIAL_CHARS_def)
  have "\<And>kv. length (filter (\<lambda>x. x \<in> set SPECIAL_CHARS)
                 ((\<lambda>(k, v). json_quote ea k @ '': '' @ json_dumps ea v) (case kv of (k, v) \<Rightarrow> (k, JStr v)))) =
             4 + (case kv of (k, v) \<Rightarrow> length (filter (\<lambda>x. x \<in> set SPECIAL_CHARS) (k @ v)))"
    by (auto simp: json_quote_def special_json_escape special_lits split: prod.split)
  then show ?thesis
    by (simp add: filter_py_join [OF sep] special_lits comp_def sum_list_addf sum_list_triv)
qed

end
