(* ===== verification/Payload.thy ===== *)
theory Payload
  imports Signatures
begin

text \<open>
  The inbound request as the handlers read it, and the payload normalisation of the
  Feature Extractor: \<open>extract_payload_and_params\<close> of \<open>src/Backend/app.py\<close>
  (lines 95--120) and the payload rule of \<open>features_from_request\<close> in
  \<open>src/app.py\<close> (lines 80--83). Flask's request is a record of what the code reads
  from it: the remote address, the headers (looked up case-insensitively, as
  werkzeug's \<open>Headers.get\<close> does), the path, the method, the URL root, whether the
  content type is JSON, what \<open>get_json\<close> parses, the form fields as submitted
  (a werkzeug \<open>MultiDict\<close>, \<open>None\<close> when parsing the form raises) and the body as
  text, and the query-string arguments \<open>request.args\<close> (a \<open>MultiDict\<close> too). The spec's tagged view of a body (\<open>Structured | FormEncoded | Raw\<close>) is the
  abstract specification the extraction is compared with.
\<close>

record request =
  remote_addr :: "ipaddr option"
  headers :: "(pystr \<times> pystr) list"
  req_path :: pystr
  req_method :: pystr
  url_root :: pystr
  is_json :: bool
  json_body :: json_parse
  form :: "(pystr \<times> pystr) list option"
  body_text :: pystr
  args :: "(pystr \<times> pystr) list"

text \<open>\<open>request.headers.get(name, default)\<close>: the first header whose name matches
  case-insensitively.\<close>

definition header_get :: "request \<Rightarrow> pystr \<Rightarrow> pystr \<Rightarrow> pystr" where
  "header_get req name dflt =
     (case filter (\<lambda>(k, v). py_lower k = py_lower name) (headers req) of
        [] \<Rightarrow> dflt
      | (k, v) # _ \<Rightarrow> v)"

text \<open>\<open>MultiDict.items()\<close>: each key once, in the order of its first occurrence, with its
  first value; \<open>len(form)\<close> is the number of keys.\<close>

definition md_items :: "(pystr \<times> pystr) list \<Rightarrow> (pystr \<times> pystr) list" where
  "md_items kvs = map (\<lambda>k. (k, the (map_of kvs k))) (remdups (map fst kvs))"

text \<open>\<open>MultiDict.get(k)\<close>: the first value of the key.\<close>

definition md_get :: "(pystr \<times> pystr) list \<Rightarrow> pystr \<Rightarrow> pystr option" where
  "md_get kvs k = map_of kvs k"

text \<open>\<open>'&'.join(f"{k}={v}" for k, v in req.form.items())\<close>.\<close>

definition form_payload :: "(pystr \<times> pystr) list \<Rightarrow> pystr" where
  "form_payload kvs = py_join ''&'' (map (\<lambda>(k, v). k @ ''='' @ v) (md_items kvs))"

text \<open>The parameter estimate of a raw body: \<open>raw.count('&') + 1\<close> when the body is
  non-empty and contains \<open>=\<close> or \<open>&\<close>, else 0.\<close>

definition raw_params :: "pystr \<Rightarrow> nat" where
  "raw_params raw =
     (if raw \<noteq> [] \<and> (py_in ''='' raw \<or> py_in ''&'' raw) then count_list raw (CHR ''&'') + 1 else 0)"

text \<open>\<open>extract_payload_and_params(req)\<close>. A JSON request whose body does not parse, or
  parses to \<open>null\<close>, leaves the payload empty. Parsing the form is the only step in the
  \<open>try\<close> that can raise; the \<open>except\<close> falls back to the body text, with
  \<open>num_params\<close> still 0.\<close>

definition extract_payload_and_params :: "request \<Rightarrow> pystr \<times> nat" where
  "extract_payload_and_params req =
     (if is_json req then
        (case json_body req of
           JParsed j \<Rightarrow>
             (if j = JNull then ([], 0)
              else (json_dumps False j, (case j of JObj kvs \<Rightarrow> length kvs | _ \<Rightarrow> 1)))
         | JParseError \<Rightarrow> ([], 0))
      else
        (case form req of
           None \<Rightarrow> (body_text req, 0)
         | Some kvs \<Rightarrow>
             (if md_items kvs \<noteq> [] then (form_payload kvs, length (md_items kvs))
              else (body_text req, raw_params (body_text req)))))"

text \<open>The payload of \<open>src/app.py\<close>: \<open>json.dumps(req.get_json())\<close> for a JSON request
  (\<open>get_json\<close> without \<open>silent\<close> raises \<open>BadRequest\<close> on a body that does not parse;
  \<open>null\<close> is dumped as \<open>'null'\<close>), else the body text.\<close>

definition payload_legacy :: "request \<Rightarrow> py_error + pystr" where
  "payload_legacy req =
     (if is_json req then
        (case json_body req of
           JParsed j \<Rightarrow> Inr (json_dumps True j)
         | JParseError \<Rightarrow> Inl BadRequest)
      else Inr (body_text req))"

subsection \<open>The spec's view: one body shape per request\<close>

datatype body =
    Structured json
  | FormEncoded "(pystr \<times> pystr) list"
  | Raw pystr

text \<open>The shape of a request in the spec's priority order: a JSON value, else a
  non-empty form, else the raw text; a body that fails to parse is raw text.\<close>

definition spec_body :: "request \<Rightarrow> body" where
  "spec_body req =
     (case (is_json req, json_body req) of
        (True, JParsed j) \<Rightarrow> (if j = JNull then Raw (body_text req) else Structured j)
      | (True, JParseError) \<Rightarrow> Raw (body_text req)
      | _ \<Rightarrow>
        (case form req of
           Some kvs \<Rightarrow> (if md_items kvs \<noteq> [] then FormEncoded (md_items kvs) else Raw (body_text req))
         | None \<Rightarrow> Raw (body_text req)))"

text \<open>The spec's \<open>key=value&key=value\<close> reconstruction of a form's fields.\<close>

fun spec_kv_text :: "(pystr \<times> pystr) list \<Rightarrow> pystr" where
  "spec_kv_text [] = []"
| "spec_kv_text [(k, v)] = k @ ''='' @ v"
| "spec_kv_text ((k, v) # kv # kvs) = k @ ''='' @ v @ ''&'' @ spec_kv_text (kv # kvs)"

text \<open>The spec's estimate for a raw body: the \<open>&\<close> separators plus one when the body
  contains \<open>=\<close> or \<open>&\<close>, else 0.\<close>

definition spec_raw_params :: "pystr \<Rightarrow> nat" where
  "spec_raw_params raw =
     (if CHR ''='' \<in> set raw \<or> CHR ''&'' \<in> set raw then length (filter (\<lambda>c. c = CHR ''&'') raw) + 1 else 0)"

text \<open>The spec's payload and parameter count of each shape (section 4.2): the canonical
  serialisation and the number of top-level keys (1 for a value that is not a mapping),
  the reconstruction and the field count, the raw text and its estimate.\<close>

fun spec_payload :: "body \<Rightarrow> pystr \<times> nat" where
  "spec_payload (Structured j) =
     (json_dumps False j, (case j of JObj kvs \<Rightarrow> length (remdups (map fst kvs)) | _ \<Rightarrow> 1))"
| "spec_payload (FormEncoded fs) = (spec_kv_text fs, length fs)"
| "spec_payload (Raw raw) = (raw, spec_raw_params raw)"

text \<open>What \<open>get_json\<close> gives is a Python value: its dictionaries have distinct keys.\<close>

definition json_body_wf :: "request \<Rightarrow> bool" where
  "json_body_wf req = (case json_body req of JParsed j \<Rightarrow> json_wf j | JParseError \<Rightarrow> True)"

text \<open>A JSON request whose body the extraction cannot use.\<close>

definition unusable_json :: "request \<Rightarrow> bool" where
  "unusable_json req \<longleftrightarrow>
     is_json req \<and> (json_body req = JParseError \<or> json_body req = JParsed JNull)"

subsection \<open>Lemmas\<close>

lemma md_items_keys: "map fst (md_items kvs) = remdups (map fst kvs)"
  by (simp add: md_items_def comp_def)

lemma md_items_distinct: "distinct (map fst (md_items kvs))"
  by (simp add: md_items_keys)

lemma md_items_Nil_iff [simp]: "md_items kvs = [] \<longleftrightarrow> kvs = []"
  by (simp add: md_items_def)

lemma md_items_first_value: "(k, v) \<in> set (md_items kvs) \<longleftrightarrow> map_of kvs k = Some v"
proof
  assume "(k, v) \<in> set (md_items kvs)"
  then have "k \<in> fst ` set kvs" and v: "v = the (map_of kvs k)" by (auto simp: md_items_def)
  then have "k \<in> dom (map_of kvs)" by (simp add: dom_map_of_conv_image_fst)
  with v show "map_of kvs k = Some v" by auto
next
  assume m: "map_of kvs k = Some v"
  then have "k \<in> fst ` set kvs" by (metis domI dom_map_of_conv_image_fst)
  with m show "(k, v) \<in> set (md_items kvs)" by (force simp: md_items_def)
qed

lemma raw_params_le: "raw_params raw \<le> Suc (length raw)"
  by (simp add: raw_params_def count_le_length)

lemma extract_payload_form:
  "\<not> is_json req \<Longrightarrow> form req = Some kvs \<Longrightarrow> kvs \<noteq> [] \<Longrightarrow>
   extract_payload_and_params req = (form_payload kvs, length (remdups (map fst kvs)))"
  by (simp add: extract_payload_and_params_def flip: md_items_keys)

lemma py_join_kv_text: "py_join ''&'' (map (\<lambda>(k, v). k @ ''='' @ v) xs) = spec_kv_text xs"
  by (induction xs rule: spec_kv_text.induct) simp_all

lemma form_payload_spec: "form_payload kvs = spec_kv_text (md_items kvs)"
  by (simp only: form_payload_def py_join_kv_text)

lemma py_in_char: "py_in [c] s \<longleftrightarrow> c \<in> set s"
  by (induction s) (auto simp: py_startswith_prefix)

lemma count_list_filter: "count_list xs c = length (filter (\<lambda>x. x = c) xs)"
  by (induction xs) simp_all

lemma raw_params_spec: "raw_params raw = spec_raw_params raw"
  by (auto simp: raw_params_def spec_raw_params_def py_in_char count_list_filter)

text \<open>C23: the normalisation against the spec's three-shape view of a body. The payload
  and parameter count are those the spec gives the body's shape (the canonical JSON text
  and its key count, the \<open>k=v&...\<close> text and the field count, or the raw text and
  its \<open>&\<close> estimate), with two exceptions: a JSON request whose body does not parse or
  is \<open>null\<close> gives an empty payload instead of the raw text, and a body whose form
  fails to parse keeps \<open>num_params = 0\<close> instead of the estimate.\<close>

theorem extract_refines_spec:
  assumes "json_body_wf req"
  shows "extract_payload_and_params req =
           (if unusable_json req then ([], 0)
            else if \<not> is_json req \<and> form req = None then (fst (spec_payload (spec_body req)), 0)
            else spec_payload (spec_body req))"
  using assms
  by (auto simp: extract_payload_and_params_def spec_body_def unusable_json_def json_body_wf_def
           form_payload_spec raw_params_spec distinct_remdups_id
           split: json_parse.splits option.splits json.splits)

end
