(* ===== verification/Store.thy ===== *)
theory Store
  imports Payload
begin

text \<open>
  The storage collaborator: the two SQLAlchemy tables of \<open>src/Backend/app.py\<close>
  (\<open>Log\<close>, lines 43--56, and \<open>Blocklist\<close>, lines 58--63) as lists of rows in insertion
  order, and the queries and commits the core issues on them. A failure of the store is
  an input of each operation (the set of operations that raise during one request), so
  that every \<open>except\<close> of the code is a branch of the model. The Rate Tracker
  (\<open>get_reqs_per_min\<close>, lines 87--93) is the windowed count over the log table.
\<close>

record log_entry =
  log_id :: nat
  log_ip :: ipaddr
  log_ua :: pystr
  log_path :: pystr
  log_method :: pystr
  log_payload :: pystr
  log_num_params :: nat
  log_payload_len :: nat
  log_timestamp :: timestamp
  log_anomaly :: bool
  log_profile :: "pystr option"
  log_decoy_file :: "pystr option"

text \<open>A blocklist row; \<open>reason\<close> is \<open>NULL\<close> when the request gave \<open>"reason": null\<close>.\<close>

record bl_entry =
  bl_id :: nat
  bl_ip :: pystr
  bl_reason :: "pystr option"
  bl_timestamp :: timestamp

record db =
  logs :: "log_entry list"
  blocks :: "bl_entry list"

text \<open>The store operations that can raise during a request.\<close>

datatype db_op =
    QBlocked   \<comment> \<open>the Blocklist Gate's lookup\<close>
  | QCount     \<comment> \<open>the Rate Tracker's count\<close>
  | CommitLog  \<comment> \<open>the Forensic Logger's commit\<close>
  | QBlockAdd  \<comment> \<open>the block endpoint's lookup and commit\<close>
  | QAlerts    \<comment> \<open>\<open>/api/alerts\<close>'s query\<close>
  | QStatus    \<comment> \<open>\<open>/api/status\<close>'s two counts\<close>
  | QExport    \<comment> \<open>\<open>/api/export_report\<close>'s query\<close>

type_synonym faults = "db_op \<Rightarrow> bool"

text \<open>SQLite's rowid for a new row of a table without deletions: one more than the
  largest id.\<close>

definition next_id :: "nat list \<Rightarrow> nat" where
  "next_id ids = Suc (fold max ids 0)"

text \<open>\<open>Blocklist.query.filter_by(ip=ip).first()\<close>, raising when the store fails.\<close>

definition blocked_query :: "faults \<Rightarrow> db \<Rightarrow> pystr \<Rightarrow> py_error + bool" where
  "blocked_query fails s ip =
     (if fails QBlocked then Inl DatabaseError else Inr (\<exists>b \<in> set (blocks s). bl_ip b = ip))"

text \<open>The rate window: 60 seconds, in microseconds.\<close>

definition RATE_WINDOW :: int where
  "RATE_WINDOW = 60000000"

text \<open>The rows of \<open>Log.query.filter(Log.ip == ip, Log.timestamp >= cutoff)\<close>.\<close>

definition recent_logs :: "db \<Rightarrow> timestamp \<Rightarrow> ipaddr \<Rightarrow> log_entry list" where
  "recent_logs s now ip =
     filter (\<lambda>l. log_ip l = ip \<and> now - RATE_WINDOW \<le> log_timestamp l) (logs s)"

text \<open>\<open>get_reqs_per_min(ip)\<close> of \<open>src/Backend/app.py\<close>: the count, or 0 when the query
  raises.\<close>

definition get_reqs_per_min :: "faults \<Rightarrow> db \<Rightarrow> timestamp \<Rightarrow> ipaddr \<Rightarrow> nat" where
  "get_reqs_per_min fails s now ip =
     (if fails QCount then 0 else length (recent_logs s now ip))"

text \<open>The same function of \<open>src/app.py\<close> (lines 73--76), with no \<open>try\<close>.\<close>

definition get_reqs_per_min_legacy :: "faults \<Rightarrow> db \<Rightarrow> timestamp \<Rightarrow> ipaddr \<Rightarrow> py_error + nat" where
  "get_reqs_per_min_legacy fails s now ip =
     (if fails QCount then Inl DatabaseError else Inr (length (recent_logs s now ip)))"

text \<open>\<open>db.session.add(l); db.session.commit()\<close> for a log row: the row gets the next id
  and the commit time as its timestamp (the column's default); a failed commit leaves
  the table as it was.\<close>

definition append_log :: "faults \<Rightarrow> timestamp \<Rightarrow> log_entry \<Rightarrow> db \<Rightarrow> py_error + db" where
  "append_log fails now l s =
     (if fails CommitLog then Inl DatabaseError
      else Inr (s\<lparr>logs := logs s @ [l\<lparr>log_id := next_id (map log_id (logs s)),
                                        log_timestamp := now\<rparr>]\<rparr>))"

text \<open>A database that only ever grew by \<open>append_log\<close>: ids increase along the table.\<close>

definition logs_wf :: "db \<Rightarrow> bool" where
  "logs_wf s \<longleftrightarrow> sorted_wrt (<) (map log_id (logs s))"

definition blocks_wf :: "db \<Rightarrow> bool" where
  "blocks_wf s \<longleftrightarrow> distinct (map bl_ip (blocks s))"

subsection \<open>Lemmas\<close>

lemma fold_max_init: "m \<le> fold max ys (m::nat)"
proof (induction ys arbitrary: m)
  case Nil
  then show ?case by simp
next
  case (Cons y ys)
  from Cons.IH [of "max y m"] show ?case by simp
qed

lemma fold_max_ge: "x \<in> set xs \<Longrightarrow> x \<le> fold max xs (m::nat)"
proof (induction xs arbitrary: m)
  case Nil
  then show ?case by simp
next
  case (Cons y ys)
  show ?case
  proof (cases "x = y")
    case True
    from fold_max_init [of "max y m" ys] True show ?thesis by simp
  next
    case False
    with Cons show ?thesis by simp
  qed
qed

lemma next_id_fresh: "x \<in> set ids \<Longrightarrow> x < next_id ids"
  by (simp add: next_id_def fold_max_ge le_imp_less_Suc)

lemma recent_logs_append:
  "recent_logs (s\<lparr>logs := logs s @ ls\<rparr>) now ip = recent_logs s now ip @ recent_logs \<lparr>logs = ls, blocks = []\<rparr> now ip"
  by (simp add: recent_logs_def)

lemma recent_logs_le: "length (recent_logs s now ip) \<le> length (logs s)"
  by (simp add: recent_logs_def)

lemma get_reqs_per_min_le: "get_reqs_per_min fails s now ip \<le> length (logs s)"
  by (simp add: get_reqs_per_min_def recent_logs_le)

lemma append_log_ok:
  "append_log fails now l s = Inr s' \<Longrightarrow>
   logs s' = logs s @ [l\<lparr>log_id := next_id (map log_id (logs s)), log_timestamp := now\<rparr>] \<and>
   blocks s' = blocks s"
  by (auto simp: append_log_def split: if_splits)

lemma append_log_wf: "logs_wf s \<Longrightarrow> append_log fails now l s = Inr s' \<Longrightarrow> logs_wf s'"
  by (auto simp: append_log_def logs_wf_def sorted_wrt_append next_id_fresh split: if_splits)

end
