(* ===== verification/Features.thy ===== *)
theory Features
  imports Store
begin

text \<open>
  The feature vector and its extraction: \<open>features_from_request\<close> of
  \<open>src/Backend/app.py\<close> (lines 122--137) and of \<open>src/app.py\<close> (lines 78--95). The
  five scored features form the record \<open>features5\<close>; the backend's dictionary has a
  sixth entry, \<open>num_params\<close>, and is the extension \<open>features\<close>. The extractor reads
  the request, the log table (for the rate) and the clock, and nothing else.
\<close>

record features5 =
  feat_payload_len :: nat
  feat_reqs_per_min :: nat
  feat_ua_flag :: nat
  feat_sql_flag :: nat
  feat_special_chars :: nat

record features = features5 +
  feat_num_params :: nat

definition features_from_request ::
  "faults \<Rightarrow> db \<Rightarrow> timestamp \<Rightarrow> request \<Rightarrow> ipaddr \<Rightarrow> features" where
  "features_from_request fails s now req ip =
     (let ua = header_get req ''User-Agent'' [];
          (payload, num_params) = extract_payload_and_params req
      in \<lparr>feat_payload_len = length payload,
          feat_reqs_per_min = get_reqs_per_min fails s now ip,
          feat_ua_flag = ua_flag ua,
          feat_sql_flag = (if has_sql_signature (JStr payload) then 1 else 0),
          feat_special_chars = count_special_chars payload,
          feat_num_params = num_params\<rparr>)"

text \<open>\<open>src/app.py\<close>: the payload may raise \<open>BadRequest\<close> and the rate query
  \<open>DatabaseError\<close>; neither is caught.\<close>

definition features_from_request_legacy ::
  "faults \<Rightarrow> db \<Rightarrow> timestamp \<Rightarrow> request \<Rightarrow> ipaddr \<Rightarrow> py_error + features5" where
  "features_from_request_legacy fails s now req ip =
     (let ua = header_get req ''User-Agent'' [] in
      case payload_legacy req of
        Inl e \<Rightarrow> Inl e
      | Inr payload \<Rightarrow>
          (case get_reqs_per_min_legacy fails s now ip of
             Inl e \<Rightarrow> Inl e
           | Inr rpm \<Rightarrow>
               Inr \<lparr>feat_payload_len = length payload,
                    feat_reqs_per_min = rpm,
                    feat_ua_flag = ua_flag ua,
                    feat_sql_flag = (if has_sql_signature (JStr payload) then 1 else 0),
                    feat_special_chars = count_special_chars_legacy payload\<rparr>))"

text \<open>The row the model scores: \<open>[payload_len, reqs_per_min, ua_flag, sql_flag,
  special_chars]\<close>, in this order.\<close>

definition feature_row :: "'a features5_scheme \<Rightarrow> int list" where
  "feature_row f =
     [int (feat_payload_len f), int (feat_reqs_per_min f), int (feat_ua_flag f),
      int (feat_sql_flag f), int (feat_special_chars f)]"

text \<open>The type invariant of a feature vector: the two flags are 0 or 1.\<close>

definition features_ok :: "'a features5_scheme \<Rightarrow> bool" where
  "features_ok f \<longleftrightarrow> feat_ua_flag f \<le> 1 \<and> feat_sql_flag f \<le> 1"

subsection \<open>Lemmas\<close>

lemma features_from_request_fields:
  "features_from_request fails s now req ip =
     \<lparr>feat_payload_len = length (fst (extract_payload_and_params req)),
      feat_reqs_per_min = get_reqs_per_min fails s now ip,
      feat_ua_flag = ua_flag (header_get req ''User-Agent'' []),
      feat_sql_flag = (if has_sql_signature (JStr (fst (extract_payload_and_params req))) then 1 else 0),
      feat_special_chars = count_special_chars (fst (extract_payload_and_params req)),
      feat_num_params = snd (extract_payload_and_params req)\<rparr>"
  by (simp add: features_from_request_def split: prod.splits)

text \<open>Every feature vector the backend extracts is well-typed: both flags are 0
  or 1, the payload length is the length of the normalised payload, and there are no
  more suspicious characters than payload characters.\<close>

lemma features_from_request_wf:
  "features_ok (features_from_request fl s t req ip) \<and>
   feat_payload_len (features_from_request fl s t req ip) = length (fst (extract_payload_and_params req)) \<and>
   feat_special_chars (features_from_request fl s t req ip) \<le> feat_payload_len (features_from_request fl s t req ip)"
  using ua_flag_bound [of "header_get req ''User-Agent'' []"]
    count_special_chars_le_length [of "fst (extract_payload_and_params req)"]
  by (simp add: features_from_request_fields features_ok_def)

text \<open>C24: a request with a JSON content type whose body does not parse (or is
  \<open>null\<close>) is scored as an empty payload, whatever its text: no SQL flag, no
  suspicious characters, length 0. The spec asks for a fall-back to the raw text.\<close>

theorem unusable_json_hides_payload:
  assumes "unusable_json req"
  shows "feat_payload_len (features_from_request fl s t req ip) = 0 \<and>
         feat_sql_flag (features_from_request fl s t req ip) = 0 \<and>
         feat_special_chars (features_from_request fl s t req ip) = 0 \<and>
         feat_num_params (features_from_request fl s t req ip) = 0"
proof -
  from assms have "extract_payload_and_params req = ([], 0)"
    by (auto simp: unusable_json_def extract_payload_and_params_def)
  then show ?thesis
    by (simp add: features_from_request_fields has_sql_signature_def count_special_chars_def)
qed

text \<open>C25: a JSON request whose body is an object of string fields is scored on the text
  of \<open>json.dumps\<close>, whose braces and quotes count as suspicious characters: an object of
  \<open>n\<close> fields scores \<open>2 + 4 n\<close> of them besides those of its keys and values. The
  benign login \<open>{"user": "a", "pass": "b"}\<close> of the spec's section 8 scores 10, where the
  model is trained on counts drawn around 2.\<close>

theorem json_fields_special_chars:
  assumes "is_json req" and "json_body req = JParsed (JObj (map (\<lambda>(k, v). (k, JStr v)) kvs))"
  shows "feat_special_chars (features_from_request fl s t req ip) =
           2 + 4 * length kvs + sum_list (map (\<lambda>(k, v). count_special_chars (k @ v)) kvs)"
proof -
  have "fst (extract_payload_and_params req) = json_dumps False (JObj (map (\<lambda>(k, v). (k, JStr v)) kvs))"
    using assms by (simp add: extract_payload_and_params_def del: json_dumps.simps)
  then have "feat_special_chars (features_from_request fl s t req ip) =
               length (filter (\<lambda>x. x \<in> set SPECIAL_CHARS) (json_dumps False (JObj (map (\<lambda>(k, v). (k, JStr v)) kvs))))"
    by (simp add: features_from_request_fields count_special_chars_filter del: json_dumps.simps)
  then show ?thesis by (simp only: special_dumps_str_obj count_special_chars_filter)
qed

lemma feature_row_length [simp]: "length (feature_row f) = 5"
  by (simp add: feature_row_def)

lemma feature_row_nonneg: "\<forall>x \<in> set (feature_row f). 0 \<le> x"
  by (simp add: feature_row_def)

end
