(* ===== verification/Model.thy ===== *)
theory Model
  imports Features
begin

text \<open>
  The Anomaly Model wrapper. The trained \<open>IsolationForest\<close> is an opaque collaborator:
  its \<open>predict\<close> on one row is a function \<open>predictor\<close> returning \<open>-1\<close> (outlier),
  \<open>1\<close> (inlier) or an exception. The process holds one model, loaded or trained at
  import time (\<open>src/Backend/app.py\<close>, lines 158--167; \<open>src/app.py\<close>, lines
  116--122), and \<open>is_anomaly_from_features\<close> (lines 169--178; \<open>src/app.py\<close>,
  lines 124--129) maps its prediction to a verdict. Training itself (random synthetic
  data) is not modelled.
\<close>

type_synonym predictor = "int list \<Rightarrow> py_error + int"

text \<open>\<open>is_anomaly_from_features(feat)\<close>: \<open>False\<close> without a model, \<open>False\<close> when
  \<open>predict\<close> raises, else whether the prediction is \<open>-1\<close>.\<close>

definition is_anomaly_from_features :: "predictor option \<Rightarrow> 'a features5_scheme \<Rightarrow> bool" where
  "is_anomaly_from_features model feat =
     (case model of
        None \<Rightarrow> False
      | Some predict \<Rightarrow>
          (case predict (feature_row feat) of
             Inl e \<Rightarrow> False
           | Inr pred \<Rightarrow> pred = -1))"

text \<open>\<open>src/app.py\<close>: the exception of \<open>predict\<close> escapes.\<close>

definition is_anomaly_from_features_legacy ::
  "predictor option \<Rightarrow> 'a features5_scheme \<Rightarrow> py_error + bool" where
  "is_anomaly_from_features_legacy model feat =
     (case model of
        None \<Rightarrow> Inr False
      | Some predict \<Rightarrow>
          (case predict (feature_row feat) of
             Inl e \<Rightarrow> Inl e
           | Inr pred \<Rightarrow> Inr (pred = -1)))"

text \<open>Start-up of \<open>src/Backend/app.py\<close> (lines 158--167): load the artifact if the file
  exists, else call \<open>train_model()\<close> (line 164); if either raises, the \<open>except\<close> calls
  \<open>train_model()\<close> (line 167). \<open>train n\<close> is the outcome of the \<open>n\<close>-th call of
  \<open>train_model()\<close> in the process, counted from 0: the fit is seeded, but the call
  writes the artifact (\<open>joblib.dump\<close>), which can fail once and succeed the next time.
  An exception of the call in the \<open>except\<close> aborts the import.\<close>

definition load_or_train ::
  "bool \<Rightarrow> py_error + predictor \<Rightarrow> (nat \<Rightarrow> py_error + predictor) \<Rightarrow> py_error + predictor" where
  "load_or_train exists load train =
     (case (if exists then load else train 0) of
        Inr m \<Rightarrow> Inr m
      | Inl e \<Rightarrow> (if exists then train 0 else train 1))"

text \<open>Start-up of \<open>src/app.py\<close> (lines 116--122): only a failed load falls back to
  training; when the file is missing, the one call of \<open>train_model()\<close> is not
  guarded.\<close>

definition load_or_train_legacy ::
  "bool \<Rightarrow> py_error + predictor \<Rightarrow> (nat \<Rightarrow> py_error + predictor) \<Rightarrow> py_error + predictor" where
  "load_or_train_legacy exists load train =
     (if exists then (case load of Inr m \<Rightarrow> Inr m | Inl e \<Rightarrow> train 0) else train 0)"

subsection \<open>Lemmas\<close>

lemma is_anomaly_Some_iff:
  "is_anomaly_from_features (Some predict) feat \<longleftrightarrow> predict (feature_row feat) = Inr (-1)"
  by (simp add: is_anomaly_from_features_def split: sum.splits)

lemma is_anomaly_row:
  "feature_row f = feature_row g \<Longrightarrow> is_anomaly_from_features m f = is_anomaly_from_features m g"
  unfolding is_anomaly_from_features_def by metis

lemma is_anomaly_legacy_agrees:
  "is_anomaly_from_features_legacy m f = Inr b \<Longrightarrow> is_anomaly_from_features m f = b"
  by (auto simp: is_anomaly_from_features_def is_anomaly_from_features_legacy_def
           split: option.splits sum.splits)

text \<open>C29: the two start-up sequences agree except in one case: when the artifact file is
  missing and the first training raises, the backend trains a second time (its
  \<open>except\<close> catches the exception of line 164), where \<open>src/app.py\<close> fails with the
  first exception. Every other combination of outcomes ends with the same model or the
  same exception.\<close>

theorem load_or_train_equiv:
  "load_or_train exists load train =
     (case load_or_train_legacy exists load train of
        Inr m \<Rightarrow> Inr m
      | Inl e \<Rightarrow> (if exists then Inl e else train 1))"
proof (cases exists)
  case True
  then show ?thesis
    by (cases load) (simp_all add: load_or_train_def load_or_train_legacy_def split: sum.split)
next
  case False
  then show ?thesis
    by (cases "train 0") (simp_all add: load_or_train_def load_or_train_legacy_def)
qed

text \<open>C30: in \<open>src/app.py\<close> an exception of \<open>predict\<close> escapes the scorer (the
  request fails with a 500), where the backend's scorer answers "not anomalous" as the
  spec requires.\<close>

theorem legacy_predict_error_escapes:
  assumes "predict (feature_row f) = Inl err"
  shows "is_anomaly_from_features_legacy (Some predict) f = Inl err \<and>
         \<not> is_anomaly_from_features (Some predict) f"
  using assms by (simp add: is_anomaly_from_features_legacy_def is_anomaly_from_features_def)

end
