(* ===== verification/Web.thy ===== *)
theory Web
  imports Model
begin

text \<open>
  What the request handlers of \<open>src/Backend/app.py\<close> share: the response a view
  returns (a status code and the JSON body \<open>jsonify\<close> renders, or a file sent by
  \<open>send_file\<close>), the files the service writes, the outside world one request sees (the
  clock, the store operations and the file paths that fail, the installation directory
  \<open>BASE_DIR\<close>, the values \<open>Faker\<close> draws, the text of a store exception and the
  library's \<open>datetime.fromisoformat\<close>), the server's state (the database,
  the files, and a count of credential-bundle regenerations), the client address rule,
  the download path and the generic 500 handler.
\<close>

text \<open>A file of the decoy or export directory: a CSV file as its rows (written with
  \<open>csv.writer\<close>, \<open>Csv.csv_text\<close>) or a ZIP archive as its members.\<close>

datatype dfile = CsvFile "pystr list list" | ZipArchive "(pystr \<times> dfile) list"

text \<open>A view's answer: \<open>jsonify(body), status\<close>, or \<open>send_file(path,
  as_attachment=True)\<close> with the download name and the file.\<close>

datatype response = Response nat json | FileResponse nat pystr dfile

text \<open>The values one \<open>Faker\<close> draw gives to a row of each decoy table.\<close>

record emp_draw =
  emp_name :: pystr
  emp_email :: pystr
  emp_dept :: pystr
  emp_job :: pystr
  emp_phone :: pystr
  emp_join :: pystr
  emp_salary :: int
  emp_password :: pystr

record proj_draw =
  proj_bs :: pystr
  proj_sentence :: pystr
  proj_email :: pystr
  proj_user :: pystr
  proj_word :: pystr
  proj_lex :: pystr

record cred_draw =
  cred_domain :: pystr
  cred_user :: pystr
  cred_password :: pystr
  cred_lex :: pystr

record env =
  now :: timestamp
  fails :: faults
  fake_name :: pystr
  base_dir :: pystr
  io_fails :: "pystr \<Rightarrow> bool"
  draw_emp :: "nat \<Rightarrow> emp_draw"
  draw_proj :: "nat \<Rightarrow> proj_draw"
  draw_cred :: "nat \<Rightarrow> cred_draw"
  db_err_text :: pystr  \<comment> \<open>\<open>str(e)\<close> of a store exception\<close>
  from_iso :: "pystr \<Rightarrow> timestamp option"  \<comment> \<open>\<open>fromisoformat\<close>, \<open>None\<close> when it raises\<close>

record world =
  store :: db
  decoy_gen :: nat
  files :: "pystr \<Rightarrow> dfile option"

text \<open>\<open>request.remote_addr or request.headers.get('X-Forwarded-For','127.0.0.1')\<close>.\<close>

definition client_ip :: "request \<Rightarrow> ipaddr" where
  "client_ip req =
     (case remote_addr req of
        Some a \<Rightarrow> (if a \<noteq> [] then a else header_get req ''X-Forwarded-For'' ''127.0.0.1'')
      | None \<Rightarrow> header_get req ''X-Forwarded-For'' ''127.0.0.1'')"

text \<open>The decoy directory \<open>os.path.join(BASE_DIR, 'decoys')\<close> (line 25) of the
  installation directory \<open>BASE_DIR\<close>, and \<open>download_fn\<close> (lines 325--332): the
  file served for a requested name is \<open>os.path.join(DECOY_DIR, os.path.basename(fn))\<close>.\<close>

definition decoy_dir :: "pystr \<Rightarrow> pystr" where
  "decoy_dir base = py_path_join base ''decoys''"

definition download_path :: "pystr \<Rightarrow> pystr \<Rightarrow> pystr" where
  "download_path base fn = py_path_join (decoy_dir base) (py_basename fn)"

text \<open>Flask's 500 handler \<open>internal_error\<close> (lines 527--535), the response of every
  exception a view does not catch.\<close>

definition internal_error_response :: response where
  "internal_error_response =
     Response 500 (JObj [(''status'', JStr ''error''), (''error'', JStr ''Internal Server Error''),
                         (''message'', JStr ''An internal server error occurred.'')])"

text \<open>Flask's 403 handler \<open>forbidden_error\<close> (lines 537--544). No view calls
  \<open>abort(403)\<close>: the gate answers its own 403 body, \<open>blocked_response\<close>.\<close>

definition forbidden_error_response :: response where
  "forbidden_error_response =
     Response 403 (JObj [(''status'', JStr ''error''), (''error'', JStr ''Forbidden''),
                         (''message'', JStr ''Access denied. Your IP may be blocked.'')])"

definition blocked_response :: response where
  "blocked_response = Response 403 (JObj [(''status'', JStr ''blocked'')])"

text \<open>The deception profile and the log's serialisation of it (\<open>json.dumps(profile)\<close>,
  default \<open>ensure_ascii\<close>).\<close>

definition make_profile :: "env \<Rightarrow> pystr \<Rightarrow> json" where
  "make_profile e purpose = JObj [(''name'', JStr (fake_name e)), (''purpose'', JStr purpose)]"

subsection \<open>Lemmas\<close>

lemma decoy_dir_last: "decoy_dir base \<noteq> [] \<and> last (decoy_dir base) = CHR ''s''"
  by (simp add: decoy_dir_def py_path_join_def)

text \<open>C26: \<open>/download/<fn>\<close> never leaves the decoy directory through a separator:
  whatever the installation directory and the requested name, the file it serves is the
  decoy directory, a slash, and one path component without slashes.\<close>

theorem download_path_in_dir:
  "\<exists>f. download_path base fn = decoy_dir base @ ''/'' @ f \<and> CHR ''/'' \<notin> set f"
proof -
  have nos: "CHR ''/'' \<notin> set (py_basename fn)" by (rule py_basename_no_slash)
  then have "\<not> py_startswith (py_basename fn) ''/''"
    by (cases "py_basename fn") auto
  with nos decoy_dir_last [of base] show ?thesis
    by (auto simp: download_path_def py_path_join_def)
qed

text \<open>The one component may still be \<open>..\<close>: the parent of the decoy directory, which
  exists, so \<open>send_file\<close> is asked for a directory.\<close>

lemma download_path_dotdot: "download_path base ''a/..'' = decoy_dir base @ ''/..''"
  using decoy_dir_last [of base]
  by (simp add: download_path_def py_basename_def py_path_join_def)

end
