(* ===== verification/Blocklist.thy ===== *)
theory Blocklist
  imports Web
begin

text \<open>
  The Blocklist Gate and its administrative write path: \<open>api_block\<close> of
  \<open>src/Backend/app.py\<close> (lines 453--468), which adds a row to the \<open>Blocklist\<close>
  table unless one for the address exists, and the gate the scoring handlers run
  first (\<open>Blocklist.query.filter_by(ip=ip).first()\<close>, \<open>Store.blocked_query\<close>).
  The address and the reason come from a JSON body and need not be strings: SQLite
  stores a number or a boolean in the text column as its decimal text (the column's
  TEXT affinity; \<open>sqlite3\<close> binds \<open>True\<close> as 1), \<open>None\<close> as \<open>NULL\<close>, and refuses
  to bind a list, a dictionary, or an int outside the 64-bit range (\<open>OverflowError\<close>).
\<close>

text \<open>The range of an SQLite integer; \<open>sqlite3\<close> raises \<open>OverflowError\<close> when it binds a
  Python int outside it.\<close>

definition INT64_MIN :: int where "INT64_MIN = - (2 ^ 63)"
definition INT64_MAX :: int where "INT64_MAX = 2 ^ 63 - 1"

text \<open>The value SQLite stores for a bound parameter of a text column: \<open>None\<close> when
  binding raises (a list, a dictionary, or an int outside the 64-bit range, for which
  \<open>sqlite3\<close> raises \<open>OverflowError\<close>), \<open>Some None\<close> for \<open>NULL\<close>.\<close>

fun db_bind :: "json \<Rightarrow> pystr option option" where
  "db_bind JNull = Some None"
| "db_bind (JBool b) = Some (Some (if b then ''1'' else ''0''))"
| "db_bind (JInt i) = (if INT64_MIN \<le> i \<and> i \<le> INT64_MAX then Some (Some (py_str_int i)) else None)"
| "db_bind (JStr s) = Some (Some s)"
| "db_bind (JList xs) = None"
| "db_bind (JObj kvs) = None"

text \<open>\<open>request.get_json(silent=True)\<close>: \<open>None\<close> for a request that is not JSON or
  whose body does not parse.\<close>

definition silent_json :: "request \<Rightarrow> json" where
  "silent_json req =
     (if is_json req then (case json_body req of JParsed j \<Rightarrow> j | JParseError \<Rightarrow> JNull) else JNull)"

definition ok_blocked_response :: response where
  "ok_blocked_response = Response 200 (JObj [(''status'', JStr ''ok''), (''blocked'', JBool True)])"

definition ip_required_response :: response where
  "ip_required_response =
     Response 400 (JObj [(''status'', JStr ''error''), (''message'', JStr ''ip required'')])"

definition db_error_response :: response where
  "db_error_response = Response 500 (JObj [(''status'', JStr ''error''), (''message'', JStr ''db error'')])"

text \<open>The \<open>try\<close> block: look the address up (binding it), and only if there is no
  row add one (binding the reason). A value that cannot be bound, or a failing store,
  raises; the \<open>except\<close> answers \<open>db error\<close>.\<close>

definition block_add :: "env \<Rightarrow> json \<Rightarrow> json \<Rightarrow> db \<Rightarrow> py_error + db" where
  "block_add e ip reason s =
     (case db_bind ip of
        Some (Some ip_txt) \<Rightarrow>
          (if fails e QBlockAdd then Inl DatabaseError
           else if (\<exists>b \<in> set (blocks s). bl_ip b = ip_txt) then Inr s
           else (case db_bind reason of
                   Some r \<Rightarrow>
                     Inr (s\<lparr>blocks := blocks s @
                            [\<lparr>bl_id = next_id (map bl_id (blocks s)), bl_ip = ip_txt, bl_reason = r,
                              bl_timestamp = now e\<rparr>]\<rparr>)
                 | None \<Rightarrow> Inl DatabaseError))
      | _ \<Rightarrow> Inl DatabaseError)"

text \<open>\<open>api_block()\<close>. \<open>data = get_json(silent=True) or {}\<close>; \<open>data.get\<close> on a truthy
  value that is not a dictionary raises \<open>AttributeError\<close>, which no \<open>except\<close>
  catches (the 500 handler answers).\<close>

definition api_block :: "env \<Rightarrow> world \<Rightarrow> request \<Rightarrow> response \<times> world" where
  "api_block e w req =
     (let data = silent_json req;
          data' = (if py_truthy data then data else JObj [])
      in case data' of
           JObj kvs \<Rightarrow>
             (let ip = dict_get kvs ''ip'';
                  reason = (case map_of kvs ''reason'' of Some r \<Rightarrow> r | None \<Rightarrow> JStr ''manual'')
              in if \<not> py_truthy ip then (ip_required_response, w)
                 else (case block_add e ip reason (store w) of
                         Inl err \<Rightarrow> (db_error_response, w)
                       | Inr s' \<Rightarrow> (ok_blocked_response, w\<lparr>store := s'\<rparr>)))
         | _ \<Rightarrow> (internal_error_response, w))"

subsection \<open>Lemmas\<close>

lemma block_add_logs: "block_add e ip reason s = Inr s' \<Longrightarrow> logs s' = logs s"
  by (auto simp: block_add_def split: option.splits prod.splits if_splits)

lemma block_add_wf: "blocks_wf s \<Longrightarrow> block_add e ip reason s = Inr s' \<Longrightarrow> blocks_wf s'"
  by (auto simp: block_add_def blocks_wf_def split: option.splits prod.splits if_splits)

lemma block_add_mem:
  "db_bind ip = Some (Some t) \<Longrightarrow> block_add e ip reason s = Inr s' \<Longrightarrow>
   \<exists>b \<in> set (blocks s'). bl_ip b = t"
  by (auto simp: block_add_def split: option.splits prod.splits if_splits)

lemma block_add_keeps: "block_add e ip reason s = Inr s' \<Longrightarrow> set (blocks s) \<subseteq> set (blocks s')"
  by (auto simp: block_add_def split: option.splits prod.splits if_splits)

lemma api_block_logs: "logs (store (snd (api_block e w req))) = logs (store w)"
  by (auto simp: api_block_def Let_def block_add_logs split: json.splits sum.splits)

lemma api_block_decoy_gen: "decoy_gen (snd (api_block e w req)) = decoy_gen w"
  by (auto simp: api_block_def Let_def split: json.splits sum.splits)

lemma block_add_idem: "block_add e ip r s = Inr s' \<Longrightarrow> block_add e ip r s' = Inr s'"
  by (auto simp: block_add_def split: option.splits if_splits)

text \<open>Blocking is idempotent: handling the same block request twice, in the same
  environment, answers and stores exactly what handling it once does.\<close>

lemma api_block_idempotent: "api_block e (snd (api_block e w req)) req = api_block e w req"
  by (auto simp: api_block_def Let_def block_add_idem split: json.splits sum.splits)

end
