(* ===== verification/Csv.thy ===== *)
theory Csv
  imports Prelude
begin

text \<open>
  The CSV files the service writes (the decoy tables of \<open>gen_employees_csv\<close>,
  \<open>gen_projects_csv\<close> and \<open>gen_credentials_zip\<close>, and the report of
  \<open>api_export_report\<close> in \<open>src/Backend/app.py\<close>) go through Python's \<open>csv.writer\<close>
  with the default \<open>excel\<close> dialect: delimiter \<open>,\<close>, quote character \<open>"\<close>
  doubled inside a quoted field, line terminator \<open>\r\n\<close>, and \<open>QUOTE_MINIMAL\<close>: a field
  is quoted when it holds the delimiter, the quote character or a line-break
  character, and a row made of one empty field is written \<open>""\<close> so that it differs
  from an empty row. \<open>csv_row\<close> is \<open>writer.writerow\<close> on a row of strings.

  \<open>csv_read\<close> is a reader of RFC 4180 text as a state machine over the characters (the
  states of CPython's \<open>_csv\<close> reader). The round trip \<open>csv_read (csv_text rows) = Some
  rows\<close> shows that every file the writer produces holds exactly its rows, whatever
  commas, quotes or line breaks the fields contain.
\<close>

abbreviation csv_cr :: char where "csv_cr \<equiv> CHR 0x0D"
abbreviation csv_lf :: char where "csv_lf \<equiv> CHR 0x0A"
abbreviation csv_quote :: char where "csv_quote \<equiv> CHR 0x22"
abbreviation csv_comma :: char where "csv_comma \<equiv> CHR 0x2C"

subsection \<open>The writer\<close>

text \<open>The characters that make \<open>QUOTE_MINIMAL\<close> quote a field.\<close>

definition csv_special :: "char \<Rightarrow> bool" where
  "csv_special c \<longleftrightarrow> c = csv_comma \<or> c = csv_quote \<or> c = csv_cr \<or> c = csv_lf"

definition csv_needs_quote :: "pystr \<Rightarrow> bool" where
  "csv_needs_quote s = list_ex csv_special s"

definition csv_double_quote :: "char \<Rightarrow> pystr" where
  "csv_double_quote c = (if c = csv_quote then [csv_quote, csv_quote] else [c])"

definition csv_field :: "pystr \<Rightarrow> pystr" where
  "csv_field s =
     (if csv_needs_quote s then csv_quote # concat (map csv_double_quote s) @ [csv_quote] else s)"

definition csv_row :: "pystr list \<Rightarrow> pystr" where
  "csv_row fields =
     (if fields = [[]] then [csv_quote, csv_quote] else py_join [csv_comma] (map csv_field fields))
     @ [csv_cr, csv_lf]"

definition csv_text :: "pystr list list \<Rightarrow> pystr" where
  "csv_text rows = concat (map csv_row rows)"

subsection \<open>The reader\<close>

datatype csv_state = StartRecord | StartField | InField | InQuoted | QuoteInQuoted | EatCrnl

text \<open>One character at the start of a field: the next state, the field read so far,
  the fields of the record so far, and the record it completes, if any.\<close>

definition csv_start_field ::
  "pystr list \<Rightarrow> char \<Rightarrow> csv_state \<times> pystr \<times> pystr list \<times> pystr list option" where
  "csv_start_field flds c =
     (if c = csv_quote then (InQuoted, [], flds, None)
      else if c = csv_comma then (StartField, [], flds @ [[]], None)
      else if c = csv_cr then (EatCrnl, [], [], Some (flds @ [[]]))
      else if c = csv_lf then (StartRecord, [], [], Some (flds @ [[]]))
      else (InField, [c], flds, None))"

definition csv_start_record :: "char \<Rightarrow> csv_state \<times> pystr \<times> pystr list \<times> pystr list option" where
  "csv_start_record c =
     (if c = csv_cr then (EatCrnl, [], [], Some [])
      else if c = csv_lf then (StartRecord, [], [], Some [])
      else csv_start_field [] c)"

text \<open>The end of a field at a delimiter or a line break.\<close>

definition csv_end_field ::
  "pystr \<Rightarrow> pystr list \<Rightarrow> char \<Rightarrow> (csv_state \<times> pystr \<times> pystr list \<times> pystr list option) option" where
  "csv_end_field fld flds c =
     (if c = csv_comma then Some (StartField, [], flds @ [fld], None)
      else if c = csv_cr then Some (EatCrnl, [], [], Some (flds @ [fld]))
      else if c = csv_lf then Some (StartRecord, [], [], Some (flds @ [fld]))
      else None)"

definition csv_step ::
  "csv_state \<Rightarrow> pystr \<Rightarrow> pystr list \<Rightarrow> char \<Rightarrow> csv_state \<times> pystr \<times> pystr list \<times> pystr list option" where
  "csv_step st fld flds c =
     (case st of
        StartRecord \<Rightarrow> csv_start_record c
      | StartField \<Rightarrow> csv_start_field flds c
      | InField \<Rightarrow>
          (case csv_end_field fld flds c of Some r \<Rightarrow> r | None \<Rightarrow> (InField, fld @ [c], flds, None))
      | InQuoted \<Rightarrow>
          (if c = csv_quote then (QuoteInQuoted, fld, flds, None) else (InQuoted, fld @ [c], flds, None))
      | QuoteInQuoted \<Rightarrow>
          (if c = csv_quote then (InQuoted, fld @ [csv_quote], flds, None)
           else (case csv_end_field fld flds c of Some r \<Rightarrow> r | None \<Rightarrow> (InField, fld @ [c], flds, None)))
      | EatCrnl \<Rightarrow> (if c = csv_lf then (StartRecord, [], [], None) else csv_start_record c))"

fun csv_scan :: "csv_state \<Rightarrow> pystr \<Rightarrow> pystr list \<Rightarrow> pystr \<Rightarrow> pystr list list option" where
  "csv_scan st fld flds [] =
     (case st of
        StartRecord \<Rightarrow> Some []
      | EatCrnl \<Rightarrow> Some []
      | InQuoted \<Rightarrow> None
      | _ \<Rightarrow> Some [flds @ [fld]])"
| "csv_scan st fld flds (c # cs) =
     (case csv_step st fld flds c of
        (st', fld', flds', None) \<Rightarrow> csv_scan st' fld' flds' cs
      | (st', fld', flds', Some r) \<Rightarrow> map_option ((#) r) (csv_scan st' fld' flds' cs))"

definition csv_read :: "pystr \<Rightarrow> pystr list list option" where
  "csv_read s = csv_scan StartRecord [] [] s"

subsection \<open>Lemmas\<close>

lemma csv_plain_field:
  assumes "\<not> csv_needs_quote f"
  shows "csv_scan InField fld flds (f @ s) = csv_scan InField (fld @ f) flds s"
  using assms
proof (induction f arbitrary: fld)
  case Nil
  then show ?case by simp
next
  case (Cons c f)
  then have "\<not> csv_special c" "\<not> csv_needs_quote f" by (simp_all add: csv_needs_quote_def)
  with Cons.IH [of "fld @ [c]"] show ?case
    by (simp add: csv_step_def csv_end_field_def csv_special_def)
qed

lemma csv_quoted_body:
  "csv_scan InQuoted fld flds (concat (map csv_double_quote f) @ csv_quote # s) =
   csv_scan QuoteInQuoted (fld @ f) flds s"
proof (induction f arbitrary: fld)
  case Nil
  then show ?case by (simp add: csv_step_def)
next
  case (Cons c f)
  then show ?case by (simp add: csv_step_def csv_double_quote_def)
qed

text \<open>The states in which a field starts.\<close>

definition csv_field_start :: "csv_state \<Rightarrow> bool" where
  "csv_field_start st \<longleftrightarrow> st = StartRecord \<or> st = StartField"

lemma csv_step_field_start:
  "csv_field_start st \<Longrightarrow> c \<noteq> csv_cr \<Longrightarrow> c \<noteq> csv_lf \<Longrightarrow>
   csv_step st fld flds c = csv_start_field (if st = StartRecord then [] else flds) c"
  by (auto simp: csv_field_start_def csv_step_def csv_start_record_def)

text \<open>One written field followed by a delimiter or a line break, from the start of a
  field. The only exception is an empty field alone on its line, which is why the writer
  quotes it.\<close>

lemma csv_field_scan:
  assumes st: "csv_field_start st" and flds: "st = StartRecord \<Longrightarrow> flds = []"
    and d: "d = csv_comma \<or> d = csv_cr"
    and ex: "\<not> (st = StartRecord \<and> f = [] \<and> d = csv_cr)"
  shows "csv_scan st [] flds (csv_field f @ d # s) =
         (if d = csv_comma then csv_scan StartField [] (flds @ [f]) s
          else map_option ((#) (flds @ [f])) (csv_scan EatCrnl [] [] s))"
proof (cases "csv_needs_quote f")
  case True
  have "csv_scan st [] flds (csv_field f @ d # s) =
        csv_scan InQuoted [] flds (concat (map csv_double_quote f) @ csv_quote # d # s)"
    using True st flds by (auto simp: csv_field_def csv_step_field_start csv_start_field_def)
  also have "\<dots> = csv_scan QuoteInQuoted f flds (d # s)" by (simp add: csv_quoted_body)
  finally show ?thesis using d by (auto simp: csv_step_def csv_end_field_def)
next
  case False
  show ?thesis
  proof (cases f)
    case Nil
    then show ?thesis using st flds d ex
      by (auto simp: csv_field_def csv_needs_quote_def csv_field_start_def csv_step_def
          csv_start_record_def csv_start_field_def)
  next
    case (Cons c f')
    with False have c: "\<not> csv_special c" and f': "\<not> csv_needs_quote f'"
      by (simp_all add: csv_needs_quote_def)
    have "csv_scan st [] flds (csv_field f @ d # s) = csv_scan InField [c] flds (f' @ d # s)"
      using False Cons c st flds
      by (auto simp: csv_field_def csv_step_field_start csv_start_field_def csv_special_def)
    also have "\<dots> = csv_scan InField f flds (d # s)" using csv_plain_field [OF f'] Cons by simp
    finally show ?thesis using d by (auto simp: csv_step_def csv_end_field_def)
  qed
qed

lemma csv_fields_scan:
  assumes "fs \<noteq> []" and "csv_field_start st" and "st = StartRecord \<Longrightarrow> flds = []"
    and "\<not> (st = StartRecord \<and> fs = [[]])"
  shows "csv_scan st [] flds (py_join [csv_comma] (map csv_field fs) @ csv_cr # s) =
         map_option ((#) (flds @ fs)) (csv_scan EatCrnl [] [] s)"
  using assms
proof (induction fs arbitrary: st flds rule: induct_list012)
  case 1
  then show ?case by simp
next
  case (2 f)
  then show ?case using csv_field_scan [of st flds csv_cr f s] by simp
next
  case (3 f g fs)
  have "csv_scan st [] flds (py_join [csv_comma] (map csv_field (f # g # fs)) @ csv_cr # s) =
        csv_scan StartField [] (flds @ [f])
          (py_join [csv_comma] (map csv_field (g # fs)) @ csv_cr # s)"
    using csv_field_scan [of st flds csv_comma f] 3 by simp
  also have "\<dots> = map_option ((#) (flds @ f # g # fs)) (csv_scan EatCrnl [] [] s)"
    using "3.IH"(2) [of StartField "flds @ [f]"] by (simp add: csv_field_start_def)
  finally show ?case .
qed

lemma csv_row_scan:
  "csv_scan StartRecord [] [] (csv_row r @ s) = map_option ((#) r) (csv_scan StartRecord [] [] s)"
proof -
  have eat: "csv_scan EatCrnl [] [] (csv_lf # s) = csv_scan StartRecord [] [] s"
    by (simp add: csv_step_def)
  consider "r = []" | "r = [[]]" | "r \<noteq> []" "r \<noteq> [[]]" by blast
  then show ?thesis
  proof cases
    case 1
    then show ?thesis by (simp add: csv_row_def csv_step_def csv_start_record_def)
  next
    case 2
    then show ?thesis
      by (simp add: csv_row_def csv_step_def csv_start_record_def csv_start_field_def csv_end_field_def)
  next
    case 3
    then show ?thesis
      using csv_fields_scan [of r StartRecord "[]" "csv_lf # s"] eat
      by (simp add: csv_row_def csv_field_start_def)
  qed
qed

text \<open>The round trip of the writer: a file written row by row reads back as its rows.\<close>

theorem csv_read_text: "csv_read (csv_text rows) = Some rows"
proof -
  have "csv_scan StartRecord [] [] (concat (map csv_row rows)) = Some rows"
    by (induction rows) (simp_all add: csv_row_scan [where s = "concat _", symmetric]
        csv_row_scan)
  then show ?thesis by (simp add: csv_read_def csv_text_def)
qed

lemma csv_text_inj: "csv_text rows1 = csv_text rows2 \<Longrightarrow> rows1 = rows2"
  by (metis csv_read_text option.inject)

end
