(* ===== verification/Decoys.thy ===== *)
theory Decoys
  imports Web Csv
begin

text \<open>
  The decoy files of \<open>src/Backend/app.py\<close>: the generators \<open>gen_employees_csv\<close>,
  \<open>gen_projects_csv\<close> and \<open>gen_credentials_zip\<close> (lines 183--247), the decoy reference
  of an anomalous request, the view \<open>download_fn\<close> (lines 325--332) with the 404
  handler (lines 506--525), \<open>api_decoy_generate\<close> (lines 470--476) and the generation
  of missing decoys at start-up (lines 248--253).

  A generator writes its table through \<open>csv.writer\<close>; its rows are built by the code
  from the values \<open>Faker\<close> draws, which the request environment supplies (\<open>draw_emp\<close>,
  \<open>draw_proj\<close>, \<open>draw_cred\<close>). A path in \<open>io_fails\<close> is one whose \<open>open\<close> raises; the
  generator's \<open>except\<close> then logs and the file is left as it was. \<open>decoy_gen\<close> counts
  the calls of \<open>gen_credentials_zip\<close>. The lemmas show that no generator removes a
  file, that a successful generation is served by the download view, and that a failed
  employees write is still listed.
\<close>

definition EMP_HEADER :: "pystr list" where
  "EMP_HEADER = [''id'', ''name'', ''email'', ''dept'', ''role'', ''phone'', ''join_date'', ''salary'', ''password'']"

definition emp_row :: "nat \<Rightarrow> emp_draw \<Rightarrow> pystr list" where
  "emp_row i d =
     [py_str_int (int i), emp_name d, emp_email d, emp_dept d, emp_job d, emp_phone d, emp_join d,
      py_str_int (emp_salary d), emp_password d]"

text \<open>\<open>gen_employees_csv(n)\<close>: the path is returned whether or not the file was written.\<close>

definition gen_employees_csv :: "env \<Rightarrow> nat \<Rightarrow> world \<Rightarrow> pystr \<times> world" where
  "gen_employees_csv e n w =
     (let fn = py_path_join (decoy_dir (base_dir e)) ''decoy_employees.csv''
      in (fn, if io_fails e fn then w
              else w\<lparr>files := (files w)(fn \<mapsto> CsvFile (EMP_HEADER # map (\<lambda>i. emp_row i (draw_emp e i)) [1..<n + 1]))\<rparr>))"

text \<open>The same generator in \<open>src/app.py\<close> (lines 134--138), where the file ends after
  the header row: no \<open>try\<close>, so a failing \<open>open\<close> raises, no rows, and no return
  value.\<close>

definition gen_employees_csv_legacy :: "env \<Rightarrow> world \<Rightarrow> py_error + world" where
  "gen_employees_csv_legacy e w =
     (let fn = py_path_join (decoy_dir (base_dir e)) ''decoy_employees.csv''
      in if io_fails e fn then Inl OSError
         else Inr (w\<lparr>files := (files w)(fn \<mapsto> CsvFile [EMP_HEADER])\<rparr>))"

definition PROJ_HEADER :: "pystr list" where
  "PROJ_HEADER = [''id'', ''title'', ''description'', ''owner_email'', ''repo_url'', ''secret_token'']"

definition proj_row :: "nat \<Rightarrow> proj_draw \<Rightarrow> pystr list" where
  "proj_row i d =
     [py_str_int (int i), py_title (proj_bs d), proj_sentence d, proj_email d,
      ''https://git.internal/'' @ proj_user d @ ''/'' @ proj_word d, ''HONEY_'' @ py_upper (proj_lex d)]"

definition gen_projects_csv :: "env \<Rightarrow> nat \<Rightarrow> world \<Rightarrow> pystr \<times> world" where
  "gen_projects_csv e n w =
     (let fn = py_path_join (decoy_dir (base_dir e)) ''decoy_projects.csv''
      in (fn, if io_fails e fn then w
              else w\<lparr>files := (files w)(fn \<mapsto> CsvFile (PROJ_HEADER # map (\<lambda>i. proj_row i (draw_proj e i)) [1..<n + 1]))\<rparr>))"

definition CRED_HEADER :: "pystr list" where
  "CRED_HEADER = [''service'', ''username'', ''password'', ''notes'']"

definition cred_row :: "cred_draw \<Rightarrow> pystr list" where
  "cred_row d =
     [cred_domain d @ ''.internal'', cred_user d, cred_password d,
      ''Backup token - HONEY_'' @ py_upper (cred_lex d)]"

definition cred_rows :: "env \<Rightarrow> nat \<Rightarrow> pystr list list" where
  "cred_rows e n = CRED_HEADER # map (\<lambda>i. cred_row (draw_cred e i)) [0..<n]"

text \<open>\<open>gen_credentials_zip(n)\<close>: write \<open>credentials.csv\<close>, then pack it as
  \<open>credentials_backup.zip\<close>; \<open>None\<close> when either \<open>open\<close> raises.\<close>

definition gen_credentials_zip :: "env \<Rightarrow> nat \<Rightarrow> world \<Rightarrow> pystr option \<times> world" where
  "gen_credentials_zip e n w =
     (let w0 = w\<lparr>decoy_gen := Suc (decoy_gen w)\<rparr>;
          csv_fn = py_path_join (decoy_dir (base_dir e)) ''credentials.csv'';
          zip_fn = py_path_join (decoy_dir (base_dir e)) ''credentials_backup.zip''
      in if io_fails e csv_fn then (None, w0)
         else (let w1 = w0\<lparr>files := (files w0)(csv_fn \<mapsto> CsvFile (cred_rows e n))\<rparr>
               in if io_fails e zip_fn then (None, w1)
                  else (Some zip_fn,
                        w1\<lparr>files := (files w1)(zip_fn \<mapsto> ZipArchive [(''credentials.csv'', CsvFile (cred_rows e n))])\<rparr>)))"

text \<open>\<open>request.url_root.rstrip('/') + '/download/' + os.path.basename(decoy_path)\<close>.\<close>

definition decoy_url :: "request \<Rightarrow> pystr \<Rightarrow> pystr" where
  "decoy_url req p = py_rstrip CHR ''/'' (url_root req) @ ''/download/'' @ py_basename p"

text \<open>The decoy reference of an anomalous request (lines 374--376 and 423--425): the
  bundle is regenerated, and a non-empty path becomes a URL.\<close>

definition regenerate_decoy :: "env \<Rightarrow> request \<Rightarrow> world \<Rightarrow> pystr option \<times> world" where
  "regenerate_decoy e req w =
     (let (p, w1) = gen_credentials_zip e 50 w
      in ((case p of Some p' \<Rightarrow> (if p' \<noteq> [] then Some (decoy_url req p') else None) | None \<Rightarrow> None), w1))"

text \<open>The 404 handler \<open>not_found_error\<close>.\<close>

definition not_found_response :: response where
  "not_found_response =
     Response 404 (JObj [(''status'', JStr ''error''), (''error'', JStr ''Not Found''),
       (''message'', JStr ''The requested resource was not found on this server.''),
       (''available_endpoints'', JList (map JStr [''/'', ''/api/status'', ''/api/tables'', ''/api/alerts'',
          ''/api/login'', ''/api/query'', ''/api/actions/block'', ''/api/decoy/generate'',
          ''/api/export_report'', ''/download/<filename>'']))])"

text \<open>\<open>download_fn(fn)\<close>. The names \<open>''\<close>, \<open>.\<close> and \<open>..\<close> denote directories, which
  exist, so \<open>send_file\<close> raises and the 500 handler answers; a missing file is
  \<open>abort(404)\<close>.\<close>

definition download_fn :: "env \<Rightarrow> world \<Rightarrow> pystr \<Rightarrow> response" where
  "download_fn e w fn =
     (let safe = py_basename fn;
          path = download_path (base_dir e) fn
      in if safe = [] \<or> safe = ''.'' \<or> safe = ''..'' then internal_error_response
         else (case files w path of
                 None \<Rightarrow> not_found_response
               | Some f \<Rightarrow> FileResponse 200 safe f))"

text \<open>\<open>api_decoy_generate()\<close>: the base names of the generators' truthy results.\<close>

definition api_decoy_generate :: "env \<Rightarrow> world \<Rightarrow> response \<times> world" where
  "api_decoy_generate e w =
     (let (emp, w1) = gen_employees_csv e 200 w;
          (proj, w2) = gen_projects_csv e 50 w1;
          (cred, w3) = gen_credentials_zip e 50 w2;
          results = [emp, proj] @ (case cred of Some c \<Rightarrow> [c] | None \<Rightarrow> []);
          names = map py_basename (filter (\<lambda>x. x \<noteq> []) results)
      in (Response 200 (JObj [(''status'', JStr ''ok''), (''files'', JList (map JStr names))]), w3))"

text \<open>Start-up: each decoy file that does not exist is generated.\<close>

definition startup_decoys :: "env \<Rightarrow> world \<Rightarrow> world" where
  "startup_decoys e w =
     (let d = decoy_dir (base_dir e);
          w1 = (if files w (py_path_join d ''decoy_employees.csv'') = None
                then snd (gen_employees_csv e 200 w) else w);
          w2 = (if files w1 (py_path_join d ''decoy_projects.csv'') = None
                then snd (gen_projects_csv e 50 w1) else w1)
      in if files w2 (py_path_join d ''credentials_backup.zip'') = None
         then snd (gen_credentials_zip e 50 w2) else w2)"

abbreviation DECOY_NAMES :: "pystr list" where
  "DECOY_NAMES \<equiv> [''decoy_employees.csv'', ''decoy_projects.csv'', ''credentials_backup.zip'']"

subsection \<open>Lemmas\<close>

lemma gen_credentials_zip_store [simp]: "store (snd (gen_credentials_zip e n w)) = store w"
  by (simp add: gen_credentials_zip_def Let_def)

lemma gen_credentials_zip_gen [simp]:
  "decoy_gen (snd (gen_credentials_zip e n w)) = Suc (decoy_gen w)"
  by (simp add: gen_credentials_zip_def Let_def)

lemma gen_employees_csv_store [simp]: "store (snd (gen_employees_csv e n w)) = store w"
  by (simp add: gen_employees_csv_def Let_def)

lemma gen_projects_csv_store [simp]: "store (snd (gen_projects_csv e n w)) = store w"
  by (simp add: gen_projects_csv_def Let_def)

lemma regenerate_decoy_store [simp]: "store (snd (regenerate_decoy e req w)) = store w"
  by (simp add: regenerate_decoy_def case_prod_unfold Let_def)

lemma regenerate_decoy_gen [simp]:
  "decoy_gen (snd (regenerate_decoy e req w)) = Suc (decoy_gen w)"
  by (simp add: regenerate_decoy_def case_prod_unfold Let_def)

lemma regenerate_decoy_store_eq: "regenerate_decoy e req w = (d, w') \<Longrightarrow> store w' = store w"
  using regenerate_decoy_store [of e req w] by simp

lemma api_decoy_generate_store [simp]: "store (snd (api_decoy_generate e w)) = store w"
  by (simp add: api_decoy_generate_def Let_def case_prod_unfold)

lemma decoy_url_prefix:
  "\<exists>f. decoy_url req p = py_rstrip CHR ''/'' (url_root req) @ ''/download/'' @ f \<and>
       CHR ''/'' \<notin> set f"
  by (auto simp: decoy_url_def py_basename_no_slash)

lemma py_basename_plain: "CHR ''/'' \<notin> set b \<Longrightarrow> py_basename b = b"
proof -
  assume "CHR ''/'' \<notin> set b"
  then have tw: "takeWhile (\<lambda>x. x \<noteq> CHR ''/'') (rev b) = rev b"
    by (intro takeWhile_eq_all_conv [THEN iffD2]) auto
  show ?thesis unfolding py_basename_def tw by simp
qed

lemma py_basename_append_slash: "CHR ''/'' \<notin> set b \<Longrightarrow> py_basename (d @ CHR ''/'' # b) = b"
proof -
  assume "CHR ''/'' \<notin> set b"
  then have "takeWhile (\<lambda>x. x \<noteq> CHR ''/'') (rev b @ CHR ''/'' # rev d) = rev b"
    by (subst takeWhile_append2) auto
  then show ?thesis by (simp add: py_basename_def)
qed

lemma decoy_file_path:
  assumes "CHR ''/'' \<notin> set b" and "b \<noteq> []"
  shows "py_path_join (decoy_dir base) b = decoy_dir base @ CHR ''/'' # b"
proof -
  have "\<not> py_startswith b ''/''" using assms by (cases b) auto
  then show ?thesis using decoy_dir_last [of base] by (simp add: py_path_join_def)
qed

lemma download_decoy_file:
  assumes "CHR ''/'' \<notin> set b" and "b \<notin> {[], ''.'', ''..''}"
    and "files w (py_path_join (decoy_dir (base_dir e)) b) = Some f"
  shows "download_fn e w b = FileResponse 200 b f"
  using assms by (simp add: download_fn_def download_path_def py_basename_plain)

lemma download_missing_file:
  assumes "CHR ''/'' \<notin> set b" and "b \<notin> {[], ''.'', ''..''}"
    and "files w (py_path_join (decoy_dir (base_dir e)) b) = None"
  shows "download_fn e w b = not_found_response"
  using assms by (simp add: download_fn_def download_path_def py_basename_plain)

lemma zip_name_basename:
  "py_basename (py_path_join (decoy_dir base) ''credentials_backup.zip'') = ''credentials_backup.zip''"
  by (simp add: decoy_file_path py_basename_append_slash)

text \<open>C11: the decoy reference handed to an anomalous request names the credentials
  bundle, and the download view then serves exactly that bundle, with the credentials
  just drawn.\<close>

theorem decoy_reference_served:
  assumes "regenerate_decoy e req w = (Some u, w')" and "base_dir e' = base_dir e"
  shows "u = py_rstrip CHR ''/'' (url_root req) @ ''/download/credentials_backup.zip'' \<and>
         download_fn e' w' ''credentials_backup.zip'' =
           FileResponse 200 ''credentials_backup.zip''
             (ZipArchive [(''credentials.csv'', CsvFile (cred_rows e 50))])"
proof -
  let ?zip = "py_path_join (decoy_dir (base_dir e)) ''credentials_backup.zip''"
  let ?csv = "py_path_join (decoy_dir (base_dir e)) ''credentials.csv''"
  from assms(1) have ok: "\<not> io_fails e ?csv" "\<not> io_fails e ?zip"
    and u: "u = decoy_url req ?zip"
    and w': "files w' ?zip = Some (ZipArchive [(''credentials.csv'', CsvFile (cred_rows e 50))])"
    by (auto simp: regenerate_decoy_def gen_credentials_zip_def Let_def split: if_splits)
  show ?thesis
  proof
    show "u = py_rstrip CHR ''/'' (url_root req) @ ''/download/credentials_backup.zip''"
      using u by (simp add: decoy_url_def zip_name_basename)
    show "download_fn e' w' ''credentials_backup.zip'' =
            FileResponse 200 ''credentials_backup.zip'' (ZipArchive [(''credentials.csv'', CsvFile (cred_rows e 50))])"
      using w' assms(2) by (intro download_decoy_file) simp_all
  qed
qed


lemma decoy_name_basename:
  "CHR ''/'' \<notin> set b \<Longrightarrow> b \<noteq> [] \<Longrightarrow> py_basename (py_path_join (decoy_dir base) b) = b"
  by (simp add: decoy_file_path py_basename_append_slash)

lemma decoy_paths_differ:
  "CHR ''/'' \<notin> set b1 \<Longrightarrow> b1 \<noteq> [] \<Longrightarrow> CHR ''/'' \<notin> set b2 \<Longrightarrow> b2 \<noteq> [] \<Longrightarrow> b1 \<noteq> b2 \<Longrightarrow>
   py_path_join (decoy_dir base) b1 \<noteq> py_path_join (decoy_dir base) b2"
  by (simp add: decoy_file_path)

lemma gen_files_keep:
  "files w p \<noteq> None \<Longrightarrow> files (snd (gen_employees_csv e n w)) p \<noteq> None"
  "files w p \<noteq> None \<Longrightarrow> files (snd (gen_projects_csv e n w)) p \<noteq> None"
  "files w p \<noteq> None \<Longrightarrow> files (snd (gen_credentials_zip e n w)) p \<noteq> None"
  by (auto simp: gen_employees_csv_def gen_projects_csv_def gen_credentials_zip_def Let_def)

lemma regenerate_decoy_files_keep:
  "regenerate_decoy e req w = (d, w') \<Longrightarrow> files w p \<noteq> None \<Longrightarrow> files w' p \<noteq> None"
  using gen_files_keep(3) [of w p e 50] by (auto simp: regenerate_decoy_def case_prod_unfold Let_def)

lemma api_decoy_generate_files_keep:
  "files w p \<noteq> None \<Longrightarrow> files (snd (api_decoy_generate e w)) p \<noteq> None"
  by (simp add: api_decoy_generate_def case_prod_unfold Let_def gen_files_keep)

lemma gen_files_written:
  "\<not> io_fails e (py_path_join (decoy_dir (base_dir e)) ''decoy_employees.csv'') \<Longrightarrow>
   files (snd (gen_employees_csv e n w)) (py_path_join (decoy_dir (base_dir e)) ''decoy_employees.csv'') \<noteq> None"
  "\<not> io_fails e (py_path_join (decoy_dir (base_dir e)) ''decoy_projects.csv'') \<Longrightarrow>
   files (snd (gen_projects_csv e n w)) (py_path_join (decoy_dir (base_dir e)) ''decoy_projects.csv'') \<noteq> None"
  "\<not> io_fails e (py_path_join (decoy_dir (base_dir e)) ''credentials.csv'') \<Longrightarrow>
   \<not> io_fails e (py_path_join (decoy_dir (base_dir e)) ''credentials_backup.zip'') \<Longrightarrow>
   files (snd (gen_credentials_zip e n w)) (py_path_join (decoy_dir (base_dir e)) ''credentials_backup.zip'') \<noteq> None"
  by (simp_all add: gen_employees_csv_def gen_projects_csv_def gen_credentials_zip_def Let_def)

lemma gen_decoy_paths [simp]:
  "fst (gen_employees_csv e n w) = py_path_join (decoy_dir (base_dir e)) ''decoy_employees.csv''"
  "fst (gen_projects_csv e n w) = py_path_join (decoy_dir (base_dir e)) ''decoy_projects.csv''"
  "fst (gen_credentials_zip e n w) =
     (if io_fails e (py_path_join (decoy_dir (base_dir e)) ''credentials.csv'') \<or>
         io_fails e (py_path_join (decoy_dir (base_dir e)) ''credentials_backup.zip'') then None
      else Some (py_path_join (decoy_dir (base_dir e)) ''credentials_backup.zip''))"
  by (simp_all add: gen_employees_csv_def gen_projects_csv_def gen_credentials_zip_def Let_def)

lemma decoy_path_ne: "py_path_join (decoy_dir base) b \<noteq> []"
  using decoy_dir_last [of base] by (auto simp: py_path_join_def)

lemma api_decoy_generate_response:
  "fst (api_decoy_generate e w) =
     Response 200 (JObj [(''status'', JStr ''ok''), (''files'', JList (map JStr
       ([''decoy_employees.csv'', ''decoy_projects.csv''] @
        (if io_fails e (py_path_join (decoy_dir (base_dir e)) ''credentials.csv'') \<or>
            io_fails e (py_path_join (decoy_dir (base_dir e)) ''credentials_backup.zip'') then []
         else [''credentials_backup.zip'']))))])"
  by (simp add: api_decoy_generate_def case_prod_unfold Let_def decoy_path_ne decoy_name_basename)

text \<open>C12: when no file operation fails, \<open>/api/decoy/generate\<close> lists the three
  decoy files, and each listed name is then served by \<open>/download/<name>\<close>.\<close>

theorem decoy_generate_served:
  assumes "\<forall>p. \<not> io_fails e p" and "base_dir e' = base_dir e"
  shows "fst (api_decoy_generate e w) =
           Response 200 (JObj [(''status'', JStr ''ok''), (''files'', JList (map JStr DECOY_NAMES))]) \<and>
         (\<forall>nm \<in> set DECOY_NAMES. \<exists>f. download_fn e' (snd (api_decoy_generate e w)) nm = FileResponse 200 nm f)"
proof -
  let ?d = "decoy_dir (base_dir e)"
  have d1: "py_path_join ?d ''decoy_projects.csv'' \<noteq> py_path_join ?d ''decoy_employees.csv''"
    and d2: "py_path_join ?d ''credentials_backup.zip'' \<noteq> py_path_join ?d ''decoy_employees.csv''"
    and d3: "py_path_join ?d ''credentials.csv'' \<noteq> py_path_join ?d ''decoy_employees.csv''"
    and d4: "py_path_join ?d ''credentials_backup.zip'' \<noteq> py_path_join ?d ''decoy_projects.csv''"
    and d5: "py_path_join ?d ''credentials.csv'' \<noteq> py_path_join ?d ''decoy_projects.csv''"
    by (simp_all add: decoy_paths_differ)
  have present: "\<forall>nm \<in> set DECOY_NAMES. \<exists>f. files (snd (api_decoy_generate e w)) (py_path_join ?d nm) = Some f"
    using assms(1) d1 d2 d3 d4 d5
    by (simp add: api_decoy_generate_def gen_employees_csv_def gen_projects_csv_def
        gen_credentials_zip_def Let_def)
  have resp: "fst (api_decoy_generate e w) =
           Response 200 (JObj [(''status'', JStr ''ok''), (''files'', JList (map JStr DECOY_NAMES))])"
    using assms(1) by (simp add: api_decoy_generate_response)
  have "\<forall>nm \<in> set DECOY_NAMES. \<exists>f. download_fn e' (snd (api_decoy_generate e w)) nm = FileResponse 200 nm f"
  proof
    fix nm assume nm: "nm \<in> set DECOY_NAMES"
    then obtain f where "files (snd (api_decoy_generate e w)) (py_path_join ?d nm) = Some f"
      using present by blast
    moreover have "CHR ''/'' \<notin> set nm" "nm \<notin> {[], ''.'', ''..''}" using nm by auto
    ultimately show "\<exists>f. download_fn e' (snd (api_decoy_generate e w)) nm = FileResponse 200 nm f"
      using download_decoy_file [where b = nm and e = e' and f = f] assms(2) by auto
  qed
  with resp show ?thesis by blast
qed

text \<open>C32: the employees generator returns its path even when the write fails, so
  \<open>/api/decoy/generate\<close> lists a file that \<open>/download\<close> then answers with 404.\<close>

theorem decoy_generate_lists_missing:
  assumes "io_fails e (py_path_join (decoy_dir (base_dir e)) ''decoy_employees.csv'')"
    and "files w (py_path_join (decoy_dir (base_dir e)) ''decoy_employees.csv'') = None"
  shows "(\<exists>names. fst (api_decoy_generate e w) =
             Response 200 (JObj [(''status'', JStr ''ok''), (''files'', JList (map JStr names))]) \<and>
           ''decoy_employees.csv'' \<in> set names) \<and>
         download_fn e (snd (api_decoy_generate e w)) ''decoy_employees.csv'' = not_found_response"
proof -
  let ?d = "decoy_dir (base_dir e)"
  have d1: "py_path_join ?d ''decoy_projects.csv'' \<noteq> py_path_join ?d ''decoy_employees.csv''"
    and d2: "py_path_join ?d ''credentials_backup.zip'' \<noteq> py_path_join ?d ''decoy_employees.csv''"
    and d3: "py_path_join ?d ''credentials.csv'' \<noteq> py_path_join ?d ''decoy_employees.csv''"
    by (simp_all add: decoy_paths_differ)
  have missing: "files (snd (api_decoy_generate e w)) (py_path_join ?d ''decoy_employees.csv'') = None"
    using assms d1 d2 d3
    by (simp add: api_decoy_generate_def gen_employees_csv_def gen_projects_csv_def
        gen_credentials_zip_def Let_def)
  have listed: "\<exists>names. fst (api_decoy_generate e w) =
             Response 200 (JObj [(''status'', JStr ''ok''), (''files'', JList (map JStr names))]) \<and>
           ''decoy_employees.csv'' \<in> set names"
    unfolding api_decoy_generate_response by (rule exI, rule conjI, rule refl) simp
  have "download_fn e (snd (api_decoy_generate e w)) ''decoy_employees.csv'' = not_found_response"
    using missing by (intro download_missing_file) simp_all
  with listed show ?thesis by blast
qed

text \<open>A requested name whose base name is empty, \<open>.\<close> or \<open>..\<close> denotes a directory,
  and the download answers with the 500 handler's response.\<close>

lemma download_directory_error:
  "py_basename fn \<in> {[], ''.'', ''..''} \<Longrightarrow> download_fn e w fn = internal_error_response"
  by (auto simp: download_fn_def)

text \<open>When no file operation fails, after start-up the three decoy files exist.\<close>

lemma startup_decoys_files:
  assumes "\<forall>p. \<not> io_fails e p"
  shows "\<forall>nm \<in> set DECOY_NAMES. files (startup_decoys e w) (py_path_join (decoy_dir (base_dir e)) nm) \<noteq> None"
proof -
  let ?d = "decoy_dir (base_dir e)"
  define w1 where "w1 = (if files w (py_path_join ?d ''decoy_employees.csv'') = None
                then snd (gen_employees_csv e 200 w) else w)"
  define w2 where "w2 = (if files w1 (py_path_join ?d ''decoy_projects.csv'') = None
                then snd (gen_projects_csv e 50 w1) else w1)"
  define w3 where "w3 = (if files w2 (py_path_join ?d ''credentials_backup.zip'') = None
                then snd (gen_credentials_zip e 50 w2) else w2)"
  have s: "startup_decoys e w = w3"
    unfolding startup_decoys_def Let_def w1_def w2_def w3_def by (rule refl)
  have k1: "files w1 p \<noteq> None" if "files w p \<noteq> None" for p
    using that gen_files_keep(1) by (simp add: w1_def)
  have k2: "files w2 p \<noteq> None" if "files w1 p \<noteq> None" for p
    using that gen_files_keep(2) by (simp add: w2_def)
  have k3: "files w3 p \<noteq> None" if "files w2 p \<noteq> None" for p
    using that gen_files_keep(3) by (simp add: w3_def)
  have e1: "files w1 (py_path_join ?d ''decoy_employees.csv'') \<noteq> None"
    using assms gen_files_written(1) by (simp add: w1_def)
  have e2: "files w2 (py_path_join ?d ''decoy_projects.csv'') \<noteq> None"
    using assms gen_files_written(2) by (simp add: w2_def)
  have e3: "files w3 (py_path_join ?d ''credentials_backup.zip'') \<noteq> None"
    using assms gen_files_written(3) by (simp add: w3_def)
  show ?thesis using k2 k3 e1 e2 e3 by (simp add: s)
qed

end
