(* ===== verification/Engine.thy ===== *)
theory Engine
  imports Blocklist Decoys
begin

text \<open>
  The Decision Engine: the two scoring handlers of \<open>src/Backend/app.py\<close>,
  \<open>api_login\<close> (lines 363--397) and \<open>api_query\<close> (lines 399--451). Each runs the
  Blocklist Gate, extracts the features (with the rate from the log table), scores them
  with the model, and on an anomaly builds a deception profile and regenerates the decoy
  bundle; then it appends a forensic log row (a failed commit is caught) and answers.
  The login handler always answers 401; the query handler ORs the signature test of
  its \<open>q\<close> parameter into the SQL flag and, on an anomaly, fabricates one row for a
  query that mentions \<open>SELECT\<close>.
\<close>

definition login_fail_response :: response where
  "login_fail_response =
     Response 401 (JObj [(''status'', JStr ''fail''), (''message'', JStr ''Invalid credentials'')])"

definition FAKE_ROW :: json where
  "FAKE_ROW = JObj [(''id'', JInt 1), (''name'', JStr ''John Doe''),
                    (''email'', JStr ''john.doe@company.internal'')]"

text \<open>The \<open>Log(...)\<close> row both handlers build; the store assigns its id and
  timestamp.\<close>

definition make_log ::
  "env \<Rightarrow> request \<Rightarrow> ipaddr \<Rightarrow> pystr \<Rightarrow> nat \<Rightarrow> nat \<Rightarrow> bool \<Rightarrow> json option \<Rightarrow> pystr option \<Rightarrow>
   log_entry" where
  "make_log e req ip payload num_params plen anom profile decoy =
     \<lparr>log_id = 0, log_ip = ip, log_ua = header_get req ''User-Agent'' [], log_path = req_path req,
      log_method = req_method req, log_payload = payload, log_num_params = num_params,
      log_payload_len = plen, log_timestamp = now e, log_anomaly = anom,
      log_profile = map_option (json_dumps True) profile, log_decoy_file = decoy\<rparr>"

text \<open>\<open>try: db.session.add(l); db.session.commit() except: logging\<close>.\<close>

definition write_log :: "env \<Rightarrow> log_entry \<Rightarrow> world \<Rightarrow> world" where
  "write_log e l w =
     (case append_log (fails e) (now e) l (store w) of
        Inl err \<Rightarrow> w
      | Inr s' \<Rightarrow> w\<lparr>store := s'\<rparr>)"

definition api_login :: "predictor option \<Rightarrow> env \<Rightarrow> world \<Rightarrow> request \<Rightarrow> response \<times> world" where
  "api_login model e w req =
     (let ip = client_ip req in
      case blocked_query (fails e) (store w) ip of
        Inl err \<Rightarrow> (internal_error_response, w)
      | Inr blocked \<Rightarrow>
          (if blocked then (blocked_response, w)
           else
             (let feat = features_from_request (fails e) (store w) (now e) req ip;
                  anom = is_anomaly_from_features model feat;
                  profile = (if anom then Some (make_profile e ''suspicious activity detected'') else None);
                  (decoy, w1) = (if anom then regenerate_decoy e req w else (None, w));
                  (payload, num_params) = extract_payload_and_params req;
                  l = make_log e req ip payload num_params (feat_payload_len feat) anom profile decoy
              in (login_fail_response, write_log e l w1))))"

text \<open>The \<open>q\<close> parameter (lines 405--413): from a JSON dictionary, else the form
  field, else the body text, else \<open>None\<close> (\<open>JNull\<close>). The form is the only step that
  can raise; the \<open>except\<close> takes the body text.\<close>

definition query_param :: "request \<Rightarrow> json" where
  "query_param req =
     (let q0 = (if is_json req then
                  (let j = silent_json req;
                       j' = (if py_truthy j then j else JObj [])
                   in case j' of JObj kvs \<Rightarrow> dict_get kvs ''q'' | _ \<Rightarrow> JNull)
                else JNull);
          data_or_none = (if body_text req \<noteq> [] then JStr (body_text req) else JNull)
      in if q0 \<noteq> JNull then q0
         else (case form req of
                 None \<Rightarrow> data_or_none
               | Some kvs \<Rightarrow>
                   (case md_get kvs ''q'' of
                      Some v \<Rightarrow> (if v \<noteq> [] then JStr v else data_or_none)
                    | None \<Rightarrow> data_or_none)))"

text \<open>\<open>if q and 'SELECT' in q.upper(): rows = [fake row]\<close>: \<open>q.upper()\<close> raises on a
  truthy \<open>q\<close> that is not a \<open>str\<close>, and nothing catches it.\<close>

definition select_rows :: "json \<Rightarrow> py_error + json list" where
  "select_rows q =
     (if \<not> py_truthy q then Inr []
      else (case q of
              JStr s \<Rightarrow> Inr (if py_in ''SELECT'' (py_upper s) then [FAKE_ROW] else [])
            | _ \<Rightarrow> Inl AttributeError))"

text \<open>The features \<open>api_query\<close> scores: the extractor's, with the SQL flag set when
  the signature test of \<open>q\<close> fires (lines 414--416).\<close>

definition query_features :: "faults \<Rightarrow> db \<Rightarrow> timestamp \<Rightarrow> request \<Rightarrow> ipaddr \<Rightarrow> features" where
  "query_features fl s t req ip =
     (let feat0 = features_from_request fl s t req ip
      in if has_sql_signature (query_param req) then feat0\<lparr>feat_sql_flag := 1\<rparr> else feat0)"

text \<open>\<open>{'status':'ok','result': {'rows': rows}, 'anomaly': bool(anom), 'decoy': decoy}\<close>.\<close>

definition query_response :: "json list \<Rightarrow> bool \<Rightarrow> pystr option \<Rightarrow> response" where
  "query_response rows anom decoy =
     Response 200 (JObj [(''status'', JStr ''ok''), (''result'', JObj [(''rows'', JList rows)]),
                         (''anomaly'', JBool anom),
                         (''decoy'', (case decoy of Some d \<Rightarrow> JStr d | None \<Rightarrow> JNull))])"

text \<open>The end of \<open>api_query\<close>: the log row (its payload is \<open>str(q)\<close>) and the 200
  answer.\<close>

definition query_finish ::
  "env \<Rightarrow> request \<Rightarrow> ipaddr \<Rightarrow> json \<Rightarrow> features \<Rightarrow> bool \<Rightarrow> json option \<Rightarrow> pystr option \<Rightarrow>
   json list \<Rightarrow> world \<Rightarrow> response \<times> world" where
  "query_finish e req ip q feat anom profile decoy rows w =
     (let num_params = snd (extract_payload_and_params req);
          l = make_log e req ip (py_str q) num_params (feat_payload_len feat) anom profile decoy
      in (query_response rows anom decoy, write_log e l w))"

definition api_query :: "predictor option \<Rightarrow> env \<Rightarrow> world \<Rightarrow> request \<Rightarrow> response \<times> world" where
  "api_query model e w req =
     (let ip = client_ip req in
      case blocked_query (fails e) (store w) ip of
        Inl err \<Rightarrow> (internal_error_response, w)
      | Inr blocked \<Rightarrow>
          (if blocked then (blocked_response, w)
           else
             (let q = query_param req;
                  feat = query_features (fails e) (store w) (now e) req ip;
                  anom = is_anomaly_from_features model feat
              in if anom then
                   (let profile = make_profile e ''data exfiltration'';
                        (decoy, w1) = regenerate_decoy e req w
                    in case select_rows q of
                         Inl err \<Rightarrow> (internal_error_response, w1)
                       | Inr rows \<Rightarrow> query_finish e req ip q feat True (Some profile) decoy rows w1)
                 else query_finish e req ip q feat False None None [] w)))"


subsection \<open>Lemmas\<close>

lemma write_log_ok:
  "\<not> fails e CommitLog \<Longrightarrow>
   write_log e l w = w\<lparr>store := (store w)\<lparr>logs := logs (store w) @
      [l\<lparr>log_id := next_id (map log_id (logs (store w))), log_timestamp := now e\<rparr>]\<rparr>\<rparr>"
  by (simp add: write_log_def append_log_def)

lemma write_log_fail: "fails e CommitLog \<Longrightarrow> write_log e l w = w"
  by (simp add: write_log_def append_log_def)

lemma write_log_blocks [simp]: "blocks (store (write_log e l w)) = blocks (store w)"
  by (simp add: write_log_def append_log_def)

lemma write_log_decoy_gen [simp]: "decoy_gen (write_log e l w) = decoy_gen w"
  by (simp add: write_log_def append_log_def)

lemma write_log_prefix:
  "store w1 = store w \<Longrightarrow> prefix (logs (store w)) (logs (store (write_log e l w1)))"
  by (simp add: write_log_def append_log_def split: sum.splits)

lemma write_log_wf:
  "store w1 = store w \<Longrightarrow> logs_wf (store w) \<Longrightarrow> logs_wf (store (write_log e l w1))"
  by (auto simp: write_log_def append_log_wf split: sum.splits)

lemma login_blocks [simp]: "blocks (store (snd (api_login m e w req))) = blocks (store w)"
  by (auto simp: api_login_def Let_def dest: regenerate_decoy_store_eq split: sum.splits prod.splits)

lemma query_blocks [simp]: "blocks (store (snd (api_query m e w req))) = blocks (store w)"
  by (auto simp: api_query_def query_finish_def Let_def dest: regenerate_decoy_store_eq
           split: sum.splits prod.splits)

lemma login_logs_prefix: "prefix (logs (store w)) (logs (store (snd (api_login m e w req))))"
  by (auto simp: api_login_def Let_def intro: write_log_prefix dest: regenerate_decoy_store_eq
           split: sum.splits prod.splits)

lemma query_logs_prefix: "prefix (logs (store w)) (logs (store (snd (api_query m e w req))))"
  by (auto simp: api_query_def query_finish_def Let_def dest: regenerate_decoy_store_eq
           intro: write_log_prefix split: sum.splits prod.splits)

lemma login_logs_wf: "logs_wf (store w) \<Longrightarrow> logs_wf (store (snd (api_login m e w req)))"
  by (auto simp: api_login_def Let_def intro: write_log_wf dest: regenerate_decoy_store_eq
           split: sum.splits prod.splits)

lemma query_logs_wf: "logs_wf (store w) \<Longrightarrow> logs_wf (store (snd (api_query m e w req)))"
  by (auto simp: api_query_def query_finish_def Let_def dest: regenerate_decoy_store_eq
           intro: write_log_wf split: sum.splits prod.splits)

lemma login_gate_error:
  "blocked_query (fails e) (store w) (client_ip req) = Inl err \<Longrightarrow>
   api_login m e w req = (internal_error_response, w)"
  by (simp add: api_login_def)


text \<open>What a login that passes the gate does to the log table: one row, for the
  client address, at the request's time, with the extracted payload and the verdict,
  unless the commit fails.\<close>

lemma login_log_effect:
  assumes "blocked_query (fails e) (store w) (client_ip req) = Inr False"
  shows "(fails e CommitLog \<and> logs (store (snd (api_login m e w req))) = logs (store w)) \<or>
         (\<not> fails e CommitLog \<and>
          (\<exists>l. logs (store (snd (api_login m e w req))) = logs (store w) @ [l] \<and>
               log_ip l = client_ip req \<and> log_timestamp l = now e \<and>
               log_payload l = fst (extract_payload_and_params req) \<and>
               log_anomaly l = is_anomaly_from_features m
                                 (features_from_request (fails e) (store w) (now e) req (client_ip req))))"
  using assms
  by (auto simp: api_login_def Let_def write_log_def append_log_def make_log_def
                 dest: regenerate_decoy_store_eq split: prod.splits)

text \<open>The profile of that row: the serialised deception profile exactly when the row
  is anomalous.\<close>

lemma login_log_profile:
  assumes "blocked_query (fails e) (store w) (client_ip req) = Inr False"
    and "\<not> fails e CommitLog"
  shows "log_profile (last (logs (store (snd (api_login m e w req))))) =
           (if log_anomaly (last (logs (store (snd (api_login m e w req)))))
            then Some (json_dumps True (make_profile e ''suspicious activity detected'')) else None)"
  using assms
  by (auto simp: api_login_def Let_def write_log_def append_log_def make_log_def
           dest: regenerate_decoy_store_eq split: prod.splits)

lemma write_log_files [simp]: "files (write_log e l w) = files w"
  by (simp add: write_log_def split: sum.splits)

lemma login_files_keep: "files w p \<noteq> None \<Longrightarrow> files (snd (api_login m e w req)) p \<noteq> None"
  by (auto simp: api_login_def Let_def dest: regenerate_decoy_files_keep split: sum.splits prod.splits)

lemma query_files_keep: "files w p \<noteq> None \<Longrightarrow> files (snd (api_query m e w req)) p \<noteq> None"
  by (auto simp: api_query_def query_finish_def Let_def dest: regenerate_decoy_files_keep
           split: sum.splits prod.splits)

lemma login_logs_cases:
  "logs (store (snd (api_login m e w req))) = logs (store w) \<or>
   (\<exists>l. logs (store (snd (api_login m e w req))) = logs (store w) @ [l] \<and> log_timestamp l = now e)"
  by (auto simp: api_login_def Let_def write_log_def append_log_def
           dest: regenerate_decoy_store_eq split: prod.splits sum.splits)

subsection \<open>Properties of the Decision Engine\<close>

text \<open>C1: the Blocklist Gate short-circuits a login. When the gate finds the client
  address on the blocklist, \<open>api_login\<close> answers 403 and leaves the state as it was,
  whatever the model: no features are extracted, nothing is scored, logged or
  regenerated.\<close>

theorem login_blocked_gate:
  "blocked_query (fails e) (store w) (client_ip req) = Inr True \<Longrightarrow>
   api_login m e w req = (blocked_response, w)"
  by (simp add: api_login_def)

text \<open>C2: the same gate in front of \<open>api_query\<close>.\<close>

theorem query_blocked_gate:
  "blocked_query (fails e) (store w) (client_ip req) = Inr True \<Longrightarrow>
   api_query m e w req = (blocked_response, w)"
  by (simp add: api_query_def)

text \<open>C3: a login that passes the gate is always answered 401 "Invalid credentials",
  whatever the verdict, the decoy outcome or the fate of the log commit, so that the
  attacker sees an ordinary authentication failure.\<close>

theorem login_always_401:
  "blocked_query (fails e) (store w) (client_ip req) = Inr False \<Longrightarrow>
   fst (api_login m e w req) = login_fail_response"
  by (simp add: api_login_def Let_def split: prod.splits)

text \<open>C5: a login that passes the gate and whose commit succeeds appends exactly one
  forensic row, for the client address, at the request's time, holding the normalised
  payload and the model's verdict on the extracted features.\<close>

theorem login_appends_log:
  assumes "blocked_query (fails e) (store w) (client_ip req) = Inr False"
    and "\<not> fails e CommitLog"
  shows "\<exists>l. logs (store (snd (api_login m e w req))) = logs (store w) @ [l] \<and>
             log_ip l = client_ip req \<and> log_timestamp l = now e \<and>
             log_payload l = fst (extract_payload_and_params req) \<and>
             log_anomaly l = is_anomaly_from_features m
                               (features_from_request (fails e) (store w) (now e) req (client_ip req))"
  using login_log_effect [OF assms(1)] assms(2) by blast

text \<open>C18: the Rate Tracker counts a logged login. After a login that passes the gate
  and is committed, the request count of its address at any time within 60 seconds
  after it is one more than before.\<close>

theorem login_rate_increment:
  assumes "blocked_query (fails e) (store w) (client_ip req) = Inr False"
    and "\<not> fails e CommitLog" and "\<not> fl QCount" and "t - RATE_WINDOW \<le> now e"
  shows "get_reqs_per_min fl (store (snd (api_login m e w req))) t (client_ip req) =
         Suc (get_reqs_per_min fl (store w) t (client_ip req))"
proof -
  from login_log_effect [OF assms(1)] assms(2) obtain l where
    "logs (store (snd (api_login m e w req))) = logs (store w) @ [l]"
    "log_ip l = client_ip req" "log_timestamp l = now e"
    by blast
  with assms(3,4) show ?thesis
    by (simp add: get_reqs_per_min_def recent_logs_def)
qed

text \<open>C19: the window forgets. A login older than 60 seconds at query time does not
  change any address's request count.\<close>

theorem login_rate_expires:
  assumes "now e < t - RATE_WINDOW"
  shows "get_reqs_per_min fl (store (snd (api_login m e w req))) t ip =
         get_reqs_per_min fl (store w) t ip"
  using login_logs_cases [of m e w req] assms
  by (auto simp: get_reqs_per_min_def recent_logs_def)

text \<open>The SQL flag the query handler scores is 1 exactly when the signature test
  fires on the normalised payload or on the \<open>q\<close> parameter.\<close>

lemma query_features_sql_flag:
  "feat_sql_flag (query_features fl s t req ip) =
     (if has_sql_signature (query_param req) \<or>
         has_sql_signature (JStr (fst (extract_payload_and_params req)))
      then 1 else 0)"
  by (simp add: query_features_def features_from_request_fields Let_def)

text \<open>A query the model does not flag is answered 200 with no rows, no anomaly
  and no decoy, and the decoy bundle is not regenerated.\<close>

lemma query_not_anomalous:
  assumes "blocked_query (fails e) (store w) (client_ip req) = Inr False"
    and "\<not> is_anomaly_from_features m (query_features (fails e) (store w) (now e) req (client_ip req))"
  shows "fst (api_query m e w req) = query_response [] False None \<and>
         decoy_gen (snd (api_query m e w req)) = decoy_gen w"
  using assms by (simp add: api_query_def query_finish_def Let_def)

text \<open>C20: a flagged query whose \<open>q\<close> text mentions \<open>SELECT\<close> (in any case) is
  answered with the one fabricated row, the anomaly flag and the decoy reference, and
  the decoy bundle is regenerated once.\<close>

theorem query_anomalous_select:
  assumes "blocked_query (fails e) (store w) (client_ip req) = Inr False"
    and "is_anomaly_from_features m (query_features (fails e) (store w) (now e) req (client_ip req))"
    and "query_param req = JStr q" and "py_in ''SELECT'' (py_upper q)"
  shows "fst (api_query m e w req) =
           query_response [FAKE_ROW] True (fst (regenerate_decoy e req w)) \<and>
         decoy_gen (snd (api_query m e w req)) = Suc (decoy_gen w)"
  using assms
  by (auto simp: api_query_def query_finish_def Let_def select_rows_def case_prod_unfold)

text \<open>C21: a flagged query whose JSON \<open>q\<close> is a non-zero number crashes: \<open>q.upper()\<close>
  raises after the decoy bundle was regenerated, the 500 handler answers, and no
  forensic row is written.\<close>

theorem query_nonstr_q_crash:
  assumes "blocked_query (fails e) (store w) (client_ip req) = Inr False"
    and "is_anomaly_from_features m (query_features (fails e) (store w) (now e) req (client_ip req))"
    and "query_param req = JInt i" and "i \<noteq> 0"
  shows "api_query m e w req = (internal_error_response, snd (regenerate_decoy e req w))"
  using assms by (auto simp: api_query_def Let_def select_rows_def case_prod_unfold)

end
