(* ===== verification/JsonLoads.thy ===== *)
theory JsonLoads
  imports Json
begin

text \<open>
  \<open>json.loads\<close>, with which \<open>api_alerts\<close> (\<open>src/Backend/app.py\<close>, line 345) reads back
  the deception profile a handler stored as \<open>json.dumps(profile)\<close>. The decoder follows
  CPython's scanner (\<open>json.scanner\<close>, \<open>json.decoder\<close> and the C accelerator
  \<open>_json\<close>): white space is skipped before a document, around the structural
  characters and after it; a string literal is scanned up to its closing quote with the
  escapes \<open>\" \\ \/ \b \f \n \r \t \uXXXX\<close>, and a control character inside it is an
  error; an object becomes a \<open>dict\<close>, where a repeated key keeps its first position and
  its last value; an integer is \<open>-?(0|[1-9][0-9]*)\<close>. Floats (a fraction, an exponent,
  \<open>NaN\<close>, \<open>Infinity\<close>) and \<open>\u\<close> escapes of code points from 256 on are outside the
  value and character types of the model: the decoder refuses them.

  The descent is written with fuel: every call consumes one unit. The fuel
  \<open>2 * length s + 1\<close> that \<open>json_loads\<close> gives is always enough (the descent always
  returns an answer), and a larger fuel gives the same answer.
\<close>

datatype 'a pres = PDone 'a pystr | PFail | PNoFuel

text \<open>\<open>WHITESPACE = r'[ \t\n\r]*'\<close>.\<close>

definition json_ws :: "char \<Rightarrow> bool" where
  "json_ws c \<longleftrightarrow> c = CHR 0x20 \<or> c = CHR 0x09 \<or> c = CHR 0x0A \<or> c = CHR 0x0D"

definition skip_ws :: "pystr \<Rightarrow> pystr" where
  "skip_ws s = dropWhile json_ws s"

text \<open>\<open>BACKSLASH\<close>: the one-character escapes.\<close>

definition json_simple_unescape :: "char \<Rightarrow> char option" where
  "json_simple_unescape e =
     (if e = dquote then Some dquote
      else if e = bslash then Some bslash
      else if e = CHR ''/'' then Some (CHR ''/'')
      else if e = CHR ''b'' then Some (CHR 0x08)
      else if e = CHR ''f'' then Some (CHR 0x0C)
      else if e = CHR ''n'' then Some (CHR 0x0A)
      else if e = CHR ''r'' then Some (CHR 0x0D)
      else if e = CHR ''t'' then Some (CHR 0x09)
      else None)"

text \<open>\<open>scanstring\<close>: the text after an opening quote, to the decoded string and the
  text after the closing quote.\<close>

fun scan_string :: "pystr \<Rightarrow> (pystr \<times> pystr) option" where
  "scan_string [] = None"
| "scan_string (c # cs) =
     (if c = dquote then Some ([], cs)
      else if c = bslash then
        (case cs of
           [] \<Rightarrow> None
         | e # rest \<Rightarrow>
             (case json_simple_unescape e of
                Some d \<Rightarrow> map_option (apfst ((#) d)) (scan_string rest)
              | None \<Rightarrow>
                  (if e = CHR ''u'' then
                     (case rest of
                        h1 # h2 # h3 # h4 # rest' \<Rightarrow>
                          (case (hex_value h1, hex_value h2, hex_value h3, hex_value h4) of
                             (Some a, Some b, Some x, Some y) \<Rightarrow>
                               (let v = 4096 * a + 256 * b + 16 * x + y in
                                if v < 256 then map_option (apfst ((#) (char_of v))) (scan_string rest')
                                else None)
                           | _ \<Rightarrow> None)
                      | _ \<Rightarrow> None)
                   else None)))
      else if (of_char c :: nat) < 32 then None
      else map_option (apfst ((#) c)) (scan_string cs))"

text \<open>\<open>NUMBER_RE\<close> on an integer: an optional minus, then \<open>0\<close> or a digit string not
  starting with \<open>0\<close>. A fraction or an exponent after it makes a float.\<close>

definition scan_number :: "pystr \<Rightarrow> json pres" where
  "scan_number s =
     (let (neg, t) = (case s of c # r \<Rightarrow> (if c = CHR ''-'' then (True, r) else (False, s)) | [] \<Rightarrow> (False, []));
          ds = (case t of c # r \<Rightarrow> (if c = CHR ''0'' then [c] else takeWhile is_ascii_digit t) | [] \<Rightarrow> []);
          rest = drop (length ds) t
      in if ds = [] \<or> \<not> is_ascii_digit (hd ds) then PFail
         else if (case rest of c # _ \<Rightarrow> c = CHR ''.'' \<or> c = CHR ''e'' \<or> c = CHR ''E'' | [] \<Rightarrow> False)
         then PFail
         else PDone (JInt ((if neg then -1 else 1) * int (decimal_value ds))) rest)"

text \<open>\<open>dict(pairs)\<close>.\<close>

definition dict_insert :: "(pystr \<times> json) list \<Rightarrow> pystr \<times> json \<Rightarrow> (pystr \<times> json) list" where
  "dict_insert d kv =
     (if fst kv \<in> set (map fst d) then map (\<lambda>p. if fst p = fst kv then kv else p) d else d @ [kv])"

definition py_dict :: "(pystr \<times> json) list \<Rightarrow> (pystr \<times> json) list" where
  "py_dict kvs = foldl dict_insert [] kvs"

text \<open>The values \<open>scan_once\<close> reads without recursion: a string, \<open>null\<close>,
  \<open>true\<close>, \<open>false\<close> or a number.\<close>

definition parse_scalar :: "pystr \<Rightarrow> json pres" where
  "parse_scalar s =
     (case s of
        [] \<Rightarrow> PFail
      | c # cs \<Rightarrow>
          (if c = dquote then
             (case scan_string cs of Some (str, rest) \<Rightarrow> PDone (JStr str) rest | None \<Rightarrow> PFail)
           else if py_startswith s ''null'' then PDone JNull (drop 4 s)
           else if py_startswith s ''true'' then PDone (JBool True) (drop 4 s)
           else if py_startswith s ''false'' then PDone (JBool False) (drop 5 s)
           else scan_number s))"

text \<open>A key of \<open>JSONObject\<close>: the quoted string, white space, the colon and white
  space; the key and the text at the value.\<close>

definition scan_key :: "pystr \<Rightarrow> (pystr \<times> pystr) option" where
  "scan_key s =
     (case s of
        q # r \<Rightarrow>
          (if q \<noteq> dquote then None
           else (case scan_string r of
                   None \<Rightarrow> None
                 | Some (k, r1) \<Rightarrow>
                     (case skip_ws r1 of
                        e # r2 \<Rightarrow> (if e = CHR '':'' then Some (k, skip_ws r2) else None)
                      | [] \<Rightarrow> None)))
      | [] \<Rightarrow> None)"

text \<open>After an element or a member: white space, then the closing character (the
  container ends: \<open>True\<close>) or a comma and white space (\<open>False\<close>).\<close>

definition after_item :: "char \<Rightarrow> pystr \<Rightarrow> (bool \<times> pystr) option" where
  "after_item close s =
     (case skip_ws s of
        d # r \<Rightarrow>
          (if d = close then Some (True, r) else if d = CHR '','' then Some (False, skip_ws r) else None)
      | [] \<Rightarrow> None)"

text \<open>\<open>scan_once\<close>, \<open>JSONArray\<close> and \<open>JSONObject\<close>. \<open>parse_elems\<close> starts at an
  element, \<open>parse_members\<close> at the quote of a key.\<close>

fun parse_value :: "nat \<Rightarrow> pystr \<Rightarrow> json pres"
and parse_elems :: "nat \<Rightarrow> json list \<Rightarrow> pystr \<Rightarrow> json list pres"
and parse_members :: "nat \<Rightarrow> (pystr \<times> json) list \<Rightarrow> pystr \<Rightarrow> (pystr \<times> json) list pres" where
  "parse_value 0 s = PNoFuel"
| "parse_value (Suc n) s =
     (case s of
        c # cs \<Rightarrow>
          (if c = CHR ''{'' then
             (case skip_ws cs of
                d # r \<Rightarrow>
                  (if d = CHR ''}'' then PDone (JObj []) r
                   else (case parse_members n [] (d # r) of
                           PDone kvs r' \<Rightarrow> PDone (JObj (py_dict kvs)) r'
                         | PFail \<Rightarrow> PFail
                         | PNoFuel \<Rightarrow> PNoFuel))
              | [] \<Rightarrow> PFail)
           else if c = CHR ''['' then
             (case skip_ws cs of
                d # r \<Rightarrow>
                  (if d = CHR '']'' then PDone (JList []) r
                   else (case parse_elems n [] (d # r) of
                           PDone xs r' \<Rightarrow> PDone (JList xs) r'
                         | PFail \<Rightarrow> PFail
                         | PNoFuel \<Rightarrow> PNoFuel))
              | [] \<Rightarrow> PFail)
           else parse_scalar s)
      | [] \<Rightarrow> PFail)"
| "parse_elems 0 acc s = PNoFuel"
| "parse_elems (Suc n) acc s =
     (case parse_value n s of
        PDone v r \<Rightarrow>
          (case after_item (CHR '']'') r of
             Some (True, r') \<Rightarrow> PDone (acc @ [v]) r'
           | Some (False, r') \<Rightarrow> parse_elems n (acc @ [v]) r'
           | None \<Rightarrow> PFail)
      | PFail \<Rightarrow> PFail
      | PNoFuel \<Rightarrow> PNoFuel)"
| "parse_members 0 acc s = PNoFuel"
| "parse_members (Suc n) acc s =
     (case scan_key s of
        None \<Rightarrow> PFail
      | Some (k, r) \<Rightarrow>
          (case parse_value n r of
             PDone v r' \<Rightarrow>
               (case after_item (CHR ''}'') r' of
                  Some (True, r'') \<Rightarrow> PDone (acc @ [(k, v)]) r''
                | Some (False, r'') \<Rightarrow>
                    (case r'' of
                       q # _ \<Rightarrow> (if q = dquote then parse_members n (acc @ [(k, v)]) r'' else PFail)
                     | [] \<Rightarrow> PFail)
                | None \<Rightarrow> PFail)
           | PFail \<Rightarrow> PFail
           | PNoFuel \<Rightarrow> PNoFuel))"

text \<open>\<open>json.loads(s)\<close>: \<open>None\<close> where it raises \<open>JSONDecodeError\<close>; text after the
  document (other than white space) is an error.\<close>

definition json_loads_fuel :: "nat \<Rightarrow> pystr \<Rightarrow> json pres" where
  "json_loads_fuel n s = parse_value n (skip_ws s)"

definition json_loads :: "pystr \<Rightarrow> json option" where
  "json_loads s =
     (case json_loads_fuel (2 * length s + 1) s of
        PDone v r \<Rightarrow> (if skip_ws r = [] then Some v else None)
      | _ \<Rightarrow> None)"


text \<open>The text that may follow an integer without extending it.\<close>

definition num_stop :: "pystr \<Rightarrow> bool" where
  "num_stop rest \<longleftrightarrow>
     (case rest of [] \<Rightarrow> True
      | c # _ \<Rightarrow> \<not> is_ascii_digit c \<and> c \<noteq> CHR ''.'' \<and> c \<noteq> CHR ''e'' \<and> c \<noteq> CHR ''E'')"

text \<open>One member of an object as \<open>json.dumps\<close> writes it.\<close>

definition json_member :: "bool \<Rightarrow> pystr \<times> json \<Rightarrow> pystr" where
  "json_member ea kv = json_quote ea (fst kv) @ '': '' @ json_dumps ea (snd kv)"

subsection \<open>Lemmas\<close>

text \<open>Evaluation with a numeral as the fuel.\<close>

lemma parse_numeral_fuel [py_simps]:
  "parse_value (numeral k) s = parse_value (Suc (pred_numeral k)) s"
  "parse_elems (numeral k) acc s = parse_elems (Suc (pred_numeral k)) acc s"
  "parse_members (numeral k) kvs s = parse_members (Suc (pred_numeral k)) kvs s"
  by (simp_all add: numeral_eq_Suc)

lemma skip_ws_le: "length (skip_ws s) \<le> length s"
  by (simp add: skip_ws_def length_dropWhile_le)

lemma scan_string_shorter: "scan_string s = Some (x, r) \<Longrightarrow> length r < length s"
proof (induction "length s" arbitrary: s x rule: less_induct)
  case less
  show ?case
  proof (cases s)
    case Nil
    with less.prems show ?thesis by simp
  next
    case (Cons c cs)
    consider (q) "c = dquote" | (b) "c \<noteq> dquote" "c = bslash" | (o) "c \<noteq> dquote" "c \<noteq> bslash"
      by blast
    then show ?thesis
    proof cases
      case q
      with less.prems Cons show ?thesis by simp
    next
      case o
      with less.prems Cons obtain x' where "scan_string cs = Some (x', r)"
        by (auto split: if_splits)
      with less.hyps [of cs] Cons show ?thesis by fastforce
    next
      case b
      with less.prems Cons obtain e rest where cs: "cs = e # rest" by (cases cs) auto
      show ?thesis
      proof (cases "json_simple_unescape e")
        case (Some d)
        with less.prems Cons b cs obtain x' where "scan_string rest = Some (x', r)" by auto
        with less.hyps [of rest] Cons cs show ?thesis by fastforce
      next
        case None
        with less.prems Cons b cs obtain h1 h2 h3 h4 rest' x' where
          "rest = h1 # h2 # h3 # h4 # rest'" "scan_string rest' = Some (x', r)"
          by (auto simp: Let_def split: list.splits option.splits if_splits)
        with less.hyps [of rest'] Cons cs show ?thesis by fastforce
      qed
    qed
  qed
qed

lemma py_startswith_length: "py_startswith s p \<Longrightarrow> length p \<le> length s"
  by (induction s p rule: py_startswith.induct) auto

lemma scan_number_shorter: "scan_number s = PDone v r \<Longrightarrow> length r < length s"
  by (auto simp: scan_number_def Let_def split: list.splits if_splits)

lemma parse_scalar_shorter: "parse_scalar s = PDone v r \<Longrightarrow> length r < length s"
  by (auto simp: parse_scalar_def dest: scan_string_shorter scan_number_shorter py_startswith_length
      split: list.splits option.splits if_splits)

lemma scan_key_shorter: "scan_key s = Some (k, r) \<Longrightarrow> length r < length s"
proof -
  assume a: "scan_key s = Some (k, r)"
  then obtain r0 r1 r2 where "s = dquote # r0" "scan_string r0 = Some (k, r1)"
    "skip_ws r1 = CHR '':'' # r2" "r = skip_ws r2"
    by (auto simp: scan_key_def split: list.splits option.splits if_splits)
  moreover have "length (skip_ws r1) \<le> length r1" "length (skip_ws r2) \<le> length r2"
    by (simp_all add: skip_ws_le)
  ultimately show ?thesis by (auto dest!: scan_string_shorter)
qed

lemma after_item_shorter: "after_item c s = Some (b, r) \<Longrightarrow> length r < length s"
proof -
  assume a: "after_item c s = Some (b, r)"
  then obtain d r0 where "skip_ws s = d # r0" "r = r0 \<or> r = skip_ws r0"
    by (auto simp: after_item_def split: list.splits if_splits)
  moreover have "length (skip_ws s) \<le> length s" "length (skip_ws r0) \<le> length r0"
    by (simp_all add: skip_ws_le)
  ultimately show ?thesis by auto
qed

lemma parse_shorter:
  "parse_value n s = PDone v r \<Longrightarrow> length r < length s"
  "parse_elems n acc s = PDone xs r \<Longrightarrow> length r < length s"
  "parse_members n kvs s = PDone ys r \<Longrightarrow> length r < length s"
proof (induction n s and n acc s and n kvs s arbitrary: v r and xs r and ys r
       rule: parse_value_parse_elems_parse_members.induct)
  case (2 n s)
  show ?case
  proof (cases s)
    case Nil
    with "2.prems" show ?thesis by simp
  next
    case (Cons c cs)
    have le: "length (skip_ws cs) \<le> length cs" by (rule skip_ws_le)
    consider (obj) "c = CHR ''{''" | (arr) "c \<noteq> CHR ''{''" "c = CHR ''[''"
      | (sc) "c \<noteq> CHR ''{''" "c \<noteq> CHR ''[''" by blast
    then show ?thesis
    proof cases
      case obj
      with "2.prems" Cons obtain d r0 where sk: "skip_ws cs = d # r0"
        by (cases "skip_ws cs") auto
      show ?thesis
      proof (cases "d = CHR ''}''")
        case True
        with "2.prems" Cons obj sk le show ?thesis by auto
      next
        case False
        with "2.prems" Cons obj sk obtain kvs where "parse_members n [] (d # r0) = PDone kvs r"
          by (auto split: pres.splits)
        with "2.IH"(1) [OF Cons obj sk False] sk le Cons show ?thesis by fastforce
      qed
    next
      case arr
      with "2.prems" Cons obtain d r0 where sk: "skip_ws cs = d # r0"
        by (cases "skip_ws cs") auto
      show ?thesis
      proof (cases "d = CHR '']''")
        case True
        with "2.prems" Cons arr sk le show ?thesis by auto
      next
        case False
        with "2.prems" Cons arr sk obtain xs where "parse_elems n [] (d # r0) = PDone xs r"
          by (auto split: pres.splits)
        with "2.IH"(2) [OF Cons arr(1) arr(2) sk False] sk le Cons show ?thesis by fastforce
      qed
    next
      case sc
      with "2.prems" Cons have "parse_scalar s = PDone v r" by simp
      then show ?thesis by (rule parse_scalar_shorter)
    qed
  qed
next
  case (4 n acc s)
  show ?case
  proof (cases "parse_value n s")
    case (PDone v1 r1)
    have r1: "length r1 < length s" using PDone by (rule "4.IH"(1))
    show ?thesis
    proof (cases "after_item (CHR '']'') r1")
      case None
      with "4.prems" PDone show ?thesis by simp
    next
      case (Some br)
      obtain b r' where br: "br = (b, r')" by (cases br)
      have r': "length r' < length r1" using Some br by (simp add: after_item_shorter)
      show ?thesis
      proof (cases b)
        case True
        with "4.prems" PDone Some br r' r1 show ?thesis by simp
      next
        case False
        with "4.prems" PDone Some br have "parse_elems n (acc @ [v1]) r' = PDone xs r" by simp
        have bF: "b = False" using False by simp
        with "4.IH"(2) [OF PDone Some br [symmetric] bF] \<open>parse_elems n (acc @ [v1]) r' = PDone xs r\<close> r' r1
        show ?thesis by simp
      qed
    qed
  qed (use "4.prems" in simp_all)
next
  case (6 n kvs s)
  show ?case
  proof (cases "scan_key s")
    case None
    with "6.prems" show ?thesis by simp
  next
    case (Some kr)
    obtain k r0 where kr: "kr = (k, r0)" by (cases kr)
    have r0: "length r0 < length s" using Some kr by (simp add: scan_key_shorter)
    show ?thesis
    proof (cases "parse_value n r0")
      case (PDone v1 r1)
      have r1: "length r1 < length r0" using "6.IH"(1) [OF Some kr [symmetric] PDone] .
      show ?thesis
      proof (cases "after_item (CHR ''}'') r1")
        case None
        with "6.prems" Some kr PDone show ?thesis by simp
      next
        case (Some br)
        obtain b r' where br: "br = (b, r')" by (cases br)
        have r': "length r' < length r1" using Some br by (simp add: after_item_shorter)
        show ?thesis
        proof (cases b)
          case True
          with "6.prems" \<open>scan_key s = Some kr\<close> kr PDone Some br r' r1 r0 show ?thesis by simp
        next
          case False
          show ?thesis
          proof (cases r')
            case Nil
            with "6.prems" \<open>scan_key s = Some kr\<close> kr PDone Some br False show ?thesis by simp
          next
            case (Cons q rest)
            show ?thesis
            proof (cases "q = dquote")
              case True
              with "6.prems" \<open>scan_key s = Some kr\<close> kr PDone Some br False Cons
              have "parse_members n (kvs @ [(k, v1)]) r' = PDone ys r" by simp
              moreover have bF: "b = False" using \<open>\<not> b\<close> by simp
              ultimately show ?thesis
                using "6.IH"(2) [OF \<open>scan_key s = Some kr\<close> kr [symmetric] PDone Some br [symmetric]
                  bF Cons True] r' r1 r0 by simp
            next
              case False': False
              with "6.prems" \<open>scan_key s = Some kr\<close> kr PDone Some br False Cons show ?thesis by simp
            qed
          qed
        qed
      qed
    qed (use "6.prems" Some kr in simp_all)
  qed
qed simp_all

lemma scan_number_no_fuel: "scan_number s \<noteq> PNoFuel"
  by (simp add: scan_number_def Let_def split: prod.splits)
lemma parse_scalar_no_fuel: "parse_scalar s \<noteq> PNoFuel"
  by (simp add: parse_scalar_def scan_number_no_fuel split: list.splits option.splits prod.splits)

lemma parse_enough_fuel:
  "2 * length s < n \<Longrightarrow> parse_value n s \<noteq> PNoFuel"
  "2 * length s + 1 < n \<Longrightarrow> parse_elems n acc s \<noteq> PNoFuel"
  "2 * length s + 1 < n \<Longrightarrow> parse_members n kvs s \<noteq> PNoFuel"
proof (induction n s and n acc s and n kvs s rule: parse_value_parse_elems_parse_members.induct)
  case (2 n s)
  show ?case
  proof (cases s)
    case (Cons c cs)
    have le: "length (skip_ws cs) \<le> length cs" by (rule skip_ws_le)
    show ?thesis
    proof (cases "skip_ws cs")
      case (Cons d r0)
      have fuel: "2 * length (d # r0) + 1 < n"
        using "2.prems" le \<open>s = c # cs\<close> Cons by simp
      show ?thesis
      proof (cases "c = CHR ''{''")
        case True
        then show ?thesis
          using "2.IH"(1) [OF \<open>s = c # cs\<close> True Cons _ fuel] \<open>s = c # cs\<close> Cons
          by (auto split: pres.splits)
      next
        case False
        then show ?thesis
          using "2.IH"(2) [OF \<open>s = c # cs\<close> False _ Cons _ fuel] \<open>s = c # cs\<close> Cons
          by (cases "c = CHR ''[''") (auto split: pres.splits simp: parse_scalar_no_fuel)
      qed
    qed (use \<open>s = c # cs\<close> parse_scalar_no_fuel in simp)
  qed simp
next
  case (4 n acc s)
  have v: "parse_value n s \<noteq> PNoFuel" using "4.prems" by (intro "4.IH"(1)) simp
  show ?case
  proof (cases "parse_value n s")
    case (PDone v1 r1)
    have r1: "length r1 < length s" using PDone by (rule parse_shorter)
    show ?thesis
    proof (cases "after_item (CHR '']'') r1")
      case (Some br)
      obtain b r' where br: "br = (b, r')" by (cases br)
      have r': "length r' < length r1" using Some br by (simp add: after_item_shorter)
      show ?thesis
      proof (cases b)
        case False
        have bF: "b = False" using False by simp
        have "parse_elems n (acc @ [v1]) r' \<noteq> PNoFuel"
          using "4.IH"(2) [OF PDone Some br [symmetric] bF] "4.prems" r' r1 by simp
        with PDone Some br False show ?thesis by simp
      qed (use PDone Some br in simp)
    qed (use PDone in simp)
  qed (use v in simp_all)
next
  case (6 n kvs s)
  show ?case
  proof (cases "scan_key s")
    case (Some kr)
    obtain k r0 where kr: "kr = (k, r0)" by (cases kr)
    have r0: "length r0 < length s" using Some kr by (simp add: scan_key_shorter)
    have v: "parse_value n r0 \<noteq> PNoFuel"
      using "6.IH"(1) [OF Some kr [symmetric]] "6.prems" r0 by simp
    show ?thesis
    proof (cases "parse_value n r0")
      case (PDone v1 r1)
      have r1: "length r1 < length r0" using PDone by (rule parse_shorter)
      show ?thesis
      proof (cases "after_item (CHR ''}'') r1")
        case (Some br)
        obtain b r' where br: "br = (b, r')" by (cases br)
        have r': "length r' < length r1" using Some br by (simp add: after_item_shorter)
        show ?thesis
        proof (cases "b = False \<and> r' \<noteq> [] \<and> hd r' = dquote")
          case True
          then obtain rest where r'c: "r' = dquote # rest" by (cases r') auto
          have "parse_members n (kvs @ [(k, v1)]) r' \<noteq> PNoFuel"
            using "6.IH"(2) [OF \<open>scan_key s = Some kr\<close> kr [symmetric] PDone Some br [symmetric] _ r'c refl]
              True "6.prems" r' r1 r0 by simp
          with \<open>scan_key s = Some kr\<close> kr PDone Some br True r'c show ?thesis by simp
        next
          case False
          with \<open>scan_key s = Some kr\<close> kr PDone Some br show ?thesis
            by (cases b; cases r') auto
        qed
      qed (use \<open>scan_key s = Some kr\<close> kr PDone in simp)
    qed (use \<open>scan_key s = Some kr\<close> kr v in simp_all)
  qed simp
qed simp_all

lemma scan_string_escape_char:
  "scan_string (json_escape_char ea c @ s) = map_option (apfst ((#) c)) (scan_string s)"
proof (cases "json_short_escape c")
  case None
  then have nq: "c \<noteq> dquote" "c \<noteq> bslash" by (auto simp: json_short_escape_def split: if_splits)
  define n where "n = (of_char c :: nat)"
  have n256: "n < 256" using of_char_nat_less_256 n_def by simp
  show ?thesis
  proof (cases "n < 32 \<or> ea \<and> 126 < n")
    case True
    have "json_escape_char ea c =
          [bslash, CHR ''u'', CHR ''0'', CHR ''0'', hex_digit (n div 16), hex_digit (n mod 16)]"
      using None True by (simp add: json_escape_char_def json_u_escape_def n_def Let_def)
    moreover have "hex_value (hex_digit (n div 16)) = Some (n div 16)"
      "hex_value (hex_digit (n mod 16)) = Some (n mod 16)"
      using n256 by (simp_all add: hex_value_hex_digit)
    moreover have "hex_value (CHR ''0'') = Some 0" by (simp add: hex_value_def)
    moreover have "16 * (n div 16) + n mod 16 = n" by simp
    moreover have "char_of n = c" by (simp add: n_def)
    ultimately show ?thesis using n256 by (simp add: json_simple_unescape_def)
  next
    case False
    then have "json_escape_char ea c = [c]" using None by (auto simp: json_escape_char_def n_def Let_def)
    moreover have "\<not> (of_char c :: nat) < 32" using False by (simp add: n_def)
    ultimately show ?thesis using nq by simp
  qed
next
  case (Some e)
  then have je: "json_escape_char ea c = e" by (simp add: json_escape_char_def)
  show ?thesis unfolding je
    using Some by (auto simp: json_short_escape_def json_simple_unescape_def split: if_splits)
qed

lemma scan_string_escape: "scan_string (json_escape ea s @ dquote # rest) = Some (s, rest)"
  by (induction s) (simp_all add: scan_string_escape_char)

lemma nat_digits_hd_zero: "hd (nat_digits n) = CHR ''0'' \<Longrightarrow> n = 0"
proof (induction n rule: nat_digits.induct)
  case (1 n)
  show ?case
  proof (cases "n < 10")
    case True
    then have "nat_digits n = [digit_char n]" by (subst nat_digits_cases) simp
    with "1.prems" have "(of_char (digit_char n) :: nat) = 48" by simp
    with True show ?thesis by (simp add: digit_char_value)
  next
    case False
    then have "nat_digits n = nat_digits (n div 10) @ [digit_char (n mod 10)]"
      by (subst nat_digits_cases) simp
    with "1.prems" have "hd (nat_digits (n div 10)) = CHR ''0''" by simp
    with "1.IH" False show ?thesis by simp
  qed
qed

lemma nat_digits_zero: "nat_digits 0 = ''0''"
  by (subst nat_digits_cases) (simp add: digit_char_def)

lemma takeWhile_digits:
  "list_all is_ascii_digit ds \<Longrightarrow> num_stop rest \<Longrightarrow> takeWhile is_ascii_digit (ds @ rest) = ds"
  by (induction ds) (auto simp: num_stop_def split: list.splits)

lemma scan_number_digits:
  assumes "num_stop rest"
  shows "scan_number (nat_digits n @ rest) = PDone (JInt (int n)) rest"
    and "scan_number (CHR ''-'' # nat_digits n @ rest) = PDone (JInt (- int n)) rest"
proof -
  let ?ds = "nat_digits n"
  have all: "list_all is_ascii_digit ?ds" by (rule nat_digits_all_digits)
  obtain c cs where cs: "?ds = c # cs" by (cases ?ds) auto
  have dig: "is_ascii_digit c" using all cs by simp
  have nm: "c \<noteq> CHR ''-''" using dig digit_not_sign by blast
  have stop: "\<not> (case rest of d # _ \<Rightarrow> d = CHR ''.'' \<or> d = CHR ''e'' \<or> d = CHR ''E'' | [] \<Rightarrow> False)"
    using assms by (auto simp: num_stop_def split: list.splits)
  have dv: "decimal_value (c # cs) = n" by (metis cs decimal_value_nat_digits)
  have "scan_number (c # cs @ rest) = PDone (JInt (int n)) rest \<and>
        scan_number (CHR ''-'' # c # cs @ rest) = PDone (JInt (- int n)) rest"
  proof (cases "c = CHR ''0''")
    case True
    then have "n = 0" using nat_digits_hd_zero cs by fastforce
    then have "cs = []" using cs by (simp add: nat_digits_zero)
    with True \<open>n = 0\<close> stop show ?thesis
      by (simp add: scan_number_def is_ascii_digit_def decimal_value_def)
  next
    case False
    have tk: "takeWhile is_ascii_digit (c # cs @ rest) = c # cs"
      using takeWhile_digits [OF all assms] cs by simp
    from False tk stop dig dv nm show ?thesis by (simp add: scan_number_def)
  qed
  then show "scan_number (nat_digits n @ rest) = PDone (JInt (int n)) rest"
    and "scan_number (CHR ''-'' # nat_digits n @ rest) = PDone (JInt (- int n)) rest"
    by (simp_all add: cs)
qed

lemma scan_number_str_int: "num_stop rest \<Longrightarrow> scan_number (py_str_int i @ rest) = PDone (JInt i) rest"
  using scan_number_digits [of rest "nat \<bar>i\<bar>"] by (auto simp: py_str_int_def)


lemma dumps_head:
  "\<exists>c cs. json_dumps ea j = c # cs \<and> \<not> json_ws c \<and> c \<noteq> CHR '']'' \<and> c \<noteq> CHR ''}'' \<and>
          c \<noteq> CHR '','' \<and> c \<noteq> CHR '':''"
proof (cases j)
  case (JInt i)
  obtain d ds where d: "nat_digits (nat \<bar>i\<bar>) = d # ds" by (cases "nat_digits (nat \<bar>i\<bar>)") auto
  have "is_ascii_digit d" using nat_digits_all_digits [of "nat \<bar>i\<bar>"] d by simp
  then have "\<not> json_ws d \<and> d \<noteq> CHR '']'' \<and> d \<noteq> CHR ''}'' \<and> d \<noteq> CHR '','' \<and> d \<noteq> CHR '':''"
    by (auto simp: is_ascii_digit_def json_ws_def)
  with JInt d show ?thesis by (auto simp: py_str_int_def json_ws_def)
qed (auto simp: json_quote_def json_ws_def)

lemma skip_ws_dumps [simp]: "skip_ws (json_dumps ea j @ s) = json_dumps ea j @ s"
  using dumps_head [of ea j] by (auto simp: skip_ws_def)

lemma py_join_Cons: "py_join sep (x # xs) = x @ (if xs = [] then [] else sep @ py_join sep xs)"
  by (cases xs) auto

lemma after_item_close: "\<not> json_ws c \<Longrightarrow> after_item c (c # rest) = Some (True, rest)"
  by (auto simp: after_item_def skip_ws_def json_ws_def)

lemma after_item_comma:
  "c \<noteq> CHR '','' \<Longrightarrow> skip_ws t = t \<Longrightarrow> after_item c (CHR '','' # CHR '' '' # t) = Some (False, t)"
  by (simp add: after_item_def skip_ws_def json_ws_def)

lemma parse_elems_dumps:
  assumes "xs \<noteq> []"
    and IH: "\<And>x rest n. x \<in> set xs \<Longrightarrow> num_stop rest \<Longrightarrow> 2 * length (json_dumps ea x @ rest) < n \<Longrightarrow>
               parse_value n (json_dumps ea x @ rest) = PDone x rest"
    and "2 * length (py_join '', '' (map (json_dumps ea) xs) @ CHR '']'' # rest) + 1 < n"
  shows "parse_elems n acc (py_join '', '' (map (json_dumps ea) xs) @ CHR '']'' # rest) = PDone (acc @ xs) rest"
  using assms
proof (induction xs arbitrary: acc n rule: induct_list012)
  case 1
  then show ?case by simp
next
  case (2 x)
  then obtain n' where n: "n = Suc n'" by (cases n) auto
  have "parse_value n' (json_dumps ea x @ CHR '']'' # rest) = PDone x (CHR '']'' # rest)"
    using "2.prems"(2) [of x "CHR '']'' # rest" n'] "2.prems"(3) n
    by (simp add: num_stop_def is_ascii_digit_def)
  then show ?case by (simp add: n after_item_close json_ws_def)
next
  case (3 x y zs)
  then obtain n' where n: "n = Suc n'" by (cases n) auto
  let ?more = "py_join '', '' (map (json_dumps ea) (y # zs)) @ CHR '']'' # rest"
  have join: "py_join '', '' (map (json_dumps ea) (x # y # zs)) @ CHR '']'' # rest =
              json_dumps ea x @ CHR '','' # CHR '' '' # ?more" by simp
  have v: "parse_value n' (json_dumps ea x @ CHR '','' # CHR '' '' # ?more) =
           PDone x (CHR '','' # CHR '' '' # ?more)"
    using "3.prems"(2) [of x "CHR '','' # CHR '' '' # ?more" n'] "3.prems"(3) n join
    by (simp add: num_stop_def is_ascii_digit_def)
  have sk: "skip_ws ?more = ?more" by (simp add: py_join_Cons)
  have rec: "parse_elems n' (acc @ [x]) ?more = PDone ((acc @ [x]) @ y # zs) rest"
    using "3.IH"(2) [of n' "acc @ [x]"] "3.prems" n join by simp
  show ?case using v rec sk by (simp add: n join after_item_comma)
qed

lemma py_dict_distinct: "distinct (map fst (d @ kvs)) \<Longrightarrow> foldl dict_insert d kvs = d @ kvs"
  by (induction kvs arbitrary: d) (auto simp: dict_insert_def)

lemma scan_key_quote:
  "skip_ws t = t \<Longrightarrow> scan_key (json_quote ea k @ CHR '':'' # CHR '' '' # t) = Some (k, t)"
  by (simp add: scan_key_def json_quote_def scan_string_escape skip_ws_def json_ws_def)


lemma parse_members_dumps:
  assumes "kvs \<noteq> []"
    and IH: "\<And>kv rest n. kv \<in> set kvs \<Longrightarrow> num_stop rest \<Longrightarrow> 2 * length (json_dumps ea (snd kv) @ rest) < n \<Longrightarrow>
               parse_value n (json_dumps ea (snd kv) @ rest) = PDone (snd kv) rest"
    and "2 * length (py_join '', '' (map (json_member ea) kvs) @ CHR ''}'' # rest) + 1 < n"
  shows "parse_members n acc (py_join '', '' (map (json_member ea) kvs) @ CHR ''}'' # rest) =
         PDone (acc @ kvs) rest"
  using assms
proof (induction kvs arbitrary: acc n rule: induct_list012)
  case 1
  then show ?case by simp
next
  case (2 kv)
  then obtain n' where n: "n = Suc n'" by (cases n) auto
  obtain k v where kv: "kv = (k, v)" by (cases kv)
  have key: "scan_key (json_member ea kv @ CHR ''}'' # rest) = Some (k, json_dumps ea v @ CHR ''}'' # rest)"
    using scan_key_quote [of "json_dumps ea v @ CHR ''}'' # rest" ea k] kv by (simp add: json_member_def)
  have "parse_value n' (json_dumps ea v @ CHR ''}'' # rest) = PDone v (CHR ''}'' # rest)"
    using "2.prems"(2) [of kv "CHR ''}'' # rest" n'] "2.prems"(3) n kv
    by (simp add: num_stop_def json_member_def is_ascii_digit_def)
  then show ?case using key kv by (simp add: n after_item_close json_ws_def)
next
  case (3 kv kv' zs)
  then obtain n' where n: "n = Suc n'" by (cases n) auto
  obtain k v where kv: "kv = (k, v)" by (cases kv)
  let ?more = "py_join '', '' (map (json_member ea) (kv' # zs)) @ CHR ''}'' # rest"
  have join: "py_join '', '' (map (json_member ea) (kv # kv' # zs)) @ CHR ''}'' # rest =
              json_member ea kv @ CHR '','' # CHR '' '' # ?more" by simp
  have key: "scan_key (json_member ea kv @ CHR '','' # CHR '' '' # ?more) =
             Some (k, json_dumps ea v @ CHR '','' # CHR '' '' # ?more)"
    using scan_key_quote [of "json_dumps ea v @ CHR '','' # CHR '' '' # ?more" ea k] kv
    by (simp add: json_member_def)
  have len: "length (json_dumps ea v @ CHR '','' # CHR '' '' # ?more) \<le>
              length (py_join '', '' (map (json_member ea) (kv # kv' # zs)) @ CHR ''}'' # rest)"
    unfolding join using kv by (simp add: json_member_def)
  have fuel: "2 * length (json_dumps ea v @ CHR '','' # CHR '' '' # ?more) < n'"
    using len "3.prems"(3) n by linarith
  have v: "parse_value n' (json_dumps ea v @ CHR '','' # CHR '' '' # ?more) =
           PDone v (CHR '','' # CHR '' '' # ?more)"
    using "3.prems"(2) [of kv "CHR '','' # CHR '' '' # ?more" n'] kv fuel
    by (simp add: num_stop_def is_ascii_digit_def)
  have sk: "skip_ws ?more = ?more"
    by (simp add: py_join_Cons json_member_def json_quote_def skip_ws_def json_ws_def)
  have hd: "\<exists>r. ?more = dquote # r"
    by (simp add: py_join_Cons json_member_def json_quote_def)
  have rec: "parse_members n' (acc @ [(k, v)]) ?more = PDone ((acc @ [(k, v)]) @ kv' # zs) rest"
    using "3.IH"(2) [of n' "acc @ [(k, v)]"] "3.prems" n join by simp
  show ?case using key v rec sk hd kv by (auto simp: n join after_item_comma)
qed


lemma str_int_head: "\<exists>c cs. py_str_int i = c # cs \<and> (c = CHR ''-'' \<or> is_ascii_digit c)"
proof -
  obtain d ds where d: "nat_digits (nat \<bar>i\<bar>) = d # ds" by (cases "nat_digits (nat \<bar>i\<bar>)") auto
  have "is_ascii_digit d" using nat_digits_all_digits [of "nat \<bar>i\<bar>"] d by simp
  with d show ?thesis by (auto simp: py_str_int_def)
qed

lemma json_member_eq: "(\<lambda>(k, v). json_quote ea k @ '': '' @ json_dumps ea v) = json_member ea"
  by (auto simp: json_member_def)

lemma json_dumps_JObj:
  "json_dumps ea (JObj kvs) = ''{'' @ py_join '', '' (map (json_member ea) kvs) @ ''}''"
  unfolding json_dumps.simps json_member_eq by (rule refl)

lemma parse_value_dumps:
  "json_wf j \<Longrightarrow> num_stop rest \<Longrightarrow> 2 * length (json_dumps ea j @ rest) < n \<Longrightarrow>
   parse_value n (json_dumps ea j @ rest) = PDone j rest"
proof (induction j arbitrary: rest n)
  case JNull
  then obtain n' where "n = Suc n'" by (cases n) auto
  then show ?case by (simp add: parse_scalar_def)
next
  case (JBool b)
  then obtain n' where "n = Suc n'" by (cases n) auto
  then show ?case by (cases b) (simp_all add: parse_scalar_def)
next
  case (JInt i)
  then obtain n' where n: "n = Suc n'" by (cases n) auto
  obtain c cs where c: "py_str_int i = c # cs" "c = CHR ''-'' \<or> is_ascii_digit c"
    using str_int_head by blast
  have sn: "scan_number (py_str_int i @ rest) = PDone (JInt i) rest"
    using JInt.prems(2) by (rule scan_number_str_int)
  have ne: "c \<noteq> CHR ''{'' \<and> c \<noteq> CHR ''['' \<and> c \<noteq> dquote \<and> c \<noteq> CHR ''n'' \<and> c \<noteq> CHR ''t'' \<and> c \<noteq> CHR ''f''"
    using c(2) by (auto simp: is_ascii_digit_def)
  have "parse_value (Suc n') (c # cs @ rest) = scan_number (c # cs @ rest)"
    using ne by (simp add: parse_scalar_def)
  with sn c(1) show ?case by (simp add: n)
next
  case (JStr s)
  then obtain n' where "n = Suc n'" by (cases n) auto
  then show ?case by (simp add: parse_scalar_def json_quote_def scan_string_escape)
next
  case (JList xs)
  then obtain n' where n: "n = Suc n'" by (cases n) auto
  show ?case
  proof (cases "xs = []")
    case True
    then show ?thesis by (simp add: n skip_ws_def json_ws_def)
  next
    case False
    then obtain x ys where xs: "xs = x # ys" by (cases xs) auto
    obtain c cs where c: "json_dumps ea x = c # cs" "c \<noteq> CHR '']''"
      using dumps_head [of ea x] by blast
    let ?t = "py_join '', '' (map (json_dumps ea) xs) @ CHR '']'' # rest"
    have sk: "skip_ws ?t = ?t" by (simp add: xs py_join_Cons)
    have "parse_elems n' [] ?t = PDone ([] @ xs) rest"
      using parse_elems_dumps [of xs ea rest n' "[]"] JList False n by auto
    then show ?thesis using sk c by (simp add: n xs py_join_Cons)
  qed
next
  case (JObj kvs)
  then obtain n' where n: "n = Suc n'" by (cases n) auto
  have dist: "distinct (map fst kvs)" using JObj.prems(1) by simp
  show ?case
  proof (cases "kvs = []")
    case True
    then show ?thesis by (simp add: n skip_ws_def json_ws_def)
  next
    case False
    then obtain kv ys where kvs: "kvs = kv # ys" by (cases kvs) auto
    let ?t = "py_join '', '' (map (json_member ea) kvs) @ CHR ''}'' # rest"
    have sk: "skip_ws ?t = ?t"
      by (simp add: kvs py_join_Cons json_member_def json_quote_def skip_ws_def json_ws_def)
    have hd: "\<exists>r. ?t = dquote # r" by (simp add: kvs py_join_Cons json_member_def json_quote_def)
    have IH: "\<And>kv rest n. kv \<in> set kvs \<Longrightarrow> num_stop rest \<Longrightarrow>
                2 * length (json_dumps ea (snd kv) @ rest) < n \<Longrightarrow>
                parse_value n (json_dumps ea (snd kv) @ rest) = PDone (snd kv) rest"
    proof -
      fix kv rest n
      assume "kv \<in> set kvs" "num_stop rest" "2 * length (json_dumps ea (snd kv) @ rest) < n"
      moreover have "json_wf (snd kv)" using JObj.prems(1) \<open>kv \<in> set kvs\<close> by auto
      moreover have sn: "snd kv \<in> Basic_BNFs.snds kv" by (cases kv) simp
      ultimately show "parse_value n (json_dumps ea (snd kv) @ rest) = PDone (snd kv) rest"
        using JObj.IH [OF \<open>kv \<in> set kvs\<close> sn] by blast
    qed
    have fuel: "2 * length ?t + 1 < n'"
      using JObj.prems(3) n unfolding json_dumps_JObj by simp
    have "parse_members n' [] ?t = PDone ([] @ kvs) rest"
      using parse_members_dumps [of kvs ea rest n' "[]", OF False IH fuel] .
    moreover have "py_dict kvs = kvs" using py_dict_distinct [of "[]" kvs] dist by (simp add: py_dict_def)
    ultimately show ?thesis using sk hd unfolding json_dumps_JObj by (auto simp: n)
  qed
qed

lemma json_loads_dumps: "json_wf j \<Longrightarrow> json_loads (json_dumps ea j) = Some j"
  using parse_value_dumps [where j = j and rest = "[]" and n = "2 * length (json_dumps ea j) + 1" and ea = ea]
    skip_ws_dumps [of ea j "[]"]
  by (simp add: json_loads_def json_loads_fuel_def num_stop_def skip_ws_def)

text \<open>\<open>json.loads\<close> always answers. The descent that \<open>json_loads\<close> runs on a
  text \<open>s\<close> never exhausts its fuel \<open>2 * length s + 1\<close>: every text is either decoded or
  refused, so the \<open>try\<close> around \<open>json.loads\<close> in \<open>api_alerts\<close> always completes.\<close>

lemma json_loads_total: "json_loads_fuel (2 * length s + 1) s \<noteq> PNoFuel"
proof -
  have "2 * length (skip_ws s) < 2 * length s + 1" using skip_ws_le [of s] by simp
  then show ?thesis unfolding json_loads_fuel_def by (rule parse_enough_fuel(1))
qed

end
