(* ===== verification/DateTime.thy ===== *)
theory DateTime
  imports Prelude
begin

text \<open>
  The rendering of timestamps. The service stores \<open>datetime.datetime.utcnow()\<close> in its
  tables and prints datetimes with \<open>isoformat()\<close> (\<open>/\<close>, \<open>/api/status\<close>,
  \<open>/api/tables\<close>, \<open>/api/alerts\<close>, the report rows) and with
  \<open>strftime("%Y%m%d%H%M%S")\<close> (the report's file name). A timestamp of the model is the
  number of microseconds since 1970-01-01T00:00:00; its calendar date is computed with
  CPython's \<open>_ord2ymd\<close> (proleptic Gregorian ordinals, 400-, 100- and 4-year cycles),
  translated line by line from \<open>Lib/datetime.py\<close>, whose C twin \<open>ord_to_ymd\<close> the
  interpreter runs. A \<open>datetime\<close> only exists for years 1 to 9999 (ordinals 1 to
  3652059); on that range the lemmas show that \<open>ord2ymd\<close> gives a year from 1 to 9999,
  a month from 1 to 12 and a day from 1 to 31, so that \<open>isoformat\<close> has 19 or 26
  characters and the compact format is exactly 14 digits.
\<close>

definition DI400Y :: int where "DI400Y = 146097"
definition DI100Y :: int where "DI100Y = 36524"
definition DI4Y :: int where "DI4Y = 1461"

definition is_leap :: "int \<Rightarrow> bool" where
  "is_leap y \<longleftrightarrow> y mod 4 = 0 \<and> (y mod 100 \<noteq> 0 \<or> y mod 400 = 0)"

text \<open>\<open>_DAYS_IN_MONTH\<close> and \<open>_DAYS_BEFORE_MONTH\<close> (index 0 unused).\<close>

definition DAYS_IN_MONTH :: "int list" where
  "DAYS_IN_MONTH = [-1, 31, 28, 31, 30, 31, 30, 31, 31, 30, 31, 30, 31]"

definition DAYS_BEFORE_MONTH :: "int list" where
  "DAYS_BEFORE_MONTH = [-1, 0, 31, 59, 90, 120, 151, 181, 212, 243, 273, 304, 334]"

definition days_in_month :: "int \<Rightarrow> nat \<Rightarrow> int" where
  "days_in_month y m = (if m = 2 \<and> is_leap y then 29 else DAYS_IN_MONTH ! m)"

text \<open>\<open>_ord2ymd(n)\<close>: ordinal 1 is 0001-01-01.\<close>

definition ord2ymd :: "int \<Rightarrow> int \<times> nat \<times> int" where
  "ord2ymd n0 =
     (let n = n0 - 1;
          n400 = n div DI400Y; n = n mod DI400Y;
          year = n400 * 400 + 1;
          n100 = n div DI100Y; n = n mod DI100Y;
          n4 = n div DI4Y; n = n mod DI4Y;
          n1 = n div 365; n = n mod 365;
          year = year + n100 * 100 + n4 * 4 + n1
      in if n1 = 4 \<or> n100 = 4 then (year - 1, 12, 31)
         else
           (let leapyear = (n1 = 3 \<and> (n4 \<noteq> 24 \<or> n100 = 3));
                month = nat ((n + 50) div 32);
                preceding = DAYS_BEFORE_MONTH ! month + (if month > 2 \<and> leapyear then 1 else 0);
                (month, preceding) =
                  (if preceding > n then
                     (month - 1,
                      preceding - (DAYS_IN_MONTH ! (month - 1) +
                                   (if month - 1 = 2 \<and> leapyear then 1 else 0)))
                   else (month, preceding))
            in (year, month, n - preceding + 1)))"

text \<open>The ordinal of 1970-01-01 and the length of a day in microseconds.\<close>

definition EPOCH_ORDINAL :: int where "EPOCH_ORDINAL = 719163"
definition DAY_US :: int where "DAY_US = 86400000000"

text \<open>The fields of the \<open>datetime\<close> of a timestamp.\<close>

definition dt_fields :: "timestamp \<Rightarrow> int \<times> nat \<times> int \<times> int \<times> int \<times> int \<times> int" where
  "dt_fields t =
     (let (y, m, d) = ord2ymd (t div DAY_US + EPOCH_ORDINAL);
          r = t mod DAY_US
      in (y, m, d, r div 3600000000, (r div 60000000) mod 60, (r div 1000000) mod 60, r mod 1000000))"

text \<open>\<open>'%0wd' % n\<close> for a non-negative \<open>n\<close>.\<close>

definition pad_int :: "nat \<Rightarrow> int \<Rightarrow> pystr" where
  "pad_int w n = (let ds = nat_digits (nat n) in replicate (w - length ds) (CHR ''0'') @ ds)"

text \<open>\<open>datetime.isoformat()\<close>: \<open>YYYY-MM-DDTHH:MM:SS\<close>, with \<open>.ffffff\<close> when the
  microseconds are not zero.\<close>

definition iso_format :: "timestamp \<Rightarrow> pystr" where
  "iso_format t =
     (let (y, m, d, hh, mm, ss, us) = dt_fields t
      in pad_int 4 y @ ''-'' @ pad_int 2 (int m) @ ''-'' @ pad_int 2 d @ ''T'' @
         pad_int 2 hh @ '':'' @ pad_int 2 mm @ '':'' @ pad_int 2 ss @
         (if us \<noteq> 0 then ''.'' @ pad_int 6 us else []))"

text \<open>\<open>strftime("%Y%m%d%H%M%S")\<close>.\<close>

definition compact_format :: "timestamp \<Rightarrow> pystr" where
  "compact_format t =
     (let (y, m, d, hh, mm, ss, us) = dt_fields t
      in pad_int 4 y @ pad_int 2 (int m) @ pad_int 2 d @ pad_int 2 hh @ pad_int 2 mm @ pad_int 2 ss)"

text \<open>The month step of \<open>ord2ymd\<close> for a day \<open>n\<close> of the year (from 0) and the
  year's leap flag, with the range property it meets, for the bounds proof below.\<close>

definition md_of :: "int \<Rightarrow> bool \<Rightarrow> nat \<times> int" where
  "md_of n leapyear =
     (let month = nat ((n + 50) div 32);
          preceding = DAYS_BEFORE_MONTH ! month + (if month > 2 \<and> leapyear then 1 else 0)
      in if preceding > n then
           (month - 1, preceding - (DAYS_IN_MONTH ! (month - 1) + (if month - 1 = 2 \<and> leapyear then 1 else 0)))
         else (month, preceding))"

definition md_ok :: "int \<Rightarrow> bool \<Rightarrow> bool" where
  "md_ok n leapyear =
     (let (m, p) = md_of n leapyear in 1 \<le> m \<and> m \<le> 12 \<and> 0 \<le> n - p \<and> n - p \<le> 30)"

subsection \<open>Lemmas\<close>

text \<open>Every day of a year falls in a month from 1 to 12 on a day from 1 to 31; checked on
  the 365 days of both kinds of year by evaluation.\<close>

lemma md_all: "list_all (\<lambda>n. md_ok (int n) False \<and> md_ok (int n) True) [0..<365]"
  by code_simp

lemma md_ok_range: "0 \<le> r \<Longrightarrow> r < 365 \<Longrightarrow> md_ok r lp"
proof -
  assume r: "0 \<le> r" "r < 365"
  then obtain k where k: "r = int k" "k < 365" by (metis nat_0_le nat_less_iff of_nat_numeral)
  then have "k \<in> set [0..<365]" by simp
  with md_all have "md_ok (int k) False \<and> md_ok (int k) True" by (simp add: list_all_iff)
  with k show ?thesis by (cases lp) simp_all
qed

lemma cycle_years_le:
  fixes n400 n100 n4 n1 r :: int
  assumes n: "146097 * n400 + 36524 * n100 + 1461 * n4 + 365 * n1 + r \<le> 3652058"
    and nn: "0 \<le> n100" "0 \<le> n4" "0 \<le> n1" "0 \<le> r"
    and ub: "n100 \<le> 4" "n4 \<le> 24" "n1 \<le> 4"
  shows "400 * n400 + 100 * n100 + 4 * n4 + n1 \<le> 9998"
proof (cases "n400 \<le> 23")
  case True
  then show ?thesis using ub by linarith
next
  case False
  then have "n400 \<ge> 24" by simp
  with n nn have m: "36524 * n100 + 1461 * n4 + 365 * n1 + r \<le> 145730" and "n400 = 24" by linarith+
  show ?thesis
  proof (cases "n100 \<le> 2")
    case True
    then show ?thesis using ub \<open>n400 = 24\<close> by linarith
  next
    case False
    with m nn have "n100 = 3" by linarith
    with m have m3: "1461 * n4 + 365 * n1 + r \<le> 36158" by simp
    show ?thesis
    proof (cases "n4 \<le> 23")
      case True
      then show ?thesis using ub \<open>n400 = 24\<close> \<open>n100 = 3\<close> by linarith
    next
      case False
      with ub have "n4 = 24" by simp
      with m3 nn have "n1 \<le> 2" by linarith
      then show ?thesis using \<open>n400 = 24\<close> \<open>n100 = 3\<close> \<open>n4 = 24\<close> by linarith
    qed
  qed
qed

lemma ord2ymd_bounds:
  assumes "1 \<le> n0" and "n0 \<le> 3652059" and "ord2ymd n0 = (y, m, d)"
  shows "1 \<le> y \<and> y \<le> 9999 \<and> 1 \<le> m \<and> m \<le> 12 \<and> 1 \<le> d \<and> d \<le> 31"
proof -
  define n where "n = n0 - 1"
  define n400 where "n400 = n div DI400Y"
  define a where "a = n mod DI400Y"
  define n100 where "n100 = a div DI100Y"
  define b where "b = a mod DI100Y"
  define n4 where "n4 = b div DI4Y"
  define c where "c = b mod DI4Y"
  define n1 where "n1 = c div 365"
  define r where "r = c mod 365"
  define year where "year = n400 * 400 + 1 + n100 * 100 + n4 * 4 + n1"
  define lp where "lp = (n1 = 3 \<and> (n4 \<noteq> 24 \<or> n100 = 3))"
  have o: "ord2ymd n0 = (if n1 = 4 \<or> n100 = 4 then (year - 1, 12, 31)
                         else (year, fst (md_of r lp), r - snd (md_of r lp) + 1))"
    by (simp add: ord2ymd_def md_of_def Let_def n_def n400_def a_def n100_def b_def n4_def c_def
        n1_def r_def year_def lp_def case_prod_unfold)
  have n: "0 \<le> n" "n \<le> 3652058" using assms(1,2) by (simp_all add: n_def)
  have a: "0 \<le> a" "a < 146097" by (simp_all add: a_def DI400Y_def)
  have b: "0 \<le> b" "b < 36524" by (simp_all add: b_def DI100Y_def)
  have c: "0 \<le> c" "c < 1461" by (simp_all add: c_def DI4Y_def)
  have up: "n400 \<le> 3652058 div 146097" "n100 \<le> 146096 div 36524" "n4 \<le> 36523 div 1461"
      "n1 \<le> 1460 div 365"
    using n a b c unfolding n400_def n100_def n4_def n1_def DI400Y_def DI100Y_def DI4Y_def
    by (intro zdiv_mono1; simp)+
  have bnd: "0 \<le> n400" "n400 \<le> 24" "0 \<le> n100" "n100 \<le> 4" "0 \<le> n4" "n4 \<le> 24"
      "0 \<le> n1" "n1 \<le> 4" "0 \<le> r" "r < 365"
    using n a b c up unfolding n400_def n100_def n4_def n1_def r_def DI400Y_def DI100Y_def DI4Y_def
    by (simp_all add: pos_imp_zdiv_nonneg_iff)
  have dec: "n = 146097 * n400 + 36524 * n100 + 1461 * n4 + 365 * n1 + r"
    unfolding n400_def a_def n100_def b_def n4_def c_def n1_def r_def DI400Y_def DI100Y_def DI4Y_def
    by (simp add: algebra_simps)
  have yle: "400 * n400 + 100 * n100 + 4 * n4 + n1 \<le> 9998"
    using dec n bnd by (intro cycle_years_le [where r = r]) linarith+
  show ?thesis
  proof (cases "n1 = 4 \<or> n100 = 4")
    case True
    then have "1 \<le> year - 1" using bnd by (auto simp: year_def)
    with True yle assms(3) o show ?thesis by (auto simp: year_def)
  next
    case False
    obtain mm p where mp: "md_of r lp = (mm, p)" by (cases "md_of r lp")
    have "md_ok r lp" using bnd by (intro md_ok_range)
    then have "1 \<le> mm \<and> mm \<le> 12 \<and> 0 \<le> r - p \<and> r - p \<le> 30" by (simp add: md_ok_def mp)
    with False yle bnd assms(3) o mp show ?thesis by (auto simp: year_def)
  qed
qed


lemma nat_digits_length: "k < 10 ^ w \<Longrightarrow> 0 < w \<Longrightarrow> length (nat_digits k) \<le> w"
proof (induction k arbitrary: w rule: nat_digits.induct)
  case (1 k)
  show ?case
  proof (cases "k < 10")
    case True
    then show ?thesis using "1.prems"(2) by (subst nat_digits_cases) simp
  next
    case False
    obtain v where w: "w = Suc v" using "1.prems"(2) by (cases w) auto
    have "k div 10 < 10 ^ v" using "1.prems"(1) by (simp add: w less_mult_imp_div_less mult.commute)
    moreover have "0 < v" using False "1.prems"(1) w by (cases v) auto
    ultimately have "length (nat_digits (k div 10)) \<le> v" using "1.IH" False by blast
    then show ?thesis using False by (subst nat_digits_cases) (simp add: w)
  qed
qed

lemma pad_int_length: "0 \<le> n \<Longrightarrow> n < 10 ^ w \<Longrightarrow> 0 < w \<Longrightarrow> length (pad_int w n) = w"
proof -
  assume n: "0 \<le> n" "n < 10 ^ w" and w: "0 < w"
  have "nat n < 10 ^ w" using n by (simp add: nat_less_iff)
  then have "length (nat_digits (nat n)) \<le> w" using w by (rule nat_digits_length)
  then show ?thesis by (simp add: pad_int_def Let_def)
qed

lemma pad_int_digits: "list_all is_ascii_digit (pad_int w n)"
  using nat_digits_all_digits [of "nat n"] by (auto simp: pad_int_def Let_def is_ascii_digit_def list_all_iff)

lemma dt_fields_bounds:
  assumes "1 \<le> t div DAY_US + EPOCH_ORDINAL" and "t div DAY_US + EPOCH_ORDINAL \<le> 3652059"
    and "dt_fields t = (y, m, d, hh, mi, ss, us)"
  shows "1 \<le> y \<and> y \<le> 9999 \<and> 1 \<le> m \<and> m \<le> 12 \<and> 1 \<le> d \<and> d \<le> 31 \<and>
         0 \<le> hh \<and> hh < 24 \<and> 0 \<le> mi \<and> mi < 60 \<and> 0 \<le> ss \<and> ss < 60 \<and> 0 \<le> us \<and> us < 1000000"
proof -
  obtain y' m' d' where o: "ord2ymd (t div DAY_US + EPOCH_ORDINAL) = (y', m', d')" by (cases "ord2ymd (t div DAY_US + EPOCH_ORDINAL)") auto
  define r where "r = t mod DAY_US"
  have r: "0 \<le> r" "r < 86400000000" by (simp_all add: r_def DAY_US_def)
  have f: "y = y'" "m = m'" "d = d'" "hh = r div 3600000000" "mi = (r div 60000000) mod 60"
      "ss = (r div 1000000) mod 60" "us = r mod 1000000"
    using assms(3) o by (simp_all add: dt_fields_def r_def Let_def)
  have "r div 3600000000 \<le> 86399999999 div 3600000000" using r by (intro zdiv_mono1) simp_all
  then have "r div 3600000000 < 24" by simp
  then show ?thesis using ord2ymd_bounds [OF assms(1,2) o] f r by (simp add: pos_imp_zdiv_nonneg_iff)
qed

lemma compact_format_length:
  assumes "1 \<le> t div DAY_US + EPOCH_ORDINAL" and "t div DAY_US + EPOCH_ORDINAL \<le> 3652059"
  shows "length (compact_format t) = 14 \<and> list_all is_ascii_digit (compact_format t)"
proof -
  obtain y m d hh mi ss us where f: "dt_fields t = (y, m, d, hh, mi, ss, us)" by (cases "dt_fields t") auto
  note b = dt_fields_bounds [OF assms f]
  show ?thesis using b by (simp add: compact_format_def f pad_int_length pad_int_digits)
qed

lemma iso_format_length:
  assumes "1 \<le> t div DAY_US + EPOCH_ORDINAL" and "t div DAY_US + EPOCH_ORDINAL \<le> 3652059"
  shows "length (iso_format t) \<in> {19, 26}"
proof -
  obtain y m d hh mi ss us where f: "dt_fields t = (y, m, d, hh, mi, ss, us)" by (cases "dt_fields t") auto
  note b = dt_fields_bounds [OF assms f]
  show ?thesis using b by (simp add: iso_format_def f pad_int_length)
qed

end
