(* ===== verification/Reports.thy ===== *)
theory Reports
  imports Engine JsonLoads DateTime "HOL-Library.Multiset"
begin

text \<open>
  The read-only views and the report export of \<open>src/Backend/app.py\<close>: \<open>root\<close>
  (lines 258--277), \<open>api_status\<close> (lines 279--301), \<open>api_tables\<close> (lines 303--323),
  \<open>api_alerts\<close> (lines 334--361) and \<open>api_export_report\<close> (lines 478--501). They read
  the log table through \<open>Log.query.order_by(Log.id.desc())\<close>, render timestamps with
  \<open>DateTime.iso_format\<close>, decode the stored profiles with \<open>JsonLoads.json_loads\<close> and
  write the report with \<open>csv.writer\<close> (\<open>Csv\<close>).
\<close>

text \<open>\<open>root()\<close>: the service's description.\<close>

definition root :: "env \<Rightarrow> response" where
  "root e =
     Response 200 (JObj [(''status'', JStr ''ok''), (''service'', JStr ''Suraksha Mirage Backend''),
       (''version'', JStr ''1.0''),
       (''endpoints'', JObj [(''api_info'', JStr ''/''), (''tables'', JStr ''/api/tables''),
          (''alerts'', JStr ''/api/alerts''), (''login'', JStr ''/api/login''),
          (''query'', JStr ''/api/query''), (''block_ip'', JStr ''/api/actions/block''),
          (''generate_decoys'', JStr ''/api/decoy/generate''),
          (''export_report'', JStr ''/api/export_report''),
          (''download'', JStr ''/download/<filename>'')]),
       (''timestamp'', JStr (iso_format (now e)))])"

text \<open>\<open>api_status()\<close>: the two row counts, or the exception's text when a count
  raises.\<close>

definition api_status :: "env \<Rightarrow> world \<Rightarrow> response" where
  "api_status e w =
     (if fails e QStatus then
        Response 500 (JObj [(''status'', JStr ''unhealthy''), (''database'', JStr ''error''),
          (''error'', JStr (db_err_text e)), (''timestamp'', JStr (iso_format (now e)))])
      else
        Response 200 (JObj [(''status'', JStr ''healthy''), (''database'', JStr ''connected''),
          (''stats'', JObj [(''total_logs'', JInt (int (length (logs (store w))))),
                            (''blocked_ips'', JInt (int (length (blocks (store w)))))]),
          (''timestamp'', JStr (iso_format (now e)))]))"

text \<open>One entry of \<open>api_tables()\<close>.\<close>

definition table_entry :: "env \<Rightarrow> pystr \<Rightarrow> nat \<Rightarrow> pystr \<Rightarrow> json" where
  "table_entry e base n fname =
     JObj [(''count'', JInt (int n)), (''download_url'', JStr (base @ ''/download/'' @ fname)),
           (''last_updated'', JStr (iso_format (now e)))]"

definition api_tables :: "env \<Rightarrow> request \<Rightarrow> response" where
  "api_tables e req =
     (let base = py_rstrip CHR ''/'' (url_root req)
      in Response 200 (JObj [(''employees'', table_entry e base 200 ''decoy_employees.csv''),
                             (''projects'', table_entry e base 50 ''decoy_projects.csv''),
                             (''credentials'', table_entry e base 50 ''credentials_backup.zip'')]))"

text \<open>\<open>Log.query.order_by(Log.id.desc())\<close>.\<close>

definition logs_desc :: "db \<Rightarrow> log_entry list" where
  "logs_desc s = sort_key (\<lambda>l. - int (log_id l)) (logs s)"

text \<open>SQLite's \<open>LIMIT k\<close>: a negative bound is no bound.\<close>

definition sqlite_limit :: "int \<Rightarrow> 'a list \<Rightarrow> 'a list" where
  "sqlite_limit k xs = (if k < 0 then xs else take (nat k) xs)"

text \<open>\<open>int(request.args.get('limit', 50))\<close>: \<open>None\<close> when \<open>int\<close> raises.\<close>

definition alerts_limit :: "request \<Rightarrow> int option" where
  "alerts_limit req =
     (case md_get (args req) ''limit'' of None \<Rightarrow> Some 50 | Some s \<Rightarrow> py_int_parse s)"

text \<open>\<open>json.loads(l.profile) if l.profile else None\<close>, with \<open>None\<close> when it raises.\<close>

definition alert_profile :: "pystr option \<Rightarrow> json" where
  "alert_profile p =
     (case p of
        None \<Rightarrow> JNull
      | Some t \<Rightarrow> (if t = [] then JNull else (case json_loads t of None \<Rightarrow> JNull | Some j \<Rightarrow> j)))"

definition json_opt_str :: "pystr option \<Rightarrow> json" where
  "json_opt_str s = (case s of None \<Rightarrow> JNull | Some t \<Rightarrow> JStr t)"

text \<open>One item of the alert list.\<close>

definition alert_item :: "log_entry \<Rightarrow> json" where
  "alert_item l =
     JObj [(''id'', JInt (int (log_id l))), (''ip'', JStr (log_ip l)), (''path'', JStr (log_path l)),
           (''method'', JStr (log_method l)), (''ua'', JStr (log_ua l)),
           (''payload'', JStr (log_payload l)), (''timestamp'', JStr (iso_format (log_timestamp l))),
           (''anomaly'', JBool (log_anomaly l)), (''profile'', alert_profile (log_profile l)),
           (''decoy_file'', json_opt_str (log_decoy_file l))]"

text \<open>\<open>api_alerts()\<close>. The \<open>int\<close> conversion is outside the \<open>try\<close>: a limit that is not
  an integer reaches the 500 handler. The query's failures, an out-of-range bound
  included, answer an empty list with 500.\<close>

definition api_alerts :: "env \<Rightarrow> world \<Rightarrow> request \<Rightarrow> response" where
  "api_alerts e w req =
     (case alerts_limit req of
        None \<Rightarrow> internal_error_response
      | Some k \<Rightarrow>
          (if fails e QAlerts \<or> k < INT64_MIN \<or> INT64_MAX < k then Response 500 (JList [])
           else Response 200 (JList (map alert_item (sqlite_limit k (logs_desc (store w)))))))"

text \<open>\<open>EXPORTS_DIR\<close> (line 26) and the report's header and rows.\<close>

definition exports_dir :: "pystr \<Rightarrow> pystr" where
  "exports_dir base = py_path_join base ''exports''"

definition REPORT_HEADER :: "pystr list" where
  "REPORT_HEADER = [''id'', ''ip'', ''timestamp'', ''path'', ''anomaly'', ''decoy_file'']"

definition report_row :: "log_entry \<Rightarrow> pystr list" where
  "report_row l =
     [py_str_int (int (log_id l)), log_ip l, iso_format (log_timestamp l), log_path l,
      if log_anomaly l then ''1'' else ''0'', case log_decoy_file l of None \<Rightarrow> [] | Some d \<Rightarrow> d]"

text \<open>The \<open>since\<close> filter: applied when the argument is non-empty and
  \<open>fromisoformat\<close> accepts it, skipped (with a warning) when it raises.\<close>

definition since_filter :: "env \<Rightarrow> request \<Rightarrow> log_entry list \<Rightarrow> log_entry list" where
  "since_filter e req ls =
     (case md_get (args req) ''since'' of
        None \<Rightarrow> ls
      | Some s \<Rightarrow> (if s = [] then ls
                  else (case from_iso e s of
                          None \<Rightarrow> ls
                        | Some t \<Rightarrow> filter (\<lambda>l. t \<le> log_timestamp l) ls)))"

definition report_path :: "env \<Rightarrow> pystr" where
  "report_path e = py_path_join (exports_dir (base_dir e)) (''report_'' @ compact_format (now e) @ ''.csv'')"

text \<open>\<open>api_export_report()\<close>. After the \<open>with\<close> block the view falls off its end and
  returns \<open>None\<close>, which Flask refuses with a \<open>TypeError\<close>: the 500 handler answers.\<close>

definition api_export_report :: "env \<Rightarrow> world \<Rightarrow> request \<Rightarrow> response \<times> world" where
  "api_export_report e w req =
     (let ls = since_filter e req (logs_desc (store w))
      in if fails e QExport
         then (Response 500 (JObj [(''status'', JStr ''error''), (''message'', JStr ''db error'')]), w)
         else (let p = report_path e
               in (internal_error_response,
                   if io_fails e p then w
                   else w\<lparr>files := (files w)(p \<mapsto> CsvFile (REPORT_HEADER # map report_row ls))\<rparr>)))"

subsection \<open>Lemmas\<close>

text \<open>On a well-formed table, ordering by descending id is reversing the insertion
  order.\<close>

lemma logs_desc_wf:
  assumes "logs_wf s"
  shows "logs_desc s = rev (logs s)"
  unfolding logs_desc_def
proof (rule sort_key_inj_key_eq)
  have sw: "sorted_wrt (\<lambda>a b. log_id a < log_id b) (logs s)"
    using assms by (simp add: logs_wf_def sorted_wrt_map)
  then have "distinct (map log_id (logs s))"
    by (simp add: logs_wf_def sorted_wrt_map [symmetric] strict_sorted_iff)
  then show "inj_on (\<lambda>l. - int (log_id l)) (set (logs s))"
    by (auto simp: distinct_map inj_on_def)
  show "sorted (map (\<lambda>l. - int (log_id l)) (rev (logs s)))"
    unfolding sorted_wrt_map sorted_wrt_rev
    by (rule sorted_wrt_mono_rel [OF _ sw]) simp
qed simp

lemma sqlite_limit_negative: "k < 0 \<Longrightarrow> sqlite_limit k xs = xs"
  by (simp add: sqlite_limit_def)

lemma alert_profile_dumps:
  assumes "json_wf j"
  shows "alert_profile (Some (json_dumps True j)) = j"
proof -
  obtain c cs where "json_dumps True j = c # cs" using dumps_head [of True j] by blast
  then show ?thesis using json_loads_dumps [OF assms, of True] by (simp add: alert_profile_def)
qed

lemma api_alerts_wf:
  assumes "logs_wf (store w)" and "alerts_limit req = Some k" and "\<not> fails e QAlerts"
    and "INT64_MIN \<le> k" and "k \<le> INT64_MAX"
  shows "api_alerts e w req = Response 200 (JList (map alert_item (sqlite_limit k (rev (logs (store w))))))"
  using assms by (simp add: api_alerts_def logs_desc_wf not_less)

text \<open>C9: \<open>/api/alerts\<close> shows the newest rows first. On a store that only grew by
  appends, with a limit \<open>k\<close> that \<open>int()\<close> accepts and SQLite can bind, and a query
  that succeeds, the answer is the \<open>k\<close> newest rows, newest first (all of them for a
  negative \<open>k\<close>).\<close>

theorem alerts_newest_first:
  assumes "logs_wf (store w)" and "alerts_limit req = Some k" and "\<not> fails e QAlerts"
    and "INT64_MIN \<le> k" and "k \<le> INT64_MAX"
  shows "api_alerts e w req =
           Response 200 (JList (map alert_item
             (if k < 0 then rev (logs (store w)) else take (nat k) (rev (logs (store w))))))"
  using api_alerts_wf [OF assms] by (simp add: sqlite_limit_def)

text \<open>C33: a \<open>limit\<close> argument that \<open>int()\<close> refuses is not caught by the view: the 500
  handler answers.\<close>

theorem alerts_bad_limit:
  assumes "md_get (args req) ''limit'' = Some s" and "py_int_parse s = None"
  shows "api_alerts e w req = internal_error_response"
  using assms by (simp add: api_alerts_def alerts_limit_def)

text \<open>C13: the export never answers with its report. When the query fails it answers
  the database error with 500; otherwise it writes the report (unless the file cannot be
  opened) and, returning nothing, answers through the 500 handler. The report holds the
  header and one row per log row since the bound, newest first.\<close>

theorem export_report_500:
  assumes "logs_wf (store w)" and "\<not> fails e QExport" and "\<not> io_fails e (report_path e)"
  shows "api_export_report e w req =
           (internal_error_response,
            w\<lparr>files := (files w)(report_path e \<mapsto>
                 CsvFile (REPORT_HEADER # map report_row (since_filter e req (rev (logs (store w))))))\<rparr>)"
  using assms by (simp add: api_export_report_def logs_desc_wf Let_def)

lemma api_export_report_status: "\<exists>body. fst (api_export_report e w req) = Response 500 body"
  by (simp add: api_export_report_def Let_def internal_error_response_def)

lemma api_export_report_store [simp]: "store (snd (api_export_report e w req)) = store w"
  by (simp add: api_export_report_def Let_def)

lemma exports_dir_last: "exports_dir base \<noteq> [] \<and> last (exports_dir base) = CHR ''s''"
  by (simp add: exports_dir_def py_path_join_def)

text \<open>The report's file name: \<open>report_\<close>, the 14 digits of the time, \<open>.csv\<close>, for any
  time a \<open>datetime\<close> can hold.\<close>

lemma report_path_name:
  assumes "1 \<le> now e div DAY_US + EPOCH_ORDINAL" and "now e div DAY_US + EPOCH_ORDINAL \<le> 3652059"
  shows "\<exists>ds. report_path e = exports_dir (base_dir e) @ ''/report_'' @ ds @ ''.csv'' \<and>
              length ds = 14 \<and> list_all is_ascii_digit ds"
  using compact_format_length [OF assms] exports_dir_last [of "base_dir e"]
  by (simp add: report_path_def py_path_join_def)

lemma api_export_report_files_keep:
  "files w p \<noteq> None \<Longrightarrow> files (snd (api_export_report e w req)) p \<noteq> None"
  by (simp add: api_export_report_def Let_def)

lemma api_export_report_gen [simp]: "decoy_gen (snd (api_export_report e w req)) = decoy_gen w"
  by (simp add: api_export_report_def Let_def)

end
