(* ===== verification/System.thy ===== *)
theory System
  imports Reports
begin

text \<open>
  The server as a state machine: the ten endpoints of \<open>src/Backend/app.py\<close> (the
  read-only views, the download, the two scoring handlers, the block endpoint, the
  decoy generation and the export) as events, one step per handled request, over a
  store that starts empty (\<open>db.create_all()\<close>, line 66) and a file store. The
  module-level decoy generation (lines 248--253) is a restart step: it runs again on
  the persisted files and database whenever the process starts. The model artifact is
  fixed for the life of the process. Requests are handled one after the other (the
  store serialises them); the reachable states are those of every finite sequence of
  requests and restarts, each in its own environment.
\<close>

datatype event =
    Root | Status | Tables request | Download pystr | Alerts request
  | Login request | Query request | Block request | Generate | Export request

fun handle :: "predictor option \<Rightarrow> env \<Rightarrow> world \<Rightarrow> event \<Rightarrow> response \<times> world" where
  "handle m e w Root = (root e, w)"
| "handle m e w Status = (api_status e w, w)"
| "handle m e w (Tables req) = (api_tables e req, w)"
| "handle m e w (Download fn) = (download_fn e w fn, w)"
| "handle m e w (Alerts req) = (api_alerts e w req, w)"
| "handle m e w (Login req) = api_login m e w req"
| "handle m e w (Query req) = api_query m e w req"
| "handle m e w (Block req) = api_block e w req"
| "handle m e w Generate = api_decoy_generate e w"
| "handle m e w (Export req) = api_export_report e w req"

definition init_world :: world where
  "init_world = \<lparr>store = \<lparr>logs = [], blocks = []\<rparr>, decoy_gen = 0, files = Map.empty\<rparr>"

inductive reachable :: "predictor option \<Rightarrow> world \<Rightarrow> bool" for m where
  init: "reachable m init_world"
| step: "reachable m w \<Longrightarrow> reachable m (snd (handle m e w ev))"
| restart: "reachable m w \<Longrightarrow> reachable m (startup_decoys e w)"

text \<open>The store invariant: log ids increase along the table, blocked addresses are
  unique.\<close>

definition world_inv :: "world \<Rightarrow> bool" where
  "world_inv w \<longleftrightarrow> logs_wf (store w) \<and> blocks_wf (store w)"

text \<open>One step never removes a log row or a blocklist row.\<close>

definition grows :: "world \<Rightarrow> world \<Rightarrow> bool" where
  "grows w w' \<longleftrightarrow> prefix (logs (store w)) (logs (store w')) \<and>
                  set (blocks (store w)) \<subseteq> set (blocks (store w'))"

text \<open>A sequence of requests, each handled in its own environment.\<close>

fun run :: "predictor option \<Rightarrow> (env \<times> event) list \<Rightarrow> world \<Rightarrow> world" where
  "run m [] w = w"
| "run m ((e, ev) # evs) w = run m evs (snd (handle m e w ev))"

definition blocked_in :: "world \<Rightarrow> ipaddr \<Rightarrow> bool" where
  "blocked_in w ip \<longleftrightarrow> (\<exists>b \<in> set (blocks (store w)). bl_ip b = ip)"

text \<open>The port of \<open>app.run\<close> (lines 550--553): \<open>int(os.environ.get('PORT', 5000))\<close>,
  raising before the server starts when the variable is not an integer.\<close>

definition server_port :: "pystr option \<Rightarrow> py_error + int" where
  "server_port port_var =
     (case port_var of
        None \<Rightarrow> Inr 5000
      | Some s \<Rightarrow> (case py_int_parse s of None \<Rightarrow> Inl ValueError | Some p \<Rightarrow> Inr p))"

text \<open>The operator's block request for an address: \<open>{"ip": ip}\<close> as JSON.\<close>

definition block_request :: "ipaddr \<Rightarrow> request" where
  "block_request ip =
     \<lparr>remote_addr = None, headers = [(''Content-Type'', ''application/json'')],
      req_path = ''/api/actions/block'', req_method = ''POST'', url_root = [],
      is_json = True, json_body = JParsed (JObj [(''ip'', JStr ip)]), form = None,
      body_text = json_dumps False (JObj [(''ip'', JStr ip)]), args = []\<rparr>"

subsection \<open>Lemmas\<close>

lemma api_block_store:
  "store (snd (api_block e w req)) = store w \<or>
   (\<exists>ip reason. block_add e ip reason (store w) = Inr (store (snd (api_block e w req))))"
  by (auto simp: api_block_def Let_def split: json.splits sum.splits)

lemma api_block_inv: "world_inv w \<Longrightarrow> world_inv (snd (api_block e w req))"
  using api_block_store [of e w req] api_block_logs [of e w req]
  by (auto simp: world_inv_def logs_wf_def intro: block_add_wf)

lemma handle_inv: "world_inv w \<Longrightarrow> world_inv (snd (handle m e w ev))"
proof (cases ev)
  case (Block req)
  then show "world_inv w \<Longrightarrow> ?thesis" by (simp add: api_block_inv)
qed (auto simp: world_inv_def blocks_wf_def login_logs_wf query_logs_wf)

lemma startup_decoys_store [simp]: "store (startup_decoys e w) = store w"
  by (simp add: startup_decoys_def Let_def)

lemma handle_grows: "grows w (snd (handle m e w ev))"
proof (cases ev)
  case (Login req)
  then show ?thesis by (simp add: grows_def login_logs_prefix)
next
  case (Query req)
  then show ?thesis by (simp add: grows_def query_logs_prefix)
next
  case (Block req)
  then show ?thesis
    using api_block_store [of e w req] api_block_logs [of e w req]
    by (auto simp: grows_def dest: block_add_keeps)
qed (simp_all add: grows_def)

lemma init_world_inv: "world_inv init_world"
  by (simp add: world_inv_def init_world_def logs_wf_def blocks_wf_def)

lemma grows_trans: "grows u v \<Longrightarrow> grows v w \<Longrightarrow> grows u w"
  by (auto simp: grows_def intro: prefix_order.order_trans)

lemma run_grows: "grows w (run m evs w)"
proof (induction evs arbitrary: w)
  case Nil
  then show ?case by (simp add: grows_def)
next
  case (Cons p evs)
  obtain e ev where p: "p = (e, ev)" by (cases p)
  from grows_trans [OF handle_grows Cons.IH] show ?case by (simp add: p)
qed

lemma run_reachable: "reachable m w \<Longrightarrow> reachable m (run m evs w)"
proof (induction evs arbitrary: w)
  case Nil
  then show ?case by simp
next
  case (Cons p evs)
  obtain e ev where p: "p = (e, ev)" by (cases p)
  from Cons.prems have "reachable m (snd (handle m e w ev))" by (rule reachable.step)
  then show ?case by (simp add: p Cons.IH)
qed

lemma grows_blocked_in: "grows w w' \<Longrightarrow> blocked_in w ip \<Longrightarrow> blocked_in w' ip"
  by (auto simp: grows_def blocked_in_def)

lemma blocked_in_query: "blocked_in w ip \<Longrightarrow> \<not> fails e QBlocked \<Longrightarrow>
  blocked_query (fails e) (store w) ip = Inr True"
  by (simp add: blocked_in_def blocked_query_def)

lemma block_add_blocked_in:
  assumes "block_add e (JStr ip) reason (store w) = Inr s'"
  shows "blocked_in (w\<lparr>store := s'\<rparr>) ip"
  using block_add_mem [of "JStr ip" ip e reason "store w" s'] assms by (simp add: blocked_in_def)

lemma block_closes_gate:
  assumes "silent_json breq = JObj kvs" and "dict_get kvs ''ip'' = JStr ip" and "ip \<noteq> []"
    and "db_bind (dict_get kvs ''reason'') \<noteq> None" and "\<not> fails e QBlockAdd"
  shows "blocked_in (snd (api_block e w breq)) ip"
proof -
  let ?r = "case map_of kvs ''reason'' of Some r \<Rightarrow> r | None \<Rightarrow> JStr ''manual''"
  have ne: "kvs \<noteq> []" using assms(2,3) by (auto simp: dict_get_def)
  have bind: "db_bind ?r \<noteq> None" using assms(4) by (auto simp: dict_get_def split: option.splits)
  have res: "snd (api_block e w breq) =
               (case block_add e (JStr ip) ?r (store w) of Inl err \<Rightarrow> w | Inr s' \<Rightarrow> w\<lparr>store := s'\<rparr>)"
    using assms(1-3) ne by (simp add: api_block_def Let_def split: sum.splits)
  show ?thesis
  proof (cases "blocked_in w ip")
    case True
    then have "block_add e (JStr ip) ?r (store w) = Inr (store w)"
      using assms(5) by (simp add: block_add_def blocked_in_def)
    with True res show ?thesis by simp
  next
    case False
    then obtain s' where "block_add e (JStr ip) ?r (store w) = Inr s'"
      using assms(5) bind by (auto simp: block_add_def blocked_in_def)
    with res block_add_blocked_in show ?thesis by simp
  qed
qed

text \<open>The gate of a blocked address: a login or a query from it answers 403 and changes
  nothing.\<close>

lemma gate_handle:
  assumes "blocked_in w ip" and "client_ip req = ip" and "\<not> fails e QBlocked"
    and "ev \<in> {Login req, Query req}"
  shows "handle m e w ev = (blocked_response, w)"
proof -
  have "blocked_query (fails e) (store w) (client_ip req) = Inr True"
    using assms(1-3) by (simp add: blocked_in_query)
  with assms(4) show ?thesis by (auto simp: api_login_def api_query_def)
qed

lemma api_block_files [simp]: "files (snd (api_block e w req)) = files w"
  by (auto simp: api_block_def Let_def split: json.splits sum.splits)

lemma handle_files_keep: "files w p \<noteq> None \<Longrightarrow> files (snd (handle m e w ev)) p \<noteq> None"
  by (cases ev) (simp_all add: login_files_keep query_files_keep api_decoy_generate_files_keep
                               api_export_report_files_keep)

lemma run_files_keep: "files w p \<noteq> None \<Longrightarrow> files (run m evs w) p \<noteq> None"
proof (induction evs arbitrary: w)
  case Nil
  then show ?case by simp
next
  case (Cons p' evs)
  obtain e ev where p': "p' = (e, ev)" by (cases p')
  from Cons.IH [OF handle_files_keep [OF Cons.prems]] show ?case by (simp add: p')
qed

lemma server_port_str: "server_port (Some (py_str_int p)) = Inr p"
  by (simp add: server_port_def py_int_parse_str_int)

lemma make_profile_wf [simp]: "json_wf (make_profile e purpose)"
  by (simp add: make_profile_def)

subsection \<open>Properties of the server\<close>

text \<open>C6: in every reachable state of the server, log ids increase along the log table
  and every address is on the blocklist at most once.\<close>

theorem reachable_world_inv: "reachable m w \<Longrightarrow> world_inv w"
proof (induction rule: reachable.induct)
  case init
  show ?case by (rule init_world_inv)
next
  case (step w e ev)
  from step.IH show ?case by (rule handle_inv)
next
  case (restart w e)
  from restart.IH show ?case by (simp add: world_inv_def)
qed

text \<open>C7: once an address is on the blocklist, after any sequence of requests every
  login or query from it (with a working store) is answered 403 and changes nothing:
  it never reaches the extractor or the model. No step of the server removes a
  blocklist row.\<close>

theorem blocked_source_never_scored:
  assumes "blocked_in w ip" and "client_ip req = ip" and "\<not> fails e QBlocked"
    and "ev \<in> {Login req, Query req}"
  shows "handle m e (run m evs w) ev = (blocked_response, run m evs w)"
  using grows_blocked_in [OF run_grows assms(1)] assms(2-4) by (rule gate_handle)

text \<open>C8: the forensic log is append-only: after any sequence of requests the log table
  extends the one before.\<close>

theorem run_logs_append_only: "prefix (logs (store w)) (logs (store (run m evs w)))"
  using run_grows [of w m evs] by (simp add: grows_def)

text \<open>C10: the alert list shows what the Decision Engine recorded. After an anomalous
  login that passes the gate and is committed, on a well-formed store, \<open>/api/alerts\<close>
  (default limit, working store) lists that login first: its address, its anomaly flag,
  and the deception profile decoded back from the stored JSON text.\<close>

theorem alerts_show_login_profile:
  assumes "logs_wf (store w)"
    and "blocked_query (fails e) (store w) (client_ip req) = Inr False" and "\<not> fails e CommitLog"
    and "is_anomaly_from_features m (features_from_request (fails e) (store w) (now e) req (client_ip req))"
    and "\<not> fails e' QAlerts" and "md_get (args r) ''limit'' = None"
  shows "\<exists>l items. api_alerts e' (snd (api_login m e w req)) r = Response 200 (JList (alert_item l # items)) \<and>
           log_ip l = client_ip req \<and> log_anomaly l \<and>
           alert_profile (log_profile l) = make_profile e ''suspicious activity detected''"
proof -
  let ?w' = "snd (api_login m e w req)"
  obtain l where l: "logs (store ?w') = logs (store w) @ [l]" "log_ip l = client_ip req"
      "log_anomaly l"
    using login_log_effect [OF assms(2)] assms(3,4) by blast
  have "log_profile l = Some (json_dumps True (make_profile e ''suspicious activity detected''))"
    using login_log_profile [where m = m, OF assms(2,3)] l by simp
  then have prof: "alert_profile (log_profile l) = make_profile e ''suspicious activity detected''"
    by (simp add: alert_profile_dumps)
  have lim: "alerts_limit r = Some 50" using assms(6) by (simp add: alerts_limit_def)
  have "api_alerts e' ?w' r =
          Response 200 (JList (map alert_item (sqlite_limit 50 (rev (logs (store ?w'))))))"
    using api_alerts_wf [OF login_logs_wf [OF assms(1)] lim assms(5)]
    by (simp add: INT64_MIN_def INT64_MAX_def)
  then have "api_alerts e' ?w' r =
          Response 200 (JList (alert_item l # map alert_item (take 49 (rev (logs (store w))))))"
    using l(1) by (simp add: sqlite_limit_def)
  with l(2,3) prof show ?thesis by blast
qed

text \<open>C34: the download links of \<open>/api/tables\<close> are served. After start-up, when no
  file operation fails, every entry of the table list carries a URL
  \<open>base/download/name\<close> whose download serves the file \<open>name\<close>, whatever requests
  come after, since no handler removes a file.\<close>

theorem tables_links_served:
  assumes "\<forall>p. \<not> io_fails e p" and "base_dir e' = base_dir e"
  shows "\<exists>ts. api_tables e' req = Response 200 (JObj ts) \<and>
           (\<forall>kv \<in> set ts. \<exists>n fname f. snd kv = table_entry e' (py_rstrip CHR ''/'' (url_root req)) n fname \<and>
              download_fn e' (run m evs (startup_decoys e w)) fname = FileResponse 200 fname f)"
proof -
  let ?w = "run m evs (startup_decoys e w)"
  have served: "\<exists>f. download_fn e' ?w nm = FileResponse 200 nm f" if "nm \<in> set DECOY_NAMES" for nm
  proof -
    have "files ?w (py_path_join (decoy_dir (base_dir e)) nm) \<noteq> None"
      using startup_decoys_files [OF assms(1)] that by (intro run_files_keep) blast
    then obtain f where "files ?w (py_path_join (decoy_dir (base_dir e')) nm) = Some f"
      using assms(2) by auto
    moreover have "CHR ''/'' \<notin> set nm" "nm \<notin> {[], ''.'', ''..''}" using that by auto
    ultimately show ?thesis using download_decoy_file [where b = nm and e = e'] by blast
  qed
  have s1: "\<exists>f. download_fn e' ?w ''decoy_employees.csv'' = FileResponse 200 ''decoy_employees.csv'' f"
    and s2: "\<exists>f. download_fn e' ?w ''decoy_projects.csv'' = FileResponse 200 ''decoy_projects.csv'' f"
    and s3: "\<exists>f. download_fn e' ?w ''credentials_backup.zip'' =
                FileResponse 200 ''credentials_backup.zip'' f"
    by (simp_all add: served)
  let ?b = "py_rstrip CHR ''/'' (url_root req)"
  let ?ts = "[(''employees'', table_entry e' ?b 200 ''decoy_employees.csv''),
              (''projects'', table_entry e' ?b 50 ''decoy_projects.csv''),
              (''credentials'', table_entry e' ?b 50 ''credentials_backup.zip'')]"
  have "api_tables e' req = Response 200 (JObj ?ts)" by (simp add: api_tables_def Let_def)
  moreover have "\<forall>kv \<in> set ?ts. \<exists>n fname f. snd kv = table_entry e' ?b n fname \<and>
                    download_fn e' ?w fname = FileResponse 200 fname f"
    using s1 s2 s3 by auto
  ultimately show ?thesis by blast
qed

text \<open>C28: the Blocklist Gate fails closed. When the blocklist lookup raises, a login or
  a query is answered by the 500 handler and changes nothing: no row is logged and the
  request is not scored. (The spec asks the gate to fail open for reads, treating the
  source as not blocked.)\<close>

theorem gate_failure_answers_500:
  assumes "fails e QBlocked" and "ev \<in> {Login req, Query req}"
  shows "handle m e w ev = (internal_error_response, w)"
  using assms by (auto simp: blocked_query_def api_login_def api_query_def)

text \<open>C27: blocking an address through \<open>/api/actions/block\<close> with a JSON body
  \<open>{"ip": ip}\<close> (and a reason the store can bind, or none: not a list, a dictionary
  or an int outside 64 bits, which make the insert raise and the request answer 500)
  closes the gate: the next login from that address is answered 403.\<close>

theorem block_then_login_forbidden:
  assumes "silent_json breq = JObj kvs" and "dict_get kvs ''ip'' = JStr ip" and "ip \<noteq> []"
    and "db_bind (dict_get kvs ''reason'') \<noteq> None"
    and "\<not> fails e QBlockAdd" and "client_ip req = ip" and "\<not> fails e' QBlocked"
  shows "api_login m e' (snd (api_block e w breq)) req = (blocked_response, snd (api_block e w breq))"
proof -
  have "blocked_in (snd (api_block e w breq)) ip" using assms(1-5) by (rule block_closes_gate)
  then show ?thesis using assms(6,7) by (simp add: blocked_in_query api_login_def)
qed

text \<open>C14: the operator can always close the gate for good. From any state, for a
  non-empty address and a store that accepts the block, there is a block request after
  which, whatever requests follow, every login from that address is answered 403 and
  changes nothing.\<close>

theorem block_closes_gate_forever:
  assumes "ip \<noteq> []" and "\<not> fails e QBlockAdd"
  shows "\<exists>breq. \<forall>evs req e'. client_ip req = ip \<longrightarrow> \<not> fails e' QBlocked \<longrightarrow>
           handle m e' (run m evs (snd (handle m e w (Block breq)))) (Login req) =
             (blocked_response, run m evs (snd (handle m e w (Block breq))))"
proof
  let ?breq = "block_request ip"
  have "blocked_in (snd (api_block e w ?breq)) ip"
    using assms by (intro block_closes_gate [where kvs = "[(''ip'', JStr ip)]"])
                   (simp_all add: block_request_def silent_json_def dict_get_def)
  then have "blocked_in (run m evs (snd (handle m e w (Block ?breq)))) ip" for evs
    by (simp add: grows_blocked_in [OF run_grows])
  then show "\<forall>evs req e'. client_ip req = ip \<longrightarrow> \<not> fails e' QBlocked \<longrightarrow>
           handle m e' (run m evs (snd (handle m e w (Block ?breq)))) (Login req) =
             (blocked_response, run m evs (snd (handle m e w (Block ?breq))))"
    by (blast intro: gate_handle)
qed

end
