(* ===== verification/Conc.thy ===== *)
theory Conc
  imports System
begin

text \<open>
  Concurrent requests. Flask serves each request in its own thread. The handlers of
  \<open>api_login\<close> and \<open>api_query\<close> read the store (the gate, the rate count), score,
  regenerate the decoy bundle and only then add and commit their log row;
  \<open>api_block\<close> looks the address up (line 461) and only then inserts and commits its
  row (lines 462--464). Between the reads and the commit, other requests run. This
  theory splits the three handlers at the commit, shows that each split is the handler,
  and lets any number of requests be in flight between their reads and their commit,
  interleaved with the steps of the other endpoints and with restarts of the process,
  which lose the writes not yet committed.
\<close>

text \<open>The part of a scoring handler before \<open>db.session.commit()\<close>: its answer, the world
  after its file writes, and the log row it will commit, if any.\<close>

type_synonym prepared = "response \<times> world \<times> log_entry option"

definition login_prepare :: "predictor option \<Rightarrow> env \<Rightarrow> world \<Rightarrow> request \<Rightarrow> prepared" where
  "login_prepare model e w req =
     (let ip = client_ip req in
      case blocked_query (fails e) (store w) ip of
        Inl err \<Rightarrow> (internal_error_response, w, None)
      | Inr blocked \<Rightarrow>
          (if blocked then (blocked_response, w, None)
           else
             (let feat = features_from_request (fails e) (store w) (now e) req ip;
                  anom = is_anomaly_from_features model feat;
                  profile = (if anom then Some (make_profile e ''suspicious activity detected'') else None);
                  (decoy, w1) = (if anom then regenerate_decoy e req w else (None, w));
                  (payload, num_params) = extract_payload_and_params req;
                  l = make_log e req ip payload num_params (feat_payload_len feat) anom profile decoy
              in (login_fail_response, w1, Some l))))"

definition query_prepare :: "predictor option \<Rightarrow> env \<Rightarrow> world \<Rightarrow> request \<Rightarrow> prepared" where
  "query_prepare model e w req =
     (let ip = client_ip req in
      case blocked_query (fails e) (store w) ip of
        Inl err \<Rightarrow> (internal_error_response, w, None)
      | Inr blocked \<Rightarrow>
          (if blocked then (blocked_response, w, None)
           else
             (let q = query_param req;
                  feat = query_features (fails e) (store w) (now e) req ip;
                  anom = is_anomaly_from_features model feat;
                  num_params = snd (extract_payload_and_params req)
              in if anom then
                   (let profile = make_profile e ''data exfiltration'';
                        (decoy, w1) = regenerate_decoy e req w
                    in case select_rows q of
                         Inl err \<Rightarrow> (internal_error_response, w1, None)
                       | Inr rows \<Rightarrow>
                           (query_response rows True decoy, w1,
                            Some (make_log e req ip (py_str q) num_params (feat_payload_len feat) True
                                    (Some profile) decoy)))
                 else (query_response [] False None, w,
                       Some (make_log e req ip (py_str q) num_params (feat_payload_len feat) False None None)))))"

text \<open>The commit, in the environment of the instant it runs.\<close>

definition commit_prepared :: "env \<Rightarrow> prepared \<Rightarrow> response \<times> world" where
  "commit_prepared e p =
     (case p of (r, w1, None) \<Rightarrow> (r, w1) | (r, w1, Some l) \<Rightarrow> (r, write_log e l w1))"

text \<open>\<open>api_block()\<close> up to the lookup of line 461: the JSON checks and
  \<open>Blocklist.query.filter_by(ip=ip).first()\<close>. It ends with an answer (\<open>Inl\<close>) or, when
  no row for the address exists, with the row to insert (\<open>Inr\<close>): the address as
  bound by the lookup and the reason, which is bound only by the insert.\<close>

definition block_prepare :: "env \<Rightarrow> world \<Rightarrow> request \<Rightarrow> response + pystr \<times> json" where
  "block_prepare e w req =
     (let data = silent_json req;
          data' = (if py_truthy data then data else JObj [])
      in case data' of
           JObj kvs \<Rightarrow>
             (let ip = dict_get kvs ''ip'';
                  reason = (case map_of kvs ''reason'' of Some r \<Rightarrow> r | None \<Rightarrow> JStr ''manual'')
              in if \<not> py_truthy ip then Inl ip_required_response
                 else (case db_bind ip of
                         Some (Some ip_txt) \<Rightarrow>
                           (if fails e QBlockAdd then Inl db_error_response
                            else if (\<exists>b \<in> set (blocks (store w)). bl_ip b = ip_txt)
                            then Inl ok_blocked_response
                            else Inr (ip_txt, reason))
                       | _ \<Rightarrow> Inl db_error_response))
         | _ \<Rightarrow> Inl internal_error_response)"

text \<open>The insert and commit of lines 462--464, on the store of the instant they run. The
  column \<open>ip\<close> is \<open>unique=True\<close> (line 61): an insert of an address that has a row by
  now raises \<open>IntegrityError\<close> (a \<open>DatabaseError\<close>), as does a reason that cannot be
  bound or a failing store.\<close>

definition block_insert :: "env \<Rightarrow> pystr \<times> json \<Rightarrow> db \<Rightarrow> py_error + db" where
  "block_insert e p s =
     (case p of (ip_txt, reason) \<Rightarrow>
        if fails e QBlockAdd then Inl DatabaseError
        else if (\<exists>b \<in> set (blocks s). bl_ip b = ip_txt) then Inl DatabaseError
        else (case db_bind reason of
                Some r \<Rightarrow>
                  Inr (s\<lparr>blocks := blocks s @
                         [\<lparr>bl_id = next_id (map bl_id (blocks s)), bl_ip = ip_txt, bl_reason = r,
                           bl_timestamp = now e\<rparr>]\<rparr>)
              | None \<Rightarrow> Inl DatabaseError))"

text \<open>The rest of \<open>api_block()\<close>: the \<open>except\<close> of lines 465--467 answers \<open>db error\<close>.\<close>

definition block_commit :: "env \<Rightarrow> pystr \<times> json \<Rightarrow> world \<Rightarrow> response \<times> world" where
  "block_commit e p w =
     (case block_insert e p (store w) of
        Inl err \<Rightarrow> (db_error_response, w)
      | Inr s' \<Rightarrow> (ok_blocked_response, w\<lparr>store := s'\<rparr>))"

text \<open>A write between a request's reads and its commit: a log row of \<open>api_login\<close> or
  \<open>api_query\<close>, or a blocklist row of \<open>api_block\<close>.\<close>

datatype pending_commit = is_log: PLog log_entry | PBlock pystr json

fun commit_pending :: "env \<Rightarrow> pending_commit \<Rightarrow> world \<Rightarrow> world" where
  "commit_pending e (PLog l) w = write_log e l w"
| "commit_pending e (PBlock ip r) w = snd (block_commit e (ip, r) w)"

text \<open>The server with the writes of the requests between their reads and their commit.\<close>

record cstate =
  cw :: world
  inflight :: "pending_commit list"

definition pending :: "log_entry option \<Rightarrow> pending_commit list" where
  "pending lo = (case lo of None \<Rightarrow> [] | Some l \<Rightarrow> [PLog l])"

inductive cstep :: "predictor option \<Rightarrow> cstate \<Rightarrow> cstate \<Rightarrow> bool" for m where
  begin_login: "login_prepare m e (cw S) req = (r, w1, lo) \<Longrightarrow>
    cstep m S \<lparr>cw = w1, inflight = inflight S @ pending lo\<rparr>"
| begin_query: "query_prepare m e (cw S) req = (r, w1, lo) \<Longrightarrow>
    cstep m S \<lparr>cw = w1, inflight = inflight S @ pending lo\<rparr>"
| begin_block: "block_prepare e (cw S) req = Inr p \<Longrightarrow>
    cstep m S (S\<lparr>inflight := inflight S @ [PBlock (fst p) (snd p)]\<rparr>)"
| commit: "i < length (inflight S) \<Longrightarrow>
    cstep m S \<lparr>cw = commit_pending e (inflight S ! i) (cw S),
              inflight = take i (inflight S) @ drop (Suc i) (inflight S)\<rparr>"
| atomic: "cstep m S (S\<lparr>cw := snd (handle m e (cw S) ev)\<rparr>)"
| restart: "cstep m S \<lparr>cw = startup_decoys e (cw S), inflight = []\<rparr>"

inductive creach :: "predictor option \<Rightarrow> cstate \<Rightarrow> bool" for m where
  init: "creach m \<lparr>cw = init_world, inflight = []\<rparr>"
| step: "creach m S \<Longrightarrow> cstep m S S' \<Longrightarrow> creach m S'"

subsection \<open>Lemmas\<close>

text \<open>The split is the handler. Running the part of \<open>api_login\<close> or \<open>api_query\<close>
  before the commit and then the commit, in the same environment, is the handler.\<close>

lemma handlers_split:
  "api_login m e w req = commit_prepared e (login_prepare m e w req) \<and>
   api_query m e w req = commit_prepared e (query_prepare m e w req)"
proof
  show "api_login m e w req = commit_prepared e (login_prepare m e w req)"
  proof (cases "blocked_query (fails e) (store w) (client_ip req)")
    case (Inl err)
    then show ?thesis by (simp add: api_login_def login_prepare_def commit_prepared_def)
  next
    case (Inr b)
    then show ?thesis
      by (cases b) (simp_all add: api_login_def login_prepare_def commit_prepared_def Let_def case_prod_unfold)
  qed
  show "api_query m e w req = commit_prepared e (query_prepare m e w req)"
  proof (cases "blocked_query (fails e) (store w) (client_ip req)")
    case (Inl err)
    then show ?thesis by (simp add: api_query_def query_prepare_def commit_prepared_def)
  next
    case (Inr b)
    show ?thesis
    proof (cases b)
      case True
      with Inr show ?thesis by (simp add: api_query_def query_prepare_def commit_prepared_def)
    next
      case False
      with Inr show ?thesis
        by (simp add: api_query_def query_prepare_def query_finish_def commit_prepared_def Let_def
            case_prod_unfold split: sum.split)
    qed
  qed
qed

lemma login_prepare_store [simp]: "store (fst (snd (login_prepare m e w req))) = store w"
proof (cases "blocked_query (fails e) (store w) (client_ip req)")
  case (Inl err)
  then show ?thesis by (simp add: login_prepare_def)
next
  case (Inr b)
  then show ?thesis by (cases b) (simp_all add: login_prepare_def Let_def case_prod_unfold)
qed

lemma query_prepare_store [simp]: "store (fst (snd (query_prepare m e w req))) = store w"
proof (cases "blocked_query (fails e) (store w) (client_ip req)")
  case (Inl err)
  then show ?thesis by (simp add: query_prepare_def)
next
  case (Inr b)
  then show ?thesis
    by (cases b) (simp_all add: query_prepare_def Let_def case_prod_unfold split: sum.split)
qed

text \<open>A login that passes the gate takes a row for its address to the commit.\<close>

lemma login_prepare_row:
  assumes "blocked_query (fails e) (store w) (client_ip req) = Inr False"
  shows "\<exists>l. snd (snd (login_prepare m e w req)) = Some l \<and> log_ip l = client_ip req"
  using assms by (simp add: login_prepare_def Let_def case_prod_unfold make_log_def)

lemma block_prepare_Inr:
  "block_prepare e w req = Inr p \<Longrightarrow> \<not> fails e QBlockAdd \<and> (\<forall>b \<in> set (blocks (store w)). bl_ip b \<noteq> fst p)"
  by (auto simp: block_prepare_def Let_def split: json.splits if_splits option.splits)

text \<open>\<open>api_block\<close> is its lookup followed by its insert, in the same environment.\<close>

lemma api_block_split:
  "api_block e w req = (case block_prepare e w req of Inl r \<Rightarrow> (r, w) | Inr p \<Rightarrow> block_commit e p w)"
  by (auto simp: api_block_def block_prepare_def block_add_def block_commit_def block_insert_def Let_def
           split: json.splits option.splits sum.splits)

lemma block_insert_wf: "blocks_wf s \<Longrightarrow> block_insert e p s = Inr s' \<Longrightarrow> blocks_wf s'"
  by (auto simp: block_insert_def blocks_wf_def split: prod.splits if_splits option.splits)

lemma block_insert_logs: "block_insert e p s = Inr s' \<Longrightarrow> logs s' = logs s"
  by (auto simp: block_insert_def split: prod.splits if_splits option.splits)

lemma block_commit_inv: "world_inv w \<Longrightarrow> world_inv (snd (block_commit e p w))"
  by (auto simp: block_commit_def world_inv_def logs_wf_def block_insert_logs
           intro: block_insert_wf split: sum.split)

lemma block_commit_logs [simp]: "logs (store (snd (block_commit e p w))) = logs (store w)"
  by (simp add: block_commit_def block_insert_logs split: sum.split)

lemma commit_pending_inv:
  assumes "world_inv w"
  shows "world_inv (commit_pending e c w)"
proof (cases c)
  case (PLog l)
  then show ?thesis using assms by (simp add: world_inv_def blocks_wf_def write_log_wf)
next
  case (PBlock ip r)
  then show ?thesis using block_commit_inv [OF assms] by simp
qed

lemma cstep_inv: "cstep m S S' \<Longrightarrow> world_inv (cw S) \<Longrightarrow> world_inv (cw S')"
proof (induction rule: cstep.induct)
  case (begin_login e S req r w1 lo)
  then show ?case using login_prepare_store [of m e "cw S" req] by (simp add: world_inv_def)
next
  case (begin_query e S req r w1 lo)
  then show ?case using query_prepare_store [of m e "cw S" req] by (simp add: world_inv_def)
next
  case (begin_block e S req p)
  then show ?case by simp
next
  case (commit i S e)
  then show ?case by (simp add: commit_pending_inv)
next
  case (atomic S e ev)
  then show ?case by (simp add: handle_inv)
next
  case (restart S e)
  then show ?case by (simp add: world_inv_def)
qed

text \<open>C15: the store invariant holds under every interleaving of requests: whatever
  requests are in flight between their reads and their commits, and in whatever order
  the commits land, log ids increase along the table and every address is on the
  blocklist at most once. Two block requests for one address can both pass the lookup
  of line 461; the second insert is refused by the unique constraint on the column
  (line 61), which is what keeps the blocklist free of duplicates.\<close>

theorem creach_world_inv: "creach m S \<Longrightarrow> world_inv (cw S)"
proof (induction rule: creach.induct)
  case init
  show ?case by (simp add: init_world_inv)
next
  case (step S S')
  then show ?case by (blast intro: cstep_inv)
qed

text \<open>Handling requests one after the other is one of the interleavings: every state of
  the sequential server is a state of the concurrent one with nothing in flight.\<close>

lemma reachable_creach: "reachable m w \<Longrightarrow> creach m \<lparr>cw = w, inflight = []\<rparr>"
proof (induction rule: reachable.induct)
  case init
  show ?case by (rule creach.init)
next
  case (step w e ev)
  have "cstep m \<lparr>cw = w, inflight = []\<rparr> (\<lparr>cw = w, inflight = []\<rparr>\<lparr>cw := snd (handle m e w ev)\<rparr>)"
    using cstep.atomic [of m "\<lparr>cw = w, inflight = []\<rparr>" e ev] by simp
  with step.IH show ?case by (auto intro: creach.step)
next
  case (restart w e)
  have "cstep m \<lparr>cw = w, inflight = []\<rparr> \<lparr>cw = startup_decoys e w, inflight = []\<rparr>"
    using cstep.restart [of m "\<lparr>cw = w, inflight = []\<rparr>" e] by simp
  with restart.IH show ?case by (auto intro: creach.step)
qed

text \<open>C16: the Blocklist Gate is checked before the commit, not at it. A login from an
  address that is not blocked reads the gate; an operator blocks the address; the login
  then commits, and the log gains a fresh row for the address that is now blocked.\<close>

theorem login_races_block:
  fixes e eb ec :: env
  assumes "\<not> blocked_in w ip" and "client_ip req = ip" and "\<not> fails e QBlocked"
    and "ip \<noteq> []" and "\<not> fails eb QBlockAdd" and "\<not> fails ec CommitLog"
  shows "\<exists>S1 S2 S3. cstep m \<lparr>cw = w, inflight = []\<rparr> S1 \<and> cstep m S1 S2 \<and> cstep m S2 S3 \<and>
           blocked_in (cw S2) ip \<and>
           (\<exists>l. logs (store (cw S3)) = logs (store (cw S2)) @ [l] \<and> log_ip l = ip)"
proof -
  let ?S0 = "\<lparr>cw = w, inflight = []\<rparr>"
  have gate: "blocked_query (fails e) (store w) (client_ip req) = Inr False"
    using assms(1-3) by (auto simp: blocked_query_def blocked_in_def)
  obtain l where l: "snd (snd (login_prepare m e w req)) = Some l" "log_ip l = ip"
    using login_prepare_row [OF gate, of m] assms(2) by auto
  obtain r w1 where p: "login_prepare m e w req = (r, w1, Some l)"
    using l(1) by (cases "login_prepare m e w req") auto
  let ?S1 = "\<lparr>cw = w1, inflight = [PLog l]\<rparr>"
  have s1: "cstep m ?S0 ?S1" using cstep.begin_login [of m e ?S0 req r w1 "Some l"] p
    by (simp add: pending_def)
  let ?S2 = "?S1\<lparr>cw := snd (handle m eb w1 (Block (block_request ip)))\<rparr>"
  have s2: "cstep m ?S1 ?S2" using cstep.atomic [of m ?S1 eb "Block (block_request ip)"] by simp
  have b: "blocked_in (cw ?S2) ip"
    using assms(4,5) by (simp, intro block_closes_gate [where kvs = "[(''ip'', JStr ip)]"])
                        (simp_all add: block_request_def silent_json_def dict_get_def)
  let ?S3 = "\<lparr>cw = write_log ec l (cw ?S2), inflight = []\<rparr>"
  have s3: "cstep m ?S2 ?S3" using cstep.commit [of 0 ?S2 m ec] by simp
  have "logs (store (cw ?S3)) = logs (store (cw ?S2)) @ [l\<lparr>log_id := next_id (map log_id (logs (store (cw ?S2)))),
                                                          log_timestamp := now ec\<rparr>]"
    using assms(6) by (simp add: write_log_ok)
  with s1 s2 s3 b l(2) show ?thesis by fastforce
qed

text \<open>C17: two block requests for the same address race. Both run the lookup of line 461
  before either inserts, so both go on to insert. The first insert commits the row. The
  second hits the unique constraint of line 61, and its request answers \<open>db error\<close>
  with status 500, although the address is now blocked. The table keeps exactly one row
  for the address.\<close>

theorem block_race_second_fails:
  assumes "block_prepare e w req = Inr p" and "block_prepare e' w req' = Inr p'"
    and "fst p' = fst p" and "db_bind (snd p) \<noteq> None" and "\<not> fails ec QBlockAdd"
  shows "fst (block_commit ec p w) = ok_blocked_response \<and>
         block_commit ec' p' (snd (block_commit ec p w)) = (db_error_response, snd (block_commit ec p w)) \<and>
         length (filter (\<lambda>b. bl_ip b = fst p) (blocks (store (snd (block_commit ec p w))))) = 1"
proof -
  obtain ip r where p: "p = (ip, r)" by (cases p)
  obtain r' where r: "db_bind r = Some r'" using assms(4) p by auto
  have none: "\<forall>b \<in> set (blocks (store w)). bl_ip b \<noteq> ip" using block_prepare_Inr [OF assms(1)] p by simp
  let ?row = "\<lparr>bl_id = next_id (map bl_id (blocks (store w))), bl_ip = ip, bl_reason = r',
              bl_timestamp = now ec\<rparr>"
  let ?w1 = "w\<lparr>store := store w\<lparr>blocks := blocks (store w) @ [?row]\<rparr>\<rparr>"
  have first: "block_commit ec p w = (ok_blocked_response, ?w1)"
    using assms(5) none r p by (auto simp: block_commit_def block_insert_def)
  have second: "block_commit ec' p' ?w1 = (db_error_response, ?w1)"
    using assms(3) p by (cases p') (auto simp: block_commit_def block_insert_def)
  have "filter (\<lambda>b. bl_ip b = ip) (blocks (store w)) = []" using none by (simp add: filter_empty_conv)
  then show ?thesis using first second p by simp
qed

text \<open>The writes in flight can always be committed: with a working store, committing the
  oldest write first, one step per write empties the set of requests in flight and adds
  one row to the log per log row in flight.\<close>

lemma drain_inflight:
  fixes e :: env
  assumes "\<not> fails e CommitLog"
  shows "\<exists>S'. (cstep m)\<^sup>*\<^sup>* S S' \<and> inflight S' = [] \<and>
              length (logs (store (cw S'))) =
                length (logs (store (cw S))) + length (filter is_log (inflight S))"
proof (induction "inflight S" arbitrary: S)
  case Nil
  then show ?case by auto
next
  case (Cons c cs)
  let ?S1 = "\<lparr>cw = commit_pending e c (cw S), inflight = cs\<rparr>"
  have "cstep m S ?S1"
    using cstep.commit [of 0 S m e] Cons.hyps(2) [symmetric] by simp
  moreover obtain S' where "(cstep m)\<^sup>*\<^sup>* ?S1 S'" "inflight S' = []"
      "length (logs (store (cw S'))) = length (logs (store (cw ?S1))) + length (filter is_log cs)"
    using Cons.hyps(1) [of ?S1] by auto
  moreover have "length (logs (store (commit_pending e c (cw S)))) =
                   length (logs (store (cw S))) + (if is_log c then 1 else 0)"
    using assms by (cases c) (simp_all add: write_log_ok)
  ultimately show ?case using Cons.hyps(2) [symmetric]
    by (auto intro: converse_rtranclp_into_rtranclp)
qed

end
