(* ===== verification/Spec2Isabelle.thy ===== *)
theory Spec2Isabelle
  imports Conc
begin

text \<open>
  \<^bold>\<open>Suraksha Mirage: a verification development of the honeypot back end.\<close>

  The repository is a Flask honeypot (\<open>src/Backend/app.py\<close>, with an earlier version of
  the same service in \<open>src/app.py\<close>). Its core is the Behavioural Scoring and Deception
  Decision Engine: a request to \<open>/api/login\<close> or \<open>/api/query\<close> passes the Blocklist Gate,
  is turned into a five-feature vector (payload length, requests in the last minute,
  scanner user agent, SQL signature, suspicious characters), is scored by an
  \<open>IsolationForest\<close>, and on an anomaly gets a deception profile and a freshly
  regenerated decoy bundle; every scored request leaves a forensic row in the log table.
  \<open>/api/actions/block\<close> adds addresses to the blocklist. Around the core, the decoy
  generators write fake employee, project and credential files that \<open>/download\<close>
  serves, and the read-only views \<open>/\<close>, \<open>/api/status\<close>, \<open>/api/tables\<close>, \<open>/api/alerts\<close>
  and \<open>/api/export_report\<close> show and export the log table.

  \<^bold>\<open>Theories and what they model.\<close>
  \<^item> \<open>Prelude\<close>: the Python string operations the code calls (\<open>in\<close>, \<open>startswith\<close>,
    \<open>upper\<close>, \<open>lower\<close>, \<open>title\<close>, \<open>strip\<close>, \<open>join\<close>, \<open>rstrip\<close>, \<open>os.path.basename\<close>,
    \<open>os.path.join\<close>, \<open>str(int)\<close>, \<open>int(str)\<close>) as executable functions, the exception
    type, and their lemmas (\<open>int(str(i)) = i\<close>, \<open>basename\<close> has no slash).
  \<^item> \<open>Json\<close>: the JSON values the handlers receive, Python truthiness, \<open>dict.get\<close>,
    CPython's \<open>json.dumps\<close> in both \<open>ensure_ascii\<close> modes, Python's \<open>str\<close>/\<open>repr\<close>,
    and a decoder of string escapes (every escaped string decodes back; the escaped text
    is printable).
  \<^item> \<open>JsonLoads\<close>: \<open>json.loads\<close> as a recursive descent with fuel (strings, integers,
    literals, lists, objects with Python's last-value-wins keys); enough fuel is
    \<open>2 * length + 1\<close>, so the descent always answers, and it decodes every
    well-formed \<open>json.dumps\<close> output back to its value.
  \<^item> \<open>Csv\<close>: Python's \<open>csv.writer\<close> (minimal quoting, CR LF line ends) and a reader;
    reading back the written text gives the rows.
  \<^item> \<open>DateTime\<close>: \<open>isoformat()\<close> and \<open>strftime("%Y%m%d%H%M%S")\<close> of a microsecond
    timestamp, through CPython's \<open>_ord2ymd\<close>; on the ordinals a \<open>datetime\<close> can hold,
    the month is 1 to 12 and the day 1 to 31 (checked on every day of both kinds of year
    by evaluation), so the two formats have fixed widths.
  \<^item> \<open>Signatures\<close>: \<open>has_sql_signature\<close>, \<open>count_special_chars\<close> and the user-agent
    test of \<open>src/Backend/app.py\<close> lines 71--85 and 127, and the \<open>src/app.py\<close> versions
    (redundant signatures, C22; the legacy crash, C31), and the suspicious characters
    that \<open>json.dumps\<close> syntax adds.
  \<^item> \<open>Payload\<close>: the request record and \<open>extract_payload_and_params\<close> (lines 95--120),
    werkzeug's header and \<open>MultiDict\<close> semantics, and the spec's
    \<open>Structured | FormEncoded | Raw\<close> view of a body, written from section 4.2 of the
    spec, and the theorem that the code follows it except in two named cases (C23).
  \<^item> \<open>Store\<close>: the \<open>Log\<close> and \<open>Blocklist\<close> tables (lines 43--63) as row lists, the
    failing store operations as an input, the Rate Tracker \<open>get_reqs_per_min\<close>
    (lines 87--93) and the log commit.
  \<^item> \<open>Features\<close>: \<open>features_from_request\<close> (lines 122--137; \<open>src/app.py\<close> 78--95) and
    the row the model scores (unusable JSON bodies, C24; the suspicious characters of a
    JSON object, C25).
  \<^item> \<open>Model\<close>: the model as an opaque \<open>predictor\<close>, \<open>is_anomaly_from_features\<close> (lines
    169--178) and the start-up load-or-train sequence of both files, each call of
    \<open>train_model()\<close> with its own outcome (C29, C30).
  \<^item> \<open>Web\<close>: responses, the files the service writes, the per-request environment
    (clock, failing store operations and file paths, \<open>Faker\<close> draws, \<open>BASE_DIR\<close>), the
    server state (store, files, regeneration count), the client address rule, the
    download path (C26) and the 500 handler.
  \<^item> \<open>Blocklist\<close>: \<open>api_block\<close> (lines 453--468) with SQLite's binding of non-string
    values (a list, a dictionary or an int outside 64 bits raises).
  \<^item> \<open>Decoys\<close>: the generators \<open>gen_employees_csv\<close>, \<open>gen_projects_csv\<close>,
    \<open>gen_credentials_zip\<close> (lines 183--247), the start-up generation (lines 248--253),
    \<open>download_fn\<close> (lines 325--332), \<open>/api/decoy/generate\<close> (lines 470--476) and the 404
    handler: the decoy reference is served (C11), generated files are listed and served
    (C12), and a failed write is still listed and then answers 404 (C32).
  \<^item> \<open>Engine\<close>: \<open>api_login\<close> and \<open>api_query\<close> (lines 363--451): the gate (C1, C2), the
    honeypot answer (C3), the forensic row (C5), the rate window (C18, C19), the
    fabricated row of a flagged \<open>SELECT\<close> (C20) and the crash on a numeric \<open>q\<close> (C21).
  \<^item> \<open>Reports\<close>: \<open>root\<close>, \<open>api_status\<close>, \<open>api_tables\<close>, \<open>api_alerts\<close> and
    \<open>api_export_report\<close> (lines 258--323, 334--361, 478--501): newest alerts first as a
    refinement of reversing the table (C9), the uncaught \<open>int()\<close> of the limit (C33), and
    the export that writes its report and answers 500 (C13).
  \<^item> \<open>System\<close>: the ten endpoints as events of a state machine, with start-up as a
    restart step, reachable states and runs: store invariant (C6), blocklist permanence
    (C7), append-only log (C8), alerts show the profile a login stored (C10), a block
    closes the gate for good (C14), block then login (C27), the gate fails closed when
    its lookup raises (C28), and the table links are served after start-up whatever
    follows (C34).
  \<^item> \<open>Conc\<close>: concurrent requests. \<open>api_login\<close> and \<open>api_query\<close> are split at
    \<open>db.session.commit()\<close>, and \<open>api_block\<close> between its lookup (line 461) and its
    insert (lines 462--464), where the unique constraint on the address (line 61)
    refuses a second row; each split is proved to be the handler. A step relation
    interleaves the writes in flight with the other endpoints and with restarts. The
    store invariant holds under every interleaving, because of that constraint (C15);
    the sequential server is one of the interleavings; the writes in flight can always
    be committed; a block that lands between a login's gate and its commit does not stop
    the row (C16); and of two racing blocks of one address the second answers 500 (C17).
  \<^item> this theory: end-to-end properties of the engine (fail-safe scoring, C4), the rate
    the tenth login of a burst is scored with (C35), and a witness for every claim.

  \<^bold>\<open>Modelling choices.\<close> Strings are character lists with one character per code point;
  the model covers code points below 256 and maps case exactly on ASCII letters. Time is
  an integer number of microseconds; one request happens at one instant (its queries,
  its log row and the timestamps it prints share it). The outside world a request sees
  is an explicit \<open>env\<close>: which store operations raise, which file paths cannot be opened,
  what \<open>Faker\<close> draws for each row, the text of a store exception and the library's
  \<open>datetime.fromisoformat\<close>. Files are a map from paths to their content (CSV rows or
  ZIP members); a write that fails after its open is not modelled. The
  \<open>IsolationForest\<close> is an arbitrary function from the five-feature row to a prediction
  or an exception: every theorem holds for every model, and a scenario that needs a
  verdict assumes the model's answer on its row. \<open>System\<close> handles requests one at
  a time; \<open>Conc\<close> interleaves them at the grain of the commit: a handler's reads, scoring
  and file writes are one step and its commit another. \<open>train n\<close> is the outcome of the
  \<open>n\<close>-th call of \<open>train_model()\<close>: its fit is seeded, but its \<open>joblib.dump\<close> can fail.
  The only loop that is not structural recursion is the descent of \<open>json.loads\<close>,
  given the fuel \<open>2 * length s + 1\<close>: each call on the text consumes a character before
  it recurses on the rest or a nested value, and the fuel theorem shows that this bound
  is never exhausted. SQLite's \<open>LIMIT\<close> reads a negative bound as no bound and refuses
  to bind a value outside 64 bits.

  \<^bold>\<open>Not modelled.\<close> Model training (\<open>train_model\<close>: random synthetic data),
  Flask's routing and JSON parser (a request carries what \<open>get_json\<close> gives; the
  routing table is \<open>System.handle\<close>), the comparison of timestamps inside SQLite (taken
  as the comparison of the instants), logging configuration, directory creation and the
  server loop (only the port it is given, \<open>System.server_port\<close>, is modelled). The
  file \<open>src/app.py\<close> ends at line 138 inside \<open>gen_employees_csv\<close>; what it has is
  modelled beside the backend's versions (the \<open>_legacy\<close> definitions); its
  \<open>Log\<close> and \<open>Blocklist\<close> classes (lines 35--53) have the backend's columns under
  SQLAlchemy's default table names and are the records of \<open>Store\<close>. Training is left out
  because its result is fixed by numpy's seeded generator and scikit-learn's randomised
  tree fitting, library internals the repository only consumes through \<open>predict\<close>; the
  theorems hold for every predictor instead. JSON floats and
  unicode escapes above 255 are refused by the \<open>json.loads\<close> model. Finer
  interleavings than the commit (between the gate query and the rate count of one
  request) are not modelled.
\<close>

section \<open>Scenario data\<close>

text \<open>What \<open>Faker\<close> draws for a decoy row in the scenarios.\<close>

definition ex_emp :: emp_draw where
  "ex_emp = \<lparr>emp_name = ''Jane Roe'', emp_email = ''jane.roe@example.com'', emp_dept = ''Ops'',
     emp_job = ''Engineer'', emp_phone = ''555-0100'', emp_join = ''2022-03-14'', emp_salary = 90000,
     emp_password = ''x7Kq2mPz9a''\<rparr>"

definition ex_proj :: proj_draw where
  "ex_proj = \<lparr>proj_bs = ''synergize scalable portals'', proj_sentence = ''Quarterly roadmap.'',
     proj_email = ''lead@example.com'', proj_user = ''jroe'', proj_word = ''atlas'', proj_lex = ''abcd''\<rparr>"

definition ex_cred :: cred_draw where
  "ex_cred = \<lparr>cred_domain = ''vault'', cred_user = ''svc_backup'', cred_password = ''Zx81!ab9Qw2e'',
     cred_lex = ''xyz''\<rparr>"

definition ex_env :: env where
  "ex_env = \<lparr>now = 1000000000, fails = (\<lambda>_. False), fake_name = ''Jane Roe'', base_dir = ''/srv/app'',
             io_fails = (\<lambda>_. False), draw_emp = (\<lambda>_. ex_emp), draw_proj = (\<lambda>_. ex_proj),
             draw_cred = (\<lambda>_. ex_cred), db_err_text = ''database is locked'',
             from_iso = (\<lambda>_. None)\<rparr>"

text \<open>The spec's attack: a raw body with a \<open>UNION SELECT\<close> and the \<open>curl\<close> client.\<close>

definition ex_attack :: request where
  "ex_attack = \<lparr>remote_addr = Some ''203.0.113.7'', headers = [(''User-Agent'', ''curl/7.68'')],
     req_path = ''/api/query'', req_method = ''POST'', url_root = ''http://honeypot.local/'',
     is_json = False, json_body = JParseError, form = Some [],
     body_text = ''id=1 UNION SELECT * FROM users'', args = []\<rparr>"

text \<open>The spec's benign login: \<open>{"user":"a","pass":"b"}\<close> from a browser.\<close>

definition ex_browser_body :: json where
  "ex_browser_body = JObj [(''user'', JStr ''a''), (''pass'', JStr ''b'')]"

definition ex_browser :: request where
  "ex_browser = \<lparr>remote_addr = Some ''198.51.100.20'',
     headers = [(''User-Agent'', ''Mozilla/5.0 (X11; Linux x86_64) Firefox/128.0'')],
     req_path = ''/api/login'', req_method = ''POST'', url_root = ''http://honeypot.local/'',
     is_json = True, json_body = JParsed ex_browser_body,
     form = Some [], body_text = json_dumps False ex_browser_body, args = []\<rparr>"

text \<open>A block request for the attacker's address.\<close>

definition ex_block :: request where
  "ex_block = \<lparr>remote_addr = Some ''127.0.0.1'', headers = [],
     req_path = ''/api/actions/block'', req_method = ''POST'', url_root = ''http://honeypot.local/'',
     is_json = True, json_body = JParsed (JObj [(''ip'', JStr ''203.0.113.7'')]),
     form = Some [], body_text = [], args = []\<rparr>"

text \<open>A stand-in for the trained forest that flags rows with both the scanner and the
  SQL flag.\<close>

definition ex_model :: predictor where
  "ex_model row = (if row ! 2 = 1 \<and> row ! 3 = 1 then Inr (-1) else Inr 1)"

definition ex_blocked_world :: world where
  "ex_blocked_world =
     \<lparr>store = \<lparr>logs = [], blocks = [\<lparr>bl_id = 1, bl_ip = ''203.0.113.7'', bl_reason = Some ''manual'',
                                     bl_timestamp = 0\<rparr>]\<rparr>,
      decoy_gen = 0, files = Map.empty\<rparr>"

text \<open>A query whose JSON \<open>q\<close> is a number, from a scanner.\<close>

definition ex_numeric_q :: request where
  "ex_numeric_q = \<lparr>remote_addr = Some ''203.0.113.7'', headers = [(''User-Agent'', ''sqlmap/1.7'')],
     req_path = ''/api/query'', req_method = ''POST'', url_root = ''http://honeypot.local/'',
     is_json = True, json_body = JParsed (JObj [(''q'', JInt 1)]),
     form = Some [], body_text = json_dumps False (JObj [(''q'', JInt 1)]), args = []\<rparr>"

text \<open>A login with a JSON content type whose body does not parse.\<close>

definition ex_bad_json :: request where
  "ex_bad_json = \<lparr>remote_addr = Some ''203.0.113.7'', headers = [(''User-Agent'', ''curl/7.68'')],
     req_path = ''/api/login'', req_method = ''POST'', url_root = ''http://honeypot.local/'',
     is_json = True, json_body = JParseError,
     form = Some [], body_text = ''user=admin OR 1=1 --'', args = []\<rparr>"

text \<open>The same login repeated in a list of environments (the spec's rate test).\<close>

fun logins :: "predictor option \<Rightarrow> env list \<Rightarrow> request \<Rightarrow> world \<Rightarrow> world" where
  "logins m [] req w = w"
| "logins m (e # es) req w = logins m es req (snd (api_login m e w req))"

text \<open>An installation where the employees file cannot be opened.\<close>

definition ex_io_broken :: env where
  "ex_io_broken = ex_env\<lparr>io_fails := (\<lambda>p. p = ''/srv/app/decoys/decoy_employees.csv'')\<rparr>"


text \<open>A log table of two rows: a benign login, then an anomalous query.\<close>

definition ex_log1 :: log_entry where
  "ex_log1 = \<lparr>log_id = 1, log_ip = ''198.51.100.20'', log_ua = ''Mozilla/5.0'', log_path = ''/api/login'',
     log_method = ''POST'', log_payload = ''{}'', log_num_params = 0, log_payload_len = 2,
     log_timestamp = 1000000000, log_anomaly = False, log_profile = None, log_decoy_file = None\<rparr>"

definition ex_log2 :: log_entry where
  "ex_log2 = \<lparr>log_id = 2, log_ip = ''203.0.113.7'', log_ua = ''curl/7.68'', log_path = ''/api/query'',
     log_method = ''POST'', log_payload = ''id=1 UNION SELECT * FROM users'', log_num_params = 1,
     log_payload_len = 30, log_timestamp = 1060000000, log_anomaly = True,
     log_profile = Some (json_dumps True (make_profile ex_env ''data exfiltration'')), log_decoy_file = None\<rparr>"

definition ex_log_world :: world where
  "ex_log_world = \<lparr>store = \<lparr>logs = [ex_log1, ex_log2], blocks = []\<rparr>, decoy_gen = 0, files = Map.empty\<rparr>"

text \<open>A \<open>GET /api/alerts?limit=...\<close>.\<close>

definition ex_alerts :: "pystr \<Rightarrow> request" where
  "ex_alerts lim = \<lparr>remote_addr = Some ''127.0.0.1'', headers = [], req_path = ''/api/alerts'',
     req_method = ''GET'', url_root = ''http://honeypot.local/'', is_json = False, json_body = JParseError,
     form = Some [], body_text = [], args = [(''limit'', lim)]\<rparr>"

text \<open>A request environment in which the blocklist lookup raises.\<close>

definition ex_store_down :: env where
  "ex_store_down = ex_env\<lparr>fails := (\<lambda>op. op = QBlocked)\<rparr>"

section \<open>Evaluation rules\<close>

lemmas scenario_defs = ex_env_def ex_attack_def ex_browser_def ex_browser_body_def ex_block_def
  ex_model_def ex_blocked_world_def init_world_def ex_emp_def ex_proj_def ex_cred_def ex_numeric_q_def ex_bad_json_def

lemmas eval_defs = features_from_request_def client_ip_def header_get_def
  extract_payload_and_params_def raw_params_def get_reqs_per_min_def recent_logs_def
  ua_flag_def UA_TOKENS_def py_lower_def py_lower_char_def has_sql_signature_def SQL_SIGS_def
  py_upper_def py_upper_char_def count_special_chars_def SPECIAL_CHARS_def py_simps Let_def
  blocked_query_def query_param_def select_rows_def query_features_def
  is_anomaly_from_features_def feature_row_def regenerate_decoy_def decoy_url_def
  gen_credentials_zip_def decoy_dir_def py_path_join_def
  py_rstrip_def py_basename_def make_profile_def write_log_def append_log_def make_log_def
  md_get_def silent_json_def py_str_def next_id_def dict_get_def
  json_quote_def json_escape_def json_escape_char_def json_short_escape_def

section \<open>End-to-end properties\<close>

lemma not_anomalous_if_no_outlier:
  "\<forall>row. \<exists>err. predict row = Inl err \<Longrightarrow> \<not> is_anomaly_from_features (Some predict) f"
  by (metis is_anomaly_Some_iff sum.distinct(1))

text \<open>C4: scoring fails safe. If the model raises on every row, a query that passes the
  gate is answered 200 as not anomalous, with no rows and no decoy, no exception
  escapes, and the decoy bundle is left alone.\<close>

theorem query_model_failure_safe:
  assumes "blocked_query (fails e) (store w) (client_ip req) = Inr False"
    and "\<forall>row. \<exists>err. predict row = Inl err"
  shows "fst (api_query (Some predict) e w req) = query_response [] False None \<and>
         decoy_gen (snd (api_query (Some predict) e w req)) = decoy_gen w"
  using assms(1)
  by (simp add: api_query_def query_finish_def Let_def not_anomalous_if_no_outlier [OF assms(2)])

lemma logins_rate:
  assumes "\<forall>e \<in> set es. fails e = (\<lambda>_. False) \<and> t - RATE_WINDOW \<le> now e"
    and "\<not> blocked_in w (client_ip req)"
  shows "length (recent_logs (store (logins m es req w)) t (client_ip req)) =
         length (recent_logs (store w) t (client_ip req)) + length es"
  using assms
proof (induction es arbitrary: w)
  case Nil
  then show ?case by simp
next
  case (Cons e es)
  have gate: "blocked_query (fails e) (store w) (client_ip req) = Inr False"
    using Cons.prems by (simp add: blocked_query_def blocked_in_def)
  from login_log_effect [OF gate] Cons.prems obtain l where
    l: "logs (store (snd (api_login m e w req))) = logs (store w) @ [l]"
       "log_ip l = client_ip req" "log_timestamp l = now e"
    by auto
  have "\<not> blocked_in (snd (api_login m e w req)) (client_ip req)"
    using Cons.prems by (simp add: blocked_in_def)
  with Cons.prems have "length (recent_logs (store (logins m es req (snd (api_login m e w req)))) t
        (client_ip req)) =
        length (recent_logs (store (snd (api_login m e w req))) t (client_ip req)) + length es"
    by (intro Cons.IH) auto
  with l Cons.prems show ?case by (simp add: recent_logs_def)
qed

lemma logins_blocks: "blocks (store (logins m es req w)) = blocks (store w)"
  by (induction es arbitrary: w) simp_all

text \<open>C35: the rate the tenth login of a burst sees. Nine logins from one address within
  a minute, then the tenth \<open>api_login\<close> runs: it appends one row, and the verdict that
  row records is the model's verdict on a feature vector whose \<open>requestsPerMinute\<close> is
  9, because the code counts the rows already committed and writes the current
  request's row after scoring. (The spec's test expects at least 10.)\<close>

theorem tenth_login_sees_nine:
  assumes "length es = 9" and "\<forall>e \<in> set es. fails e = (\<lambda>_. False) \<and> now e' - RATE_WINDOW \<le> now e"
    and "recent_logs (store w) (now e') (client_ip req) = []" and "\<not> blocked_in w (client_ip req)"
    and "fails e' = (\<lambda>_. False)"
  shows "\<exists>l. logs (store (snd (api_login m e' (logins m es req w) req))) = logs (store (logins m es req w)) @ [l] \<and>
             log_ip l = client_ip req \<and>
             log_anomaly l = is_anomaly_from_features m
               (features_from_request (fails e') (store (logins m es req w)) (now e') req (client_ip req)) \<and>
             feat_reqs_per_min
               (features_from_request (fails e') (store (logins m es req w)) (now e') req (client_ip req)) = 9"
proof -
  let ?w9 = "logins m es req w"
  have gate: "blocked_query (fails e') (store ?w9) (client_ip req) = Inr False"
    using assms(4,5) by (simp add: blocked_query_def blocked_in_def logins_blocks)
  obtain l where l: "logs (store (snd (api_login m e' ?w9 req))) = logs (store ?w9) @ [l]"
      "log_ip l = client_ip req"
      "log_anomaly l = is_anomaly_from_features m
                         (features_from_request (fails e') (store ?w9) (now e') req (client_ip req))"
    using login_log_effect [OF gate, of m] assms(5) by auto
  have "feat_reqs_per_min (features_from_request (fails e') (store ?w9) (now e') req (client_ip req)) = 9"
    using logins_rate [OF assms(2,4), of m] assms(1,3,5)
    by (simp add: features_from_request_fields get_reqs_per_min_def)
  with l show ?thesis by blast
qed

section \<open>Witnesses\<close>

text \<open>Each claim applied to the scenario data, its hypotheses discharged by evaluation.\<close>

lemma ex_attack_gate_open: "blocked_query (fails ex_env) (store init_world) (client_ip ex_attack) = Inr False"
  by (simp add: eval_defs scenario_defs)

lemma ex_browser_gate_open: "blocked_query (fails ex_env) (store init_world) (client_ip ex_browser) = Inr False"
  by (simp add: eval_defs scenario_defs)

lemma ex_attack_anomalous:
  "is_anomaly_from_features (Some ex_model)
     (query_features (fails ex_env) (store init_world) (now ex_env) ex_attack (client_ip ex_attack))"
  by (simp add: eval_defs scenario_defs)

lemma ex_attack_gate_closed:
  "blocked_query (fails ex_env) (store ex_blocked_world) (client_ip ex_attack) = Inr True"
  by (simp add: eval_defs scenario_defs)

theorem login_blocked_gate_witness:
  "blocked_query (fails ex_env) (store ex_blocked_world) (client_ip ex_attack) = Inr True \<and>
   api_login (Some ex_model) ex_env ex_blocked_world ex_attack = (blocked_response, ex_blocked_world)"
  using Engine.login_blocked_gate [OF ex_attack_gate_closed] ex_attack_gate_closed by simp

theorem query_blocked_gate_witness:
  "blocked_query (fails ex_env) (store ex_blocked_world) (client_ip ex_attack) = Inr True \<and>
   api_query (Some ex_model) ex_env ex_blocked_world ex_attack = (blocked_response, ex_blocked_world)"
  using Engine.query_blocked_gate [OF ex_attack_gate_closed] ex_attack_gate_closed by simp

theorem login_always_401_witness:
  "blocked_query (fails ex_env) (store init_world) (client_ip ex_attack) = Inr False \<and>
   fst (api_login (Some ex_model) ex_env init_world ex_attack) = login_fail_response"
  using Engine.login_always_401 [OF ex_attack_gate_open] ex_attack_gate_open by simp

theorem query_model_failure_safe_witness:
  "blocked_query (fails ex_env) (store init_world) (client_ip ex_attack) = Inr False \<and>
   (\<forall>row. \<exists>err. (\<lambda>_. Inl PredictError :: py_error + int) row = Inl err) \<and>
   fst (api_query (Some (\<lambda>_. Inl PredictError)) ex_env init_world ex_attack) = query_response [] False None \<and>
   decoy_gen (snd (api_query (Some (\<lambda>_. Inl PredictError)) ex_env init_world ex_attack)) = decoy_gen init_world"
proof -
  have h: "\<forall>row. \<exists>err. (\<lambda>_. Inl PredictError :: py_error + int) row = Inl err" by simp
  show ?thesis using query_model_failure_safe [OF ex_attack_gate_open h] ex_attack_gate_open h by simp
qed

theorem login_appends_log_witness:
  "blocked_query (fails ex_env) (store init_world) (client_ip ex_attack) = Inr False \<and>
   \<not> fails ex_env CommitLog \<and>
   (\<exists>l. logs (store (snd (api_login (Some ex_model) ex_env init_world ex_attack))) = [l] \<and>
        log_ip l = ''203.0.113.7'' \<and> log_timestamp l = 1000000000 \<and>
        log_payload l = ''id=1 UNION SELECT * FROM users'' \<and> log_anomaly l)"
proof -
  have c: "\<not> fails ex_env CommitLog" by (simp add: ex_env_def)
  have ip: "client_ip ex_attack = ''203.0.113.7''" by (simp add: eval_defs scenario_defs)
  have p: "fst (extract_payload_and_params ex_attack) = ''id=1 UNION SELECT * FROM users''"
    by (simp add: eval_defs scenario_defs)
  have a: "is_anomaly_from_features (Some ex_model)
             (features_from_request (fails ex_env) (store init_world) (now ex_env) ex_attack (client_ip ex_attack))"
    by (simp add: eval_defs scenario_defs)
  show ?thesis
    using Engine.login_appends_log [OF ex_attack_gate_open c] ex_attack_gate_open c ip p a
    by (auto simp: init_world_def ex_env_def)
qed

theorem reachable_world_inv_witness:
  "reachable (Some ex_model) (snd (handle (Some ex_model) ex_env init_world (Block ex_block))) \<and>
   world_inv (snd (handle (Some ex_model) ex_env init_world (Block ex_block)))"
proof -
  have r: "reachable (Some ex_model) (snd (handle (Some ex_model) ex_env init_world (Block ex_block)))"
    by (rule reachable.step [OF reachable.init])
  show ?thesis using System.reachable_world_inv [OF r] r by simp
qed

theorem blocked_source_never_scored_witness:
  "blocked_in ex_blocked_world ''203.0.113.7'' \<and> client_ip ex_attack = ''203.0.113.7'' \<and>
   \<not> fails ex_env QBlocked \<and> Query ex_attack \<in> {Login ex_attack, Query ex_attack} \<and>
   handle (Some ex_model) ex_env (run (Some ex_model) [(ex_env, Block ex_block), (ex_env, Login ex_browser)] ex_blocked_world)
     (Query ex_attack) =
   (blocked_response, run (Some ex_model) [(ex_env, Block ex_block), (ex_env, Login ex_browser)] ex_blocked_world)"
proof -
  have b: "blocked_in ex_blocked_world ''203.0.113.7''" by (simp add: blocked_in_def ex_blocked_world_def)
  have ip: "client_ip ex_attack = ''203.0.113.7''" by (simp add: eval_defs scenario_defs)
  have f: "\<not> fails ex_env QBlocked" by (simp add: ex_env_def)
  have ev: "Query ex_attack \<in> {Login ex_attack, Query ex_attack}" by simp
  show ?thesis
    using System.blocked_source_never_scored [OF b ip f ev, of "Some ex_model"
        "[(ex_env, Block ex_block), (ex_env, Login ex_browser)]"] b ip f ev
    by (simp del: run.simps)
qed

theorem run_logs_append_only_witness:
  "prefix [ex_log1, ex_log2]
     (logs (store (run (Some ex_model) [(ex_env, Query ex_attack), (ex_env, Block ex_block),
                                        (ex_env, Login ex_browser), (ex_env, Export ex_browser)] ex_log_world))) \<and>
   take 2 (logs (store (run (Some ex_model) [(ex_env, Query ex_attack), (ex_env, Block ex_block),
                                        (ex_env, Login ex_browser), (ex_env, Export ex_browser)] ex_log_world))) =
     [ex_log1, ex_log2]"
proof -
  have p: "prefix [ex_log1, ex_log2]
     (logs (store (run (Some ex_model) [(ex_env, Query ex_attack), (ex_env, Block ex_block),
                                        (ex_env, Login ex_browser), (ex_env, Export ex_browser)] ex_log_world)))"
  proof -
    have e: "logs (store ex_log_world) = [ex_log1, ex_log2]" by (simp add: ex_log_world_def)
    show ?thesis
      using System.run_logs_append_only [of ex_log_world "Some ex_model"
          "[(ex_env, Query ex_attack), (ex_env, Block ex_block), (ex_env, Login ex_browser), (ex_env, Export ex_browser)]"]
      unfolding e .
  qed
  then show ?thesis by (auto simp: prefix_def)
qed

theorem login_rate_increment_witness:
  "blocked_query (fails ex_env) (store init_world) (client_ip ex_attack) = Inr False \<and>
   \<not> fails ex_env CommitLog \<and> \<not> (\<lambda>_. False) QCount \<and> now ex_env - RATE_WINDOW \<le> now ex_env \<and>
   get_reqs_per_min (\<lambda>_. False) (store (snd (api_login (Some ex_model) ex_env init_world ex_attack)))
     (now ex_env) (client_ip ex_attack) = 1"
proof -
  have c: "\<not> fails ex_env CommitLog" by (simp add: ex_env_def)
  have q: "\<not> (\<lambda>_. False) QCount" by simp
  have t: "now ex_env - RATE_WINDOW \<le> now ex_env" by (simp add: RATE_WINDOW_def)
  have z: "get_reqs_per_min (\<lambda>_. False) (store init_world) (now ex_env) (client_ip ex_attack) = 0"
    by (simp add: get_reqs_per_min_def recent_logs_def init_world_def)
  show ?thesis
    using Engine.login_rate_increment [OF ex_attack_gate_open c q t] ex_attack_gate_open c q t z by simp
qed

theorem login_rate_expires_witness:
  "now ex_env < 2000000000 - RATE_WINDOW \<and>
   get_reqs_per_min (\<lambda>_. False) (store (snd (api_login (Some ex_model) ex_env init_world ex_attack)))
     2000000000 ''203.0.113.7'' =
   get_reqs_per_min (\<lambda>_. False) (store init_world) 2000000000 ''203.0.113.7''"
proof -
  have t: "now ex_env < 2000000000 - RATE_WINDOW" by (simp add: ex_env_def RATE_WINDOW_def)
  show ?thesis using Engine.login_rate_expires [OF t] t by simp
qed

theorem query_anomalous_select_witness:
  "blocked_query (fails ex_env) (store init_world) (client_ip ex_attack) = Inr False \<and>
   is_anomaly_from_features (Some ex_model)
     (query_features (fails ex_env) (store init_world) (now ex_env) ex_attack (client_ip ex_attack)) \<and>
   query_param ex_attack = JStr ''id=1 UNION SELECT * FROM users'' \<and>
   py_in ''SELECT'' (py_upper ''id=1 UNION SELECT * FROM users'') \<and>
   fst (api_query (Some ex_model) ex_env init_world ex_attack) =
     query_response [FAKE_ROW] True (fst (regenerate_decoy ex_env ex_attack init_world)) \<and>
   decoy_gen (snd (api_query (Some ex_model) ex_env init_world ex_attack)) = 1"
proof -
  have q: "query_param ex_attack = JStr ''id=1 UNION SELECT * FROM users''"
    by (simp add: eval_defs scenario_defs)
  have s: "py_in ''SELECT'' (py_upper ''id=1 UNION SELECT * FROM users'')"
    by (simp add: eval_defs)
  show ?thesis
    using Engine.query_anomalous_select [OF ex_attack_gate_open ex_attack_anomalous q s]
      ex_attack_gate_open ex_attack_anomalous q s
    by (simp add: init_world_def)
qed

theorem query_nonstr_q_crash_witness:
  "blocked_query (fails ex_env) (store init_world) (client_ip ex_numeric_q) = Inr False \<and>
   is_anomaly_from_features (Some (\<lambda>_. Inr (-1)))
     (query_features (fails ex_env) (store init_world) (now ex_env) ex_numeric_q (client_ip ex_numeric_q)) \<and>
   query_param ex_numeric_q = JInt 1 \<and>
   api_query (Some (\<lambda>_. Inr (-1))) ex_env init_world ex_numeric_q =
     (internal_error_response, snd (regenerate_decoy ex_env ex_numeric_q init_world))"
proof -
  have g: "blocked_query (fails ex_env) (store init_world) (client_ip ex_numeric_q) = Inr False"
    by (simp add: eval_defs scenario_defs ex_numeric_q_def)
  have a: "is_anomaly_from_features (Some (\<lambda>_. Inr (-1)))
     (query_features (fails ex_env) (store init_world) (now ex_env) ex_numeric_q (client_ip ex_numeric_q))"
    by (simp add: is_anomaly_from_features_def)
  have q: "query_param ex_numeric_q = JInt 1"
    by (simp add: query_param_def silent_json_def dict_get_def ex_numeric_q_def)
  show ?thesis
    using Engine.query_nonstr_q_crash [OF g a q] g a q by (simp add: init_world_def)
qed

theorem has_sql_signature_str_min_witness:
  "has_sql_signature (JStr ''1 union select 2'') \<and>
   (\<exists>sig \<in> set SQL_SIGS_MIN. py_in sig (py_upper ''1 union select 2''))"
  using Signatures.has_sql_signature_str_min [of "''1 union select 2''"]
  by (simp add: eval_defs)

theorem extract_refines_spec_witness:
  "json_body_wf ex_attack \<and> \<not> unusable_json ex_attack \<and>
   extract_payload_and_params ex_attack = (''id=1 UNION SELECT * FROM users'', 1)"
proof -
  have w: "json_body_wf ex_attack" by (simp add: json_body_wf_def ex_attack_def)
  have u: "\<not> unusable_json ex_attack" by (simp add: unusable_json_def ex_attack_def)
  have "spec_payload (spec_body ex_attack) = (''id=1 UNION SELECT * FROM users'', 1)"
    by (simp add: spec_body_def spec_raw_params_def ex_attack_def)
  then show ?thesis using Payload.extract_refines_spec [OF w] w u by (simp add: ex_attack_def)
qed

theorem json_fields_special_chars_witness:
  "is_json ex_browser \<and>
   json_body ex_browser = JParsed (JObj (map (\<lambda>(k, v). (k, JStr v)) [(''user'', ''a''), (''pass'', ''b'')])) \<and>
   feat_special_chars (features_from_request (fails ex_env) (store init_world) (now ex_env) ex_browser
     (client_ip ex_browser)) = 10"
proof -
  have j: "is_json ex_browser" by (simp add: ex_browser_def)
  have b: "json_body ex_browser = JParsed (JObj (map (\<lambda>(k, v). (k, JStr v)) [(''user'', ''a''), (''pass'', ''b'')]))"
    by (simp add: ex_browser_def ex_browser_body_def)
  have "sum_list (map (\<lambda>(k, v). count_special_chars (k @ v)) [(''user'', ''a''), (''pass'', ''b'')]) = 0"
    by (simp add: count_special_chars_def SPECIAL_CHARS_def)
  then show ?thesis
    using Features.json_fields_special_chars [OF j b, of "fails ex_env" "store init_world" "now ex_env"
        "client_ip ex_browser"] j b by simp
qed

theorem unusable_json_hides_payload_witness:
  "unusable_json ex_bad_json \<and>
   feat_payload_len (features_from_request (fails ex_env) (store init_world) (now ex_env) ex_bad_json ''203.0.113.7'') = 0 \<and>
   feat_sql_flag (features_from_request (fails ex_env) (store init_world) (now ex_env) ex_bad_json ''203.0.113.7'') = 0 \<and>
   feat_special_chars (features_from_request (fails ex_env) (store init_world) (now ex_env) ex_bad_json ''203.0.113.7'') = 0 \<and>
   feat_num_params (features_from_request (fails ex_env) (store init_world) (now ex_env) ex_bad_json ''203.0.113.7'') = 0"
proof -
  have u: "unusable_json ex_bad_json" by (simp add: unusable_json_def ex_bad_json_def)
  show ?thesis
    using Features.unusable_json_hides_payload [OF u, of "fails ex_env" "store init_world" "now ex_env" "''203.0.113.7''"] u
    by simp
qed

theorem download_path_in_dir_witness:
  "download_path ''/srv/app'' ''../../etc/passwd'' = ''/srv/app/decoys/passwd'' \<and>
   (\<exists>f. download_path ''/srv/app'' ''../../etc/passwd'' = decoy_dir ''/srv/app'' @ ''/'' @ f \<and> CHR ''/'' \<notin> set f)"
  using Web.download_path_in_dir [of "''/srv/app''" "''../../etc/passwd''"]
  by (simp add: download_path_def decoy_dir_def py_path_join_def py_basename_def eval_defs)

theorem block_then_login_forbidden_witness:
  "silent_json ex_block = JObj [(''ip'', JStr ''203.0.113.7'')] \<and>
   api_login (Some ex_model) ex_env (snd (api_block ex_env init_world ex_block)) ex_attack =
     (blocked_response, snd (api_block ex_env init_world ex_block))"
proof -
  have j: "silent_json ex_block = JObj [(''ip'', JStr ''203.0.113.7'')]"
    by (simp add: silent_json_def ex_block_def)
  have i: "dict_get [(''ip'', JStr ''203.0.113.7'')] ''ip'' = JStr ''203.0.113.7''" by (simp add: dict_get_def)
  have n: "''203.0.113.7'' \<noteq> []" by simp
  have r: "db_bind (dict_get [(''ip'', JStr ''203.0.113.7'')] ''reason'') \<noteq> None" by (simp add: dict_get_def)
  have f: "\<not> fails ex_env QBlockAdd" "\<not> fails ex_env QBlocked" by (simp_all add: ex_env_def)
  have ip: "client_ip ex_attack = ''203.0.113.7''" by (simp add: eval_defs scenario_defs)
  show ?thesis
    using System.block_then_login_forbidden [OF j i n r f(1) ip f(2), of "Some ex_model" init_world] j by simp
qed

theorem load_or_train_equiv_witness:
  "load_or_train_legacy False (Inl OSError) (\<lambda>n. if n = 0 then Inl OSError else Inr ex_model) = Inl OSError \<and>
   load_or_train False (Inl OSError) (\<lambda>n. if n = 0 then Inl OSError else Inr ex_model) = Inr ex_model"
  using Model.load_or_train_equiv [of False "Inl OSError" "\<lambda>n. if n = 0 then Inl OSError else Inr ex_model"]
  by (simp add: load_or_train_legacy_def)

theorem legacy_predict_error_escapes_witness:
  "is_anomaly_from_features_legacy (Some (\<lambda>_. Inl PredictError))
     \<lparr>feat_payload_len = 30, feat_reqs_per_min = 0, feat_ua_flag = 1, feat_sql_flag = 1, feat_special_chars = 1\<rparr>
     = Inl PredictError \<and>
   \<not> is_anomaly_from_features (Some (\<lambda>_. Inl PredictError))
     \<lparr>feat_payload_len = 30, feat_reqs_per_min = 0, feat_ua_flag = 1, feat_sql_flag = 1, feat_special_chars = 1\<rparr>"
  using Model.legacy_predict_error_escapes
    [of "\<lambda>_. Inl PredictError" "\<lparr>feat_payload_len = 30, feat_reqs_per_min = 0, feat_ua_flag = 1,
        feat_sql_flag = 1, feat_special_chars = 1\<rparr>" PredictError]
  by simp

theorem legacy_sql_signature_raises_witness:
  "py_truthy (JInt 5) \<and> has_sql_signature_legacy (JInt 5) = Inl AttributeError \<and> \<not> has_sql_signature (JInt 5)"
proof -
  have t: "py_truthy (JInt 5)" by simp
  have s: "\<forall>s. JInt 5 \<noteq> JStr s" by simp
  show ?thesis using Signatures.legacy_sql_signature_raises [OF t s] t by simp
qed

theorem tenth_login_sees_nine_witness:
  "length (replicate 9 ex_env) = 9 \<and> fails ex_env = (\<lambda>_. False) \<and>
   (\<exists>l. logs (store (snd (api_login (Some ex_model) ex_env (logins (Some ex_model) (replicate 9 ex_env) ex_attack init_world) ex_attack))) =
          logs (store (logins (Some ex_model) (replicate 9 ex_env) ex_attack init_world)) @ [l] \<and>
        log_ip l = client_ip ex_attack \<and>
        log_anomaly l = is_anomaly_from_features (Some ex_model)
          (features_from_request (fails ex_env) (store (logins (Some ex_model) (replicate 9 ex_env) ex_attack init_world))
             (now ex_env) ex_attack (client_ip ex_attack)) \<and>
        feat_reqs_per_min (features_from_request (fails ex_env)
          (store (logins (Some ex_model) (replicate 9 ex_env) ex_attack init_world)) (now ex_env) ex_attack
          (client_ip ex_attack)) = 9)"
proof -
  have l: "length (replicate 9 ex_env) = 9" by simp
  have e: "\<forall>e \<in> set (replicate 9 ex_env). fails e = (\<lambda>_. False) \<and> now ex_env - RATE_WINDOW \<le> now e"
    by (simp add: ex_env_def RATE_WINDOW_def)
  have r: "recent_logs (store init_world) (now ex_env) (client_ip ex_attack) = []"
    by (simp add: recent_logs_def init_world_def)
  have b: "\<not> blocked_in init_world (client_ip ex_attack)" by (simp add: blocked_in_def init_world_def)
  have f: "fails ex_env = (\<lambda>_. False)" by (simp add: ex_env_def)
  show ?thesis using tenth_login_sees_nine [OF l e r b f, of "Some ex_model"] l f by blast
qed

lemma ex_log_world_wf: "logs_wf (store ex_log_world)"
  by (simp add: logs_wf_def ex_log_world_def ex_log1_def ex_log2_def)

theorem alerts_newest_first_witness:
  "logs_wf (store ex_log_world) \<and> alerts_limit (ex_alerts '' 1'') = Some 1 \<and> \<not> fails ex_env QAlerts \<and>
   INT64_MIN \<le> 1 \<and> 1 \<le> INT64_MAX \<and>
   api_alerts ex_env ex_log_world (ex_alerts '' 1'') = Response 200 (JList [alert_item ex_log2])"
proof -
  have l: "alerts_limit (ex_alerts '' 1'') = Some 1"
    by (simp add: alerts_limit_def ex_alerts_def md_get_def py_int_parse_def py_strip_def
        py_isspace_def is_ascii_digit_def decimal_value_def)
  have f: "\<not> fails ex_env QAlerts" by (simp add: ex_env_def)
  have b: "INT64_MIN \<le> 1" "1 \<le> INT64_MAX" by (simp_all add: INT64_MIN_def INT64_MAX_def)
  show ?thesis
    using Reports.alerts_newest_first [OF ex_log_world_wf l f b] ex_log_world_wf l f b
    by (simp add: ex_log_world_def)
qed

theorem alerts_bad_limit_witness:
  "md_get (args (ex_alerts ''ten'')) ''limit'' = Some ''ten'' \<and> py_int_parse ''ten'' = None \<and>
   api_alerts ex_env ex_log_world (ex_alerts ''ten'') = internal_error_response"
proof -
  have a: "md_get (args (ex_alerts ''ten'')) ''limit'' = Some ''ten''" by (simp add: ex_alerts_def md_get_def)
  have p: "py_int_parse ''ten'' = None"
    by (simp add: py_int_parse_def py_strip_def py_isspace_def is_ascii_digit_def)
  show ?thesis using Reports.alerts_bad_limit [OF a p] a p by simp
qed

theorem export_report_500_witness:
  "logs_wf (store ex_log_world) \<and> \<not> fails ex_env QExport \<and> \<not> io_fails ex_env (report_path ex_env) \<and>
   api_export_report ex_env ex_log_world (ex_alerts ''1'') =
     (internal_error_response,
      ex_log_world\<lparr>files := (files ex_log_world)(report_path ex_env \<mapsto>
        CsvFile (REPORT_HEADER # map report_row [ex_log2, ex_log1]))\<rparr>)"
proof -
  have f: "\<not> fails ex_env QExport" "\<not> io_fails ex_env (report_path ex_env)" by (simp_all add: ex_env_def)
  show ?thesis
    using Reports.export_report_500 [OF ex_log_world_wf f, of "ex_alerts ''1''"] ex_log_world_wf f
    by (simp add: since_filter_def ex_alerts_def md_get_def ex_log_world_def)
qed

theorem alerts_show_login_profile_witness:
  "logs_wf (store init_world) \<and> \<not> fails ex_env CommitLog \<and> \<not> fails ex_env QAlerts \<and>
   md_get (args ex_attack) ''limit'' = None \<and>
   (\<exists>l items. api_alerts ex_env (snd (api_login (Some ex_model) ex_env init_world ex_attack)) ex_attack =
        Response 200 (JList (alert_item l # items)) \<and>
      log_ip l = ''203.0.113.7'' \<and> log_anomaly l \<and>
      alert_profile (log_profile l) = make_profile ex_env ''suspicious activity detected'')"
proof -
  have w: "logs_wf (store init_world)" by (simp add: init_world_def logs_wf_def)
  have c: "\<not> fails ex_env CommitLog" "\<not> fails ex_env QAlerts" by (simp_all add: ex_env_def)
  have a: "is_anomaly_from_features (Some ex_model)
             (features_from_request (fails ex_env) (store init_world) (now ex_env) ex_attack (client_ip ex_attack))"
    by (simp add: eval_defs scenario_defs)
  have n: "md_get (args ex_attack) ''limit'' = None" by (simp add: ex_attack_def md_get_def)
  have ip: "client_ip ex_attack = ''203.0.113.7''" by (simp add: eval_defs scenario_defs)
  show ?thesis
    using System.alerts_show_login_profile [OF w ex_attack_gate_open c(1) a c(2) n] w c n ip by simp
qed

theorem decoy_reference_served_witness:
  "regenerate_decoy ex_env ex_attack init_world =
     (Some ''http://honeypot.local/download/credentials_backup.zip'', snd (regenerate_decoy ex_env ex_attack init_world)) \<and>
   download_fn ex_env (snd (regenerate_decoy ex_env ex_attack init_world)) ''credentials_backup.zip'' =
     FileResponse 200 ''credentials_backup.zip'' (ZipArchive [(''credentials.csv'', CsvFile (cred_rows ex_env 50))])"
proof -
  have "fst (regenerate_decoy ex_env ex_attack init_world) = Some ''http://honeypot.local/download/credentials_backup.zip''"
    by (simp add: regenerate_decoy_def gen_credentials_zip_def Let_def case_prod_unfold decoy_url_def
        zip_name_basename decoy_path_ne ex_env_def ex_attack_def py_rstrip_def)
  then have r: "regenerate_decoy ex_env ex_attack init_world =
     (Some ''http://honeypot.local/download/credentials_backup.zip'', snd (regenerate_decoy ex_env ex_attack init_world))"
    by (simp add: prod_eq_iff)
  show ?thesis using Decoys.decoy_reference_served [OF r refl] r
    by (simp add: py_rstrip_def ex_attack_def)
qed

theorem decoy_generate_served_witness:
  "(\<forall>p. \<not> io_fails ex_env p) \<and>
   fst (api_decoy_generate ex_env init_world) =
     Response 200 (JObj [(''status'', JStr ''ok''), (''files'', JList (map JStr DECOY_NAMES))]) \<and>
   (\<exists>f. download_fn ex_env (snd (api_decoy_generate ex_env init_world)) ''decoy_projects.csv'' =
          FileResponse 200 ''decoy_projects.csv'' f)"
proof -
  have io: "\<forall>p. \<not> io_fails ex_env p" by (simp add: ex_env_def)
  show ?thesis using Decoys.decoy_generate_served [OF io refl, of init_world] io by simp
qed

theorem decoy_generate_lists_missing_witness:
  "io_fails ex_io_broken (py_path_join (decoy_dir (base_dir ex_io_broken)) ''decoy_employees.csv'') \<and>
   files init_world (py_path_join (decoy_dir (base_dir ex_io_broken)) ''decoy_employees.csv'') = None \<and>
   (\<exists>names. fst (api_decoy_generate ex_io_broken init_world) =
       Response 200 (JObj [(''status'', JStr ''ok''), (''files'', JList (map JStr names))]) \<and>
     ''decoy_employees.csv'' \<in> set names) \<and>
   download_fn ex_io_broken (snd (api_decoy_generate ex_io_broken init_world)) ''decoy_employees.csv'' =
     not_found_response"
proof -
  have p: "py_path_join (decoy_dir (base_dir ex_io_broken)) ''decoy_employees.csv'' =
             ''/srv/app/decoys/decoy_employees.csv''"
    by (simp add: decoy_file_path decoy_dir_def py_path_join_def ex_io_broken_def ex_env_def)
  have i: "io_fails ex_io_broken (py_path_join (decoy_dir (base_dir ex_io_broken)) ''decoy_employees.csv'')"
    unfolding p by (simp add: ex_io_broken_def)
  have n: "files init_world (py_path_join (decoy_dir (base_dir ex_io_broken)) ''decoy_employees.csv'') = None"
    by (simp add: init_world_def)
  show ?thesis using Decoys.decoy_generate_lists_missing [OF i n] i n by simp
qed

theorem tables_links_served_witness:
  "(\<forall>p. \<not> io_fails ex_env p) \<and>
   (\<exists>f. download_fn ex_env (run (Some ex_model) [(ex_env, Login ex_attack)] (startup_decoys ex_env init_world))
          ''decoy_employees.csv'' = FileResponse 200 ''decoy_employees.csv'' f)"
proof -
  have io: "\<forall>p. \<not> io_fails ex_env p" by (simp add: ex_env_def)
  let ?w = "run (Some ex_model) [(ex_env, Login ex_attack)] (startup_decoys ex_env init_world)"
  let ?b = "py_rstrip CHR ''/'' (url_root ex_attack)"
  obtain ts where ts: "api_tables ex_env ex_attack = Response 200 (JObj ts)"
    and all: "\<forall>kv \<in> set ts. \<exists>n fname f. snd kv = table_entry ex_env ?b n fname \<and>
                 download_fn ex_env ?w fname = FileResponse 200 fname f"
    using System.tables_links_served [OF io refl, of ex_attack "Some ex_model" "[(ex_env, Login ex_attack)]" init_world]
    by blast
  have "(''employees'', table_entry ex_env ?b 200 ''decoy_employees.csv'') \<in> set ts"
    using ts by (auto simp: api_tables_def Let_def)
  then obtain n fname f where "table_entry ex_env ?b 200 ''decoy_employees.csv'' = table_entry ex_env ?b n fname"
    and d: "download_fn ex_env ?w fname = FileResponse 200 fname f"
    using all by fastforce
  then have "fname = ''decoy_employees.csv''" by (simp add: table_entry_def)
  with d io show ?thesis by blast
qed

theorem block_closes_gate_forever_witness:
  "''203.0.113.7'' \<noteq> [] \<and> \<not> fails ex_env QBlockAdd \<and>
   (\<exists>breq. handle (Some ex_model) ex_env
             (run (Some ex_model) [(ex_env, Query ex_browser)] (snd (handle (Some ex_model) ex_env init_world (Block breq))))
             (Login ex_attack) =
           (blocked_response,
            run (Some ex_model) [(ex_env, Query ex_browser)] (snd (handle (Some ex_model) ex_env init_world (Block breq)))))"
proof -
  have n: "''203.0.113.7'' \<noteq> []" by simp
  have f: "\<not> fails ex_env QBlockAdd" "\<not> fails ex_env QBlocked" by (simp_all add: ex_env_def)
  have ip: "client_ip ex_attack = ''203.0.113.7''" by (simp add: eval_defs scenario_defs)
  obtain breq where "\<forall>evs req e'. client_ip req = ''203.0.113.7'' \<longrightarrow> \<not> fails e' QBlocked \<longrightarrow>
        handle (Some ex_model) e' (run (Some ex_model) evs (snd (handle (Some ex_model) ex_env init_world (Block breq)))) (Login req) =
          (blocked_response, run (Some ex_model) evs (snd (handle (Some ex_model) ex_env init_world (Block breq))))"
    using System.block_closes_gate_forever [OF n f(1), of "Some ex_model" init_world] by blast
  then show ?thesis using n f ip by blast
qed

theorem creach_world_inv_witness:
  "creach (Some ex_model)
     \<lparr>cw = fst (snd (login_prepare (Some ex_model) ex_env init_world ex_attack)),
      inflight = pending (snd (snd (login_prepare (Some ex_model) ex_env init_world ex_attack)))\<rparr> \<and>
   world_inv (fst (snd (login_prepare (Some ex_model) ex_env init_world ex_attack)))"
proof -
  let ?p = "login_prepare (Some ex_model) ex_env init_world ex_attack"
  let ?S1 = "\<lparr>cw = fst (snd ?p), inflight = pending (snd (snd ?p))\<rparr>"
  have "cstep (Some ex_model) \<lparr>cw = init_world, inflight = []\<rparr> ?S1"
    using cstep.begin_login [of "Some ex_model" ex_env "\<lparr>cw = init_world, inflight = []\<rparr>" ex_attack
        "fst ?p" "fst (snd ?p)" "snd (snd ?p)"] by simp
  then have c: "creach (Some ex_model) ?S1" by (rule creach.step [OF creach.init])
  show ?thesis using Conc.creach_world_inv [OF c] c by simp
qed

theorem login_races_block_witness:
  "\<not> blocked_in init_world ''203.0.113.7'' \<and> client_ip ex_attack = ''203.0.113.7'' \<and>
   \<not> fails ex_env QBlocked \<and> \<not> fails ex_env QBlockAdd \<and> \<not> fails ex_env CommitLog \<and>
   (\<exists>S1 S2 S3. cstep (Some ex_model) \<lparr>cw = init_world, inflight = []\<rparr> S1 \<and>
      cstep (Some ex_model) S1 S2 \<and> cstep (Some ex_model) S2 S3 \<and>
      blocked_in (cw S2) ''203.0.113.7'' \<and>
      (\<exists>l. logs (store (cw S3)) = logs (store (cw S2)) @ [l] \<and> log_ip l = ''203.0.113.7''))"
proof -
  have b: "\<not> blocked_in init_world ''203.0.113.7''" by (simp add: blocked_in_def init_world_def)
  have ip: "client_ip ex_attack = ''203.0.113.7''" by (simp add: eval_defs scenario_defs)
  have f: "\<not> fails ex_env QBlocked" "\<not> fails ex_env QBlockAdd" "\<not> fails ex_env CommitLog"
    by (simp_all add: ex_env_def)
  have n: "''203.0.113.7'' \<noteq> []" by simp
  show ?thesis
    using Conc.login_races_block [OF b ip f(1) n f(2) f(3), of "Some ex_model"] b ip f by simp
qed

theorem block_race_second_fails_witness:
  "block_prepare ex_env init_world ex_block = Inr (''203.0.113.7'', JStr ''manual'') \<and>
   fst (block_commit ex_env (''203.0.113.7'', JStr ''manual'') init_world) = ok_blocked_response \<and>
   block_commit ex_env (''203.0.113.7'', JStr ''manual'')
       (snd (block_commit ex_env (''203.0.113.7'', JStr ''manual'') init_world)) =
     (db_error_response, snd (block_commit ex_env (''203.0.113.7'', JStr ''manual'') init_world)) \<and>
   length (filter (\<lambda>b. bl_ip b = ''203.0.113.7'')
     (blocks (store (snd (block_commit ex_env (''203.0.113.7'', JStr ''manual'') init_world))))) = 1"
proof -
  have p: "block_prepare ex_env init_world ex_block = Inr (''203.0.113.7'', JStr ''manual'')"
    by (simp add: block_prepare_def silent_json_def dict_get_def ex_block_def ex_env_def init_world_def)
  have f: "\<not> fails ex_env QBlockAdd" by (simp add: ex_env_def)
  show ?thesis using Conc.block_race_second_fails [OF p p _ _ f, of ex_env] p by (simp add: INT64_MIN_def)
qed

theorem gate_failure_answers_500_witness:
  "fails ex_store_down QBlocked \<and> Login ex_attack \<in> {Login ex_attack, Query ex_attack} \<and>
   handle (Some ex_model) ex_store_down init_world (Login ex_attack) = (internal_error_response, init_world)"
proof -
  have f: "fails ex_store_down QBlocked" by (simp add: ex_store_down_def)
  have ev: "Login ex_attack \<in> {Login ex_attack, Query ex_attack}" by simp
  show ?thesis using System.gate_failure_answers_500 [OF f ev] f ev by simp
qed

end
